(* ===== verification/Prelude.thy ===== *)
theory Prelude
  imports Complex_Main "HOL-Library.AList"
begin

text \<open>
  Shared vocabulary of the development: the values that cross the boundary
  between the optimisation framework (Optuna), the tracking client (Comet) and
  the callback of \<open>src/optuna_integration/comet.py\<close>; the error values that
  model the Python exceptions; and a state-and-exception monad that models a
  Python method body: every effect done before an exception is kept, as in
  Python, so an operation returns its final state together with either the
  exception (\<open>Inl\<close>) or its result (\<open>Inr\<close>).
\<close>

named_theorems exc_simps "evaluation rules of the state-and-exception monad"
named_theorems model_simps "characteristic equations of the model's helpers"

section \<open>Values exchanged between the components\<close>

text \<open>Experiment keys of the tracking service are strings.\<close>

type_synonym key = string

text \<open>Optuna's \<open>StudyDirection\<close> enum (\<open>optuna/study/_study_direction.py\<close>).\<close>

datatype study_direction = NOT_SET | MINIMIZE | MAXIMIZE

text \<open>
  Values of a trial's parameter mapping (\<open>trial.params\<close>): Optuna's
  distributions produce floats, ints and categorical choices (None, bool, int,
  float or str). Python floats are modelled as \<open>real\<close>.
\<close>

datatype pvalue = PFloat real | PInt int | PStr string | PBool bool | PNone

text \<open>Values passed to \<open>log_other\<close> by the callback: strings and the trial number.\<close>

datatype ovalue = OStr string | ONat nat

text \<open>
  The exceptions the modelled code can raise or let through. \<open>NetworkError n\<close>
  is a failure of the \<open>n\<close>-th remote call (counted from 0 over the whole
  process run), the pass-through of any failure of the tracking service.
\<close>

datatype error =
    ApiKeyMissing
  | ExperimentNotFound key
  | NetworkError nat
  | RuntimeError string
  | IndexError
  | TypeError string
  | AttributeError string
  | NameError string
  | ImportError string
  | ValueError string

section \<open>A state-and-exception monad\<close>

type_synonym ('s, 'a) exc = "'s \<Rightarrow> (error + 'a) \<times> 's"

definition ret :: "'a \<Rightarrow> ('s, 'a) exc" where
  "ret x s = (Inr x, s)"

definition raise :: "error \<Rightarrow> ('s, 'a) exc" where
  "raise e s = (Inl e, s)"

definition bind_exc :: "('s, 'a) exc \<Rightarrow> ('a \<Rightarrow> ('s, 'b) exc) \<Rightarrow> ('s, 'b) exc" where
  "bind_exc m f s = (case m s of (Inl e, s') \<Rightarrow> (Inl e, s') | (Inr x, s') \<Rightarrow> f x s')"

text \<open>Sequencing of a statement whose value is not used.\<close>

definition then_exc :: "('s, unit) exc \<Rightarrow> ('s, 'b) exc \<Rightarrow> ('s, 'b) exc" where
  "then_exc m k = bind_exc m (\<lambda>_. k)"

text \<open>A pure fallible computation (an \<open>error + 'a\<close> value) run inside the monad.\<close>

definition lift_sum :: "error + 'a \<Rightarrow> ('s, 'a) exc" where
  "lift_sum r s = (r, s)"

text \<open>A Python \<open>for\<close> loop over a list whose body is a statement.\<close>

fun for_each :: "'a list \<Rightarrow> ('a \<Rightarrow> ('s, unit) exc) \<Rightarrow> ('s, unit) exc" where
  "for_each [] f = ret ()"
| "for_each (x # xs) f = then_exc (f x) (for_each xs f)"

section \<open>Laws of the monad\<close>

lemma bind_exc_apply [exc_simps]:
  "bind_exc m f s = (case m s of (Inl e, s') \<Rightarrow> (Inl e, s') | (Inr x, s') \<Rightarrow> f x s')"
  by (simp add: bind_exc_def)

lemma then_exc_apply [exc_simps]:
  "then_exc m k s = (case m s of (Inl e, s') \<Rightarrow> (Inl e, s') | (Inr x, s') \<Rightarrow> k s')"
  by (simp add: then_exc_def bind_exc_def)

lemma ret_apply [exc_simps]: "ret x s = (Inr x, s)"
  by (simp add: ret_def)

lemma raise_apply [exc_simps]: "raise e s = (Inl e, s)"
  by (simp add: raise_def)

lemma lift_sum_apply [exc_simps]: "lift_sum r s = (r, s)"
  by (simp add: lift_sum_def)

lemma bind_exc_ret [simp]: "bind_exc (ret x) f = f x"
  by (simp add: fun_eq_iff bind_exc_def ret_def)

lemma bind_exc_raise [simp]: "bind_exc (raise e) f = raise e"
  by (simp add: fun_eq_iff bind_exc_def raise_def)

lemma bind_exc_assoc:
  "bind_exc (bind_exc m f) g = bind_exc m (\<lambda>x. bind_exc (f x) g)"
  by (auto simp: fun_eq_iff bind_exc_def split: prod.splits sum.splits)

lemma lift_sum_Inr [simp]: "lift_sum (Inr x) = ret x"
  by (simp add: fun_eq_iff lift_sum_def ret_def)

lemma lift_sum_Inl [simp]: "lift_sum (Inl e) = raise e"
  by (simp add: fun_eq_iff lift_sum_def raise_def)

lemma then_exc_assoc: "then_exc (then_exc m k) n = then_exc m (then_exc k n)"
  by (simp add: then_exc_def bind_exc_assoc)

lemma for_each_map: "for_each (map g xs) f = for_each xs (\<lambda>x. f (g x))"
  by (induction xs) simp_all

lemma for_each_append: "for_each (xs @ ys) f = then_exc (for_each xs f) (for_each ys f)"
  by (induction xs) (simp_all add: then_exc_assoc, simp add: then_exc_def)

text \<open>
  The step lemma the component proofs use: when the first statement returns
  normally in a known state, the sequence continues from there.
\<close>

lemma bind_exc_Inr [simp]: "m s = (Inr x, s') \<Longrightarrow> bind_exc m f s = f x s'"
  by (simp add: bind_exc_def)

lemma bind_exc_Inl [simp]: "m s = (Inl e, s') \<Longrightarrow> bind_exc m f s = (Inl e, s')"
  by (simp add: bind_exc_def)

lemma then_exc_Inr [simp]: "m s = (Inr x, s') \<Longrightarrow> then_exc m k s = k s'"
  by (simp add: then_exc_def bind_exc_def)

lemma then_exc_Inl [simp]: "m s = (Inl e, s') \<Longrightarrow> then_exc m k s = (Inl e, s')"
  by (simp add: then_exc_def bind_exc_def)

text \<open>A sequence that returned normally went through states where each part did.\<close>

lemma bind_exc_InrD:
  "bind_exc m f s = (Inr x, s') \<Longrightarrow> \<exists>y s1. m s = (Inr y, s1) \<and> f y s1 = (Inr x, s')"
  by (auto simp: bind_exc_def split: prod.splits sum.splits)

lemma then_exc_InrD:
  "then_exc m k s = (Inr x, s') \<Longrightarrow> \<exists>s1. m s = (Inr (), s1) \<and> k s1 = (Inr x, s')"
  by (auto simp: then_exc_def bind_exc_def split: prod.splits sum.splits)

text \<open>
  An invariant kept by every statement of a sequence is kept by the sequence,
  whether it returns normally or raises: the reasoning principle for the
  invariants of the components.
\<close>

definition keeps :: "('s \<Rightarrow> bool) \<Rightarrow> ('s, 'a) exc \<Rightarrow> bool" where
  "keeps P m \<longleftrightarrow> (\<forall>s. P s \<longrightarrow> P (snd (m s)))"

lemma keepsI: "(\<And>s. P s \<Longrightarrow> P (snd (m s))) \<Longrightarrow> keeps P m"
  by (simp add: keeps_def)

lemma keepsD: "keeps P m \<Longrightarrow> P s \<Longrightarrow> P (snd (m s))"
  by (simp add: keeps_def)

lemma keeps_ret [intro]: "keeps P (ret x)"
  by (simp add: keeps_def ret_def)

lemma keeps_raise [intro]: "keeps P (raise e)"
  by (simp add: keeps_def raise_def)

lemma keeps_lift_sum [intro]: "keeps P (lift_sum r)"
  by (simp add: keeps_def lift_sum_def)

lemma keeps_bind_exc [intro]:
  assumes "keeps P m" and "\<And>x. keeps P (f x)"
  shows "keeps P (bind_exc m f)"
proof (rule keepsI)
  fix s assume "P s"
  with assms(1) have "P (snd (m s))" by (rule keepsD)
  with assms(2) show "P (snd (bind_exc m f s))"
    by (auto simp: bind_exc_def keeps_def split: prod.splits sum.splits)
qed

lemma keeps_then_exc [intro]:
  "keeps P m \<Longrightarrow> keeps P k \<Longrightarrow> keeps P (then_exc m k)"
  unfolding then_exc_def by (rule keeps_bind_exc)

lemma keeps_for_each [intro]:
  "(\<And>x. x \<in> set xs \<Longrightarrow> keeps P (f x)) \<Longrightarrow> keeps P (for_each xs f)"
  by (induction xs) auto

text \<open>The last iteration of a loop that returned normally, from a state the loop body keeps.\<close>

lemma for_each_snoc_Inr:
  assumes r: "for_each (xs @ [x]) f s = (Inr (), s')" and p: "P s" and k: "\<And>y. keeps P (f y)"
  obtains s1 where "P s1" and "f x s1 = (Inr (), s')"
proof -
  from r have "then_exc (for_each xs f) (for_each [x] f) s = (Inr (), s')"
    by (simp add: for_each_append)
  then obtain s1 where a: "for_each xs f s = (Inr (), s1)" and b: "then_exc (f x) (ret ()) s1 = (Inr (), s')"
    by (auto dest: then_exc_InrD)
  have "keeps P (for_each xs f)" using k by blast
  from keepsD [OF this p] a have "P s1" by simp
  moreover from b have "f x s1 = (Inr (), s')"
    by (auto dest!: then_exc_InrD simp: ret_def)
  ultimately show ?thesis by (rule that)
qed

lemma keeps_if [intro]:
  "keeps P m \<Longrightarrow> keeps P k \<Longrightarrow> keeps P (if b then m else k)"
  by simp

lemma keeps_case_option [intro]:
  "keeps P m \<Longrightarrow> (\<And>a. keeps P (f a)) \<Longrightarrow> keeps P (case x of None \<Rightarrow> m | Some a \<Rightarrow> f a)"
  by (simp split: option.split)

lemma keeps_case_sum [intro]:
  "(\<And>e. keeps P (f e)) \<Longrightarrow> (\<And>a. keeps P (g a)) \<Longrightarrow> keeps P (case x of Inl e \<Rightarrow> f e | Inr a \<Rightarrow> g a)"
  by (simp split: sum.split)

lemma keeps_case_prod [intro]:
  "(\<And>a b. keeps P (f a b)) \<Longrightarrow> keeps P (case x of (a, b) \<Rightarrow> f a b)"
  by (simp split: prod.split)

text \<open>The rest of a sequence keeps what its first statement established.\<close>

lemma keeps_after_bind: "P (snd (m s)) \<Longrightarrow> (\<And>x. keeps P (f x)) \<Longrightarrow> P (snd (bind_exc m f s))"
  by (auto simp: bind_exc_def keeps_def split: prod.splits sum.splits)

text \<open>
  A statement whose body reads the state it starts in (\<open>f s = M s s\<close>) keeps an
  invariant when the body does for every state it may read.
\<close>

lemma keeps_reading: "(\<And>s0. keeps P (M s0)) \<Longrightarrow> keeps P (\<lambda>s. M s s)"
  by (simp add: keeps_def)

section \<open>Python truthiness and dictionaries\<close>

text \<open>\<open>if experiment_key:\<close> on the result of \<open>dict.get\<close>: None and '' are false.\<close>

definition truthy_key :: "key option \<Rightarrow> bool" where
  "truthy_key k = (case k of None \<Rightarrow> False | Some s \<Rightarrow> s \<noteq> [])"

lemma truthy_key_simps [simp, model_simps]:
  "truthy_key None = False" "truthy_key (Some s) = (s \<noteq> [])"
  by (simp_all add: truthy_key_def)

text \<open>
  A Python dict is an association list in insertion order; \<open>d[k] = v\<close> is
  \<open>AList.update\<close>, which keeps the position of an existing key and appends a new one.
\<close>

lemma map_of_update_same [simp]: "map_of (AList.update k v al) k = Some v"
  by (simp add: update_conv')

lemma map_of_update_other [simp]: "k' \<noteq> k \<Longrightarrow> map_of (AList.update k v al) k' = map_of al k'"
  by (simp add: update_conv')

end
