(* ===== verification/Optuna.thy ===== *)
theory Optuna
  imports Prelude
begin

text \<open>
  The part of the optimisation framework the callback reads and writes: the
  study (its name, its directions, its user attributes in the shared storage,
  the class name of its storage backend and the numbers of its current best
  trials) and a finished trial (\<open>FrozenTrial\<close>: number, parameters, values).
  This code is not in the repository; it is modelled from the specification
  and from the documented behaviour of the three accessors the callback uses:
  \<open>study.direction\<close> raises \<open>RuntimeError\<close> on a multi-objective study,
  \<open>trial.value\<close> raises on a trial with several values, and
  \<open>study.set_user_attr\<close> overwrites one attribute.
\<close>

section \<open>User attribute values\<close>

text \<open>
  The values the callback meets in \<open>study.user_attrs\<close>: a string (the study
  experiment key), an int, a dict from trial numbers to keys (the
  \<open>trial_experiments\<close> mapping) and None.
\<close>

datatype attr = AStr string | AInt int | ADict "(nat \<times> key) list" | ANone

text \<open>Python truthiness of an attribute value (\<open>if experiment_key:\<close>).\<close>

fun attr_truthy :: "attr \<Rightarrow> bool" where
  "attr_truthy (AStr s) = (s \<noteq> [])"
| "attr_truthy (AInt i) = (i \<noteq> 0)"
| "attr_truthy (ADict d) = (d \<noteq> [])"
| "attr_truthy ANone = False"

section \<open>Studies and trials\<close>

record study =
  study_name :: string
  directions :: "study_direction list"
  user_attrs :: "string \<rightharpoonup> attr"
  storage_name :: string
  best_trials :: "nat list"

record frozen_trial =
  number :: nat
  params :: "(string \<times> pvalue) list"
  trial_values :: "real list option"

text \<open>A study always has at least one direction (\<open>create_study\<close> checks it).\<close>

definition wf_study :: "study \<Rightarrow> bool" where
  "wf_study s \<longleftrightarrow> directions s \<noteq> []"

text \<open>\<open>Study.direction\<close>: the single direction, RuntimeError for several.\<close>

definition study_direction :: "study \<Rightarrow> error + study_direction" where
  "study_direction s =
     (case directions s of
        [d] \<Rightarrow> Inr d
      | [] \<Rightarrow> Inl IndexError
      | _ \<Rightarrow> Inl (RuntimeError ''direction is not available during multi-objective optimization''))"

text \<open>\<open>FrozenTrial.value\<close>: None for a trial without values, the only value otherwise.\<close>

definition trial_value :: "frozen_trial \<Rightarrow> error + real option" where
  "trial_value t =
     (case trial_values t of
        None \<Rightarrow> Inr None
      | Some [] \<Rightarrow> Inl IndexError
      | Some [v] \<Rightarrow> Inr (Some v)
      | Some _ \<Rightarrow> Inl (RuntimeError ''value is not available for multi-objective trials''))"

text \<open>\<open>Study.set_user_attr\<close>.\<close>

definition set_user_attr :: "string \<Rightarrow> attr \<Rightarrow> study \<Rightarrow> study" where
  "set_user_attr k v s = s\<lparr>user_attrs := (user_attrs s)(k \<mapsto> v)\<rparr>"

lemma study_direction_single [simp]: "directions s = [d] \<Longrightarrow> study_direction s = Inr d"
  by (simp add: study_direction_def)

lemma study_direction_multi [simp]:
  "directions s = d1 # d2 # ds \<Longrightarrow> \<exists>msg. study_direction s = Inl (RuntimeError msg)"
  by (simp add: study_direction_def)

lemma trial_value_simps [simp]:
  "trial_values t = None \<Longrightarrow> trial_value t = Inr None"
  "trial_values t = Some [v] \<Longrightarrow> trial_value t = Inr (Some v)"
  by (simp_all add: trial_value_def)

lemma user_attrs_set_user_attr [simp]:
  "user_attrs (set_user_attr k v s) = (user_attrs s)(k \<mapsto> v)"
  by (simp add: set_user_attr_def)

lemma set_user_attr_frame [simp]:
  "study_name (set_user_attr k v s) = study_name s"
  "directions (set_user_attr k v s) = directions s"
  "storage_name (set_user_attr k v s) = storage_name s"
  "best_trials (set_user_attr k v s) = best_trials s"
  by (simp_all add: set_user_attr_def)

end
