(* ===== verification/PyText.thy ===== *)
theory PyText
  imports Prelude
begin

text \<open>
  The text the callback builds: Python's \<open>str()\<close> of a non-negative int (used by
  every f-string of \<open>comet.py\<close> that formats a trial number or an objective index)
  and \<open>json.dumps\<close> of a list of ints (the \<open>"best_trials"\<close> annotation, line 132).
  Both are library behaviour, modelled from the Python documentation, with
  parsers that invert them: the round trips show that the annotations carry
  the numbers without loss, and that distinct numbers give distinct names.
\<close>

section \<open>Decimal formatting of naturals\<close>

definition digit_char :: "nat \<Rightarrow> char" where
  "digit_char d = char_of (48 + d)"

definition is_digit :: "char \<Rightarrow> bool" where
  "is_digit c \<longleftrightarrow> 48 \<le> (of_char c :: nat) \<and> (of_char c :: nat) \<le> 57"

definition digit_val :: "char \<Rightarrow> nat" where
  "digit_val c = of_char c - 48"

text \<open>Python's \<open>str(n)\<close> for \<open>n \<ge> 0\<close>: decimal digits, no leading zero.\<close>

fun str_nat :: "nat \<Rightarrow> string" where
  "str_nat n = (if n < 10 then [digit_char n] else str_nat (n div 10) @ [digit_char (n mod 10)])"

declare str_nat.simps [simp del]

text \<open>The value of a string of digits, most significant first.\<close>

definition digits_value :: "nat \<Rightarrow> string \<Rightarrow> nat" where
  "digits_value acc ds = foldl (\<lambda>n c. 10 * n + digit_val c) acc ds"

definition nat_of_str :: "string \<Rightarrow> nat option" where
  "nat_of_str s = (if s \<noteq> [] \<and> list_all is_digit s then Some (digits_value 0 s) else None)"

section \<open>JSON lists of naturals\<close>

text \<open>\<open>json.dumps\<close> of a list of ints, with its default separator \<open>", "\<close>.\<close>

fun join_items :: "string list \<Rightarrow> string" where
  "join_items [] = []"
| "join_items [x] = x"
| "join_items (x # xs) = x @ '', '' @ join_items xs"

definition json_dumps_nats :: "nat list \<Rightarrow> string" where
  "json_dumps_nats ns = ''['' @ join_items (map str_nat ns) @ '']''"

text \<open>
  A scanner for the inside of such a list: \<open>acc\<close> is the number read so far
  (None before its first digit); a comma must follow a number and be followed
  by one blank.
\<close>

fun scan_items :: "string \<Rightarrow> nat option \<Rightarrow> nat list option" where
  "scan_items [] acc = map_option (\<lambda>n. [n]) acc"
| "scan_items (c # cs) acc =
     (if is_digit c then scan_items cs (Some (10 * (case acc of None \<Rightarrow> 0 | Some n \<Rightarrow> n) + digit_val c))
      else if c = CHR '','' then
        (case (acc, cs) of
           (Some n, d # cs') \<Rightarrow> if d = CHR '' '' then map_option (Cons n) (scan_items cs' None) else None
         | _ \<Rightarrow> None)
      else None)"

definition json_loads_nats :: "string \<Rightarrow> nat list option" where
  "json_loads_nats s =
     (case s of
        c # rest \<Rightarrow>
          if c = CHR ''['' \<and> rest \<noteq> [] \<and> last rest = CHR '']'' then
            (if butlast rest = [] then Some [] else scan_items (butlast rest) None)
          else None
      | [] \<Rightarrow> None)"

section \<open>Properties of the decimal format\<close>

lemma is_digit_digit_char [simp]: "d < 10 \<Longrightarrow> is_digit (digit_char d)"
  by (simp add: is_digit_def digit_char_def)

lemma digit_val_digit_char [simp]: "d < 10 \<Longrightarrow> digit_val (digit_char d) = d"
  by (simp add: digit_val_def digit_char_def)

lemma digit_char_not_comma [simp]: "d < 10 \<Longrightarrow> digit_char d \<noteq> CHR '',''"
  by (auto simp: digit_char_def dest: arg_cong [where f = "of_char :: char \<Rightarrow> nat"])

lemma str_nat_digits [simp]: "list_all is_digit (str_nat n)"
  by (induction n rule: str_nat.induct) (subst str_nat.simps, simp)

lemma str_nat_nonempty [simp]: "str_nat n \<noteq> []"
  by (subst str_nat.simps) simp

lemma digits_value_snoc [simp]:
  "digits_value acc (ds @ [c]) = 10 * digits_value acc ds + digit_val c"
  by (simp add: digits_value_def)

lemma digits_value_str_nat: "digits_value 0 (str_nat n) = n"
proof (induction n rule: str_nat.induct)
  case (1 n)
  show ?case
  proof (cases "n < 10")
    case True
    then show ?thesis by (simp add: str_nat.simps [of n] digits_value_def)
  next
    case False
    with "1.IH" have "digits_value 0 (str_nat (n div 10)) = n div 10" by simp
    with False show ?thesis by (simp add: str_nat.simps [of n])
  qed
qed

lemma nat_of_str_str_nat [model_simps]: "nat_of_str (str_nat n) = Some n"
  by (simp add: nat_of_str_def digits_value_str_nat)

lemma str_nat_inj [simp]: "str_nat m = str_nat n \<longleftrightarrow> m = n"
  by (metis nat_of_str_str_nat option.inject)

section \<open>Round trip of the JSON format\<close>

lemma is_digit_comma [simp]: "\<not> is_digit CHR '',''" and is_digit_blank [simp]: "\<not> is_digit CHR '' ''"
  and is_digit_bracket [simp]: "\<not> is_digit CHR '']''"
  by (simp_all add: is_digit_def)

text \<open>The scanner reads a run of digits into its accumulator.\<close>

lemma scan_items_digits:
  "list_all is_digit ds \<Longrightarrow>
   scan_items (ds @ cs) (Some a) = scan_items cs (Some (digits_value a ds))"
  by (induction ds arbitrary: a) (simp_all add: digits_value_def)

lemma scan_items_str_nat:
  "scan_items (str_nat n @ cs) None = scan_items cs (Some n)"
proof -
  obtain c ds where s: "str_nat n = c # ds" by (cases "str_nat n") auto
  have "list_all is_digit (c # ds)" using str_nat_digits [of n] by (simp only: s)
  moreover have "digits_value 0 (c # ds) = n" using digits_value_str_nat [of n] by (simp only: s)
  ultimately show ?thesis
    by (simp add: s scan_items_digits digits_value_def)
qed

text \<open>The scanner inverts the joined items, one number per item.\<close>

lemma scan_join_items:
  "ns \<noteq> [] \<Longrightarrow> scan_items (join_items (map str_nat ns)) None = Some ns"
proof (induction ns)
  case Nil then show ?case by simp
next
  case (Cons n ns)
  show ?case
  proof (cases ns)
    case Nil
    then show ?thesis using scan_items_str_nat [of n "[]"] by simp
  next
    case (Cons m ms)
    with Cons.IH have "scan_items (join_items (map str_nat ns)) None = Some ns" by simp
    with Cons show ?thesis using scan_items_str_nat [of n "'', '' @ join_items (map str_nat ns)"]
      by simp
  qed
qed

text \<open>Parsing inverts \<open>json.dumps\<close> on int lists.\<close>

lemma json_loads_dumps [model_simps]: "json_loads_nats (json_dumps_nats ns) = Some ns"
proof (cases ns)
  case Nil then show ?thesis by (simp add: json_loads_nats_def json_dumps_nats_def)
next
  case (Cons n ms)
  then have "join_items (map str_nat ns) \<noteq> []"
    by (cases ms) simp_all
  with Cons scan_join_items [of ns] show ?thesis
    by (simp add: json_loads_nats_def json_dumps_nats_def butlast_append)
qed

lemma json_dumps_nats_inj [simp]: "json_dumps_nats ms = json_dumps_nats ns \<longleftrightarrow> ms = ns"
  by (metis json_loads_dumps option.inject)

end
