(* ===== verification/Comet.thy ===== *)
theory Comet
  imports PyText
begin

text \<open>
  The tracking service as the callback sees it through the \<open>comet_ml\<close> client:
  a store of remote experiment records indexed by key, an allocator of fresh
  keys, the account's default workspace, and the log of every remote call that
  succeeded, in order. A \<^emph>\<open>fault schedule\<close> (the indices of the remote calls
  that fail) stands for any outage: a failing call raises \<open>NetworkError\<close> and
  changes nothing but the count of attempts. The client library is not part of
  the repository; its calls are modelled from the specification (section 6),
  one constructor of \<open>call\<close> per client method the callback uses, and one step
  function \<open>apply_call\<close> giving their effect on the store.
\<close>

section \<open>Remote records\<close>

text \<open>
  \<open>APIExperiment\<close> (a REST handle, used for the study) or a streaming session
  (\<open>Experiment\<close>, \<open>ExistingExperiment\<close>, used for trials); only sessions run
  and end.
\<close>

datatype exp_kind = APIExperimentK | SessionK

record optimization =
  opt_id :: string
  opt_metric :: string
  opt_value :: "real option"
  opt_params :: "(string \<times> pvalue) list"
  opt_objective :: study_direction

record remote_exp =
  e_kind :: exp_kind
  e_workspace :: "string option"
  e_project :: "string option"
  e_tags :: "string list"
  e_others :: "string \<rightharpoonup> ovalue"
  e_params :: "string \<rightharpoonup> pvalue"
  e_metrics :: "(string \<times> real) list"
  e_optims :: "optimization list"
  e_running :: bool

datatype call =
    CGetDefaultWorkspace
  | CCreate exp_kind key "string option" "string option"
  | CResume exp_kind key
  | CAddTag key string
  | CLogOther key string ovalue
  | CLogParameters key "(string \<times> pvalue) list"
  | CLogMetric key string real
  | CLogOptimization key optimization
  | CEnd key

record world =
  store :: "key \<rightharpoonup> remote_exp"
  next_id :: nat
  default_workspace :: "string option"
  faults :: "nat list"
  attempts :: nat
  call_log :: "call list"

section \<open>The client's operations\<close>

text \<open>Keys handed out by the service: distinct, never empty.\<close>

definition key_of :: "nat \<Rightarrow> key" where
  "key_of n = ''exp'' @ str_nat n"

definition new_experiment :: "exp_kind \<Rightarrow> string option \<Rightarrow> string option \<Rightarrow> remote_exp" where
  "new_experiment kd ws proj =
     \<lparr>e_kind = kd, e_workspace = ws, e_project = proj, e_tags = [], e_others = Map.empty,
      e_params = Map.empty, e_metrics = [], e_optims = [], e_running = (kd = SessionK)\<rparr>"

definition on_exp :: "key \<Rightarrow> (remote_exp \<Rightarrow> remote_exp) \<Rightarrow> world \<Rightarrow> error + world" where
  "on_exp k f w =
     (case store w k of
        None \<Rightarrow> Inl (ExperimentNotFound k)
      | Some e \<Rightarrow> Inr (w\<lparr>store := (store w)(k \<mapsto> f e)\<rparr>))"

text \<open>The effect of one remote call that reaches the service.\<close>

fun apply_call :: "call \<Rightarrow> world \<Rightarrow> error + world" where
  "apply_call CGetDefaultWorkspace w =
     (case default_workspace w of None \<Rightarrow> Inl ApiKeyMissing | Some _ \<Rightarrow> Inr w)"
| "apply_call (CCreate kd k ws proj) w =
     Inr (w\<lparr>store := (store w)(k \<mapsto> new_experiment kd ws proj)\<rparr>)"
| "apply_call (CResume kd k) w =
     on_exp k (\<lambda>e. if kd = SessionK then e\<lparr>e_running := True\<rparr> else e) w"
| "apply_call (CAddTag k t) w = on_exp k (\<lambda>e. e\<lparr>e_tags := e_tags e @ [t]\<rparr>) w"
| "apply_call (CLogOther k n v) w = on_exp k (\<lambda>e. e\<lparr>e_others := (e_others e)(n \<mapsto> v)\<rparr>) w"
| "apply_call (CLogParameters k ps) w = on_exp k (\<lambda>e. e\<lparr>e_params := e_params e ++ map_of ps\<rparr>) w"
| "apply_call (CLogMetric k n v) w = on_exp k (\<lambda>e. e\<lparr>e_metrics := e_metrics e @ [(n, v)]\<rparr>) w"
| "apply_call (CLogOptimization k opt) w = on_exp k (\<lambda>e. e\<lparr>e_optims := e_optims e @ [opt]\<rparr>) w"
| "apply_call (CEnd k) w = on_exp k (\<lambda>e. e\<lparr>e_running := False\<rparr>) w"

text \<open>
  One remote call: counted as an attempt; raises if the schedule says so;
  otherwise applied and logged.
\<close>

definition comet :: "call \<Rightarrow> (world, unit) exc" where
  "comet c w =
     (let n = attempts w; w1 = w\<lparr>attempts := Suc n\<rparr> in
      if n \<in> set (faults w) then (Inl (NetworkError n), w1)
      else (case apply_call c w1 of
              Inl e \<Rightarrow> (Inl e, w1)
            | Inr w2 \<Rightarrow> (Inr (), w2\<lparr>call_log := call_log w2 @ [c]\<rparr>)))"

text \<open>\<open>Experiment(...)\<close> and \<open>APIExperiment(...)\<close>: a new record under a fresh key.\<close>

definition create_experiment :: "exp_kind \<Rightarrow> string option \<Rightarrow> string option \<Rightarrow> (world, key) exc" where
  "create_experiment kd ws proj w =
     (let k = key_of (next_id w)
      in then_exc (comet (CCreate kd k ws proj)) (ret k) (w\<lparr>next_id := Suc (next_id w)\<rparr>))"

text \<open>\<open>API().get_default_workspace()\<close>.\<close>

definition get_default_workspace :: "(world, string) exc" where
  "get_default_workspace =
     then_exc (comet CGetDefaultWorkspace)
       (\<lambda>w. (case default_workspace w of None \<Rightarrow> Inl ApiKeyMissing | Some ws \<Rightarrow> Inr ws, w))"

section \<open>Well-formed worlds\<close>

text \<open>Every stored key was handed out by the allocator.\<close>

definition wf_world :: "world \<Rightarrow> bool" where
  "wf_world w \<longleftrightarrow> dom (store w) \<subseteq> key_of ` {..<next_id w}"

text \<open>Only \<open>create_experiment\<close> issues a creation; the other calls address existing keys.\<close>

definition is_create :: "call \<Rightarrow> bool" where
  "is_create c = (case c of CCreate _ _ _ _ \<Rightarrow> True | _ \<Rightarrow> False)"

text \<open>The keys of the sessions that are running (started and not ended).\<close>

definition running_keys :: "(key \<rightharpoonup> remote_exp) \<Rightarrow> key set" where
  "running_keys m = {k. \<exists>e. m k = Some e \<and> e_running e}"

text \<open>The keys of the \<open>APIExperiment\<close> records.\<close>

definition api_keys :: "(key \<rightharpoonup> remote_exp) \<Rightarrow> key set" where
  "api_keys m = {k. \<exists>e. m k = Some e \<and> e_kind e = APIExperimentK}"

text \<open>The calls that may start a session: \<open>Experiment()\<close> and \<open>ExistingExperiment()\<close>.\<close>

definition starts_session :: "call \<Rightarrow> bool" where
  "starts_session c = (case c of CCreate SessionK _ _ _ \<Rightarrow> True | CResume SessionK _ \<Rightarrow> True | _ \<Rightarrow> False)"

section \<open>Properties of the client model\<close>

lemma key_of_inj [simp]: "key_of m = key_of n \<longleftrightarrow> m = n"
  by (simp add: key_of_def)

lemma key_of_nonempty [simp]: "key_of n \<noteq> []"
  by (simp add: key_of_def)

lemma fresh_key_not_stored: "wf_world w \<Longrightarrow> store w (key_of (next_id w)) = None"
  by (auto simp: wf_world_def)

text \<open>Evaluation of one remote call when its attempt is not scheduled to fail.\<close>

lemma comet_ok:
  "attempts w \<notin> set (faults w) \<Longrightarrow>
   comet c w = (case apply_call c (w\<lparr>attempts := Suc (attempts w)\<rparr>) of
                  Inl e \<Rightarrow> (Inl e, w\<lparr>attempts := Suc (attempts w)\<rparr>)
                | Inr w2 \<Rightarrow> (Inr (), w2\<lparr>call_log := call_log w2 @ [c]\<rparr>))"
  by (simp add: comet_def Let_def)

lemma comet_fault:
  "attempts w \<in> set (faults w) \<Longrightarrow>
   comet c w = (Inl (NetworkError (attempts w)), w\<lparr>attempts := Suc (attempts w)\<rparr>)"
  by (simp add: comet_def Let_def)

lemma on_exp_frame:
  "on_exp k f w = Inr w' \<Longrightarrow>
   next_id w' = next_id w \<and> default_workspace w' = default_workspace w \<and>
   faults w' = faults w \<and> attempts w' = attempts w \<and> call_log w' = call_log w \<and>
   dom (store w') = dom (store w)"
  by (auto simp: on_exp_def split: option.splits if_splits)

lemma apply_call_frame:
  "apply_call c w = Inr w' \<Longrightarrow>
   next_id w' = next_id w \<and> default_workspace w' = default_workspace w \<and>
   faults w' = faults w \<and> attempts w' = attempts w \<and> call_log w' = call_log w"
  by (cases c) (auto simp: on_exp_def split: option.splits if_splits)

text \<open>The fields the service never changes, whatever the call and its outcome.\<close>

lemma comet_frame:
  "comet c w = (r, w') \<Longrightarrow>
   next_id w' = next_id w \<and> default_workspace w' = default_workspace w \<and> faults w' = faults w"
  by (auto simp: comet_def Let_def dest!: apply_call_frame split: if_splits sum.splits)

lemma comet_attempts: "comet c w = (r, w') \<Longrightarrow> attempts w' = Suc (attempts w)"
  by (auto simp: comet_def Let_def dest!: apply_call_frame split: if_splits sum.splits)

text \<open>The log only grows: a successful call appends itself, a failed one nothing.\<close>

lemma comet_log:
  "comet c w = (r, w') \<Longrightarrow> call_log w' = (if r = Inr () then call_log w @ [c] else call_log w)"
  by (auto simp: comet_def Let_def dest!: apply_call_frame split: if_splits sum.splits)

lemma apply_call_dom:
  "apply_call c w = Inr w' \<Longrightarrow>
   dom (store w') = (case c of CCreate kd k ws p \<Rightarrow> insert k (dom (store w)) | _ \<Rightarrow> dom (store w))"
  by (cases c) (auto simp: on_exp_def split: option.splits if_splits)

lemma running_keys_upd [simp]:
  "running_keys (m(k \<mapsto> e)) = (if e_running e then insert k (running_keys m) else running_keys m - {k})"
  by (auto simp: running_keys_def)

lemma api_keys_upd [simp]:
  "api_keys (m(k \<mapsto> e)) = (if e_kind e = APIExperimentK then insert k (api_keys m) else api_keys m - {k})"
  by (auto simp: api_keys_def)

lemma api_keys_empty [simp]: "api_keys Map.empty = {}"
  by (simp add: api_keys_def)

lemma api_keys_dom: "api_keys m \<subseteq> dom m"
  by (auto simp: api_keys_def)

lemma wf_world_empty_key: "wf_world w \<Longrightarrow> store w [] = None"
  unfolding wf_world_def by (metis domIff image_iff key_of_nonempty subsetD)

lemma running_keys_empty [simp]: "running_keys Map.empty = {}"
  by (simp add: running_keys_def)

text \<open>A call that starts no session starts no running: it can only end one.\<close>

lemma apply_call_running:
  "apply_call c w = Inr w' \<Longrightarrow> \<not> starts_session c \<Longrightarrow> running_keys (store w') \<subseteq> running_keys (store w)"
  by (cases c) (auto simp: on_exp_def starts_session_def new_experiment_def running_keys_def
                     split: option.splits if_splits exp_kind.splits)

lemma comet_running:
  "comet c w = (r, w') \<Longrightarrow> \<not> starts_session c \<Longrightarrow> running_keys (store w') \<subseteq> running_keys (store w)"
  by (auto simp: comet_def Let_def dest!: apply_call_running split: if_splits sum.splits)

lemma create_api_running:
  "create_experiment APIExperimentK ws p w = (r, w') \<Longrightarrow> running_keys (store w') \<subseteq> running_keys (store w)"
  by (auto simp: create_experiment_def comet_def Let_def exc_simps new_experiment_def split: if_splits)

lemma comet_store_dom:
  "comet c w = (r, w') \<Longrightarrow> \<not> is_create c \<Longrightarrow> dom (store w') = dom (store w) \<and> next_id w' = next_id w"
  by (cases c) (auto simp: comet_def Let_def on_exp_def is_create_def split: if_splits option.splits sum.splits)

lemma create_experiment_dom:
  "create_experiment kd ws p w = (r, w') \<Longrightarrow>
   dom (store w') \<subseteq> insert (key_of (next_id w)) (dom (store w)) \<and> next_id w' = Suc (next_id w)"
  by (auto simp: create_experiment_def comet_def Let_def exc_simps split: if_splits)

text \<open>Every operation of the client keeps its store well formed, whatever fails.\<close>

lemma keeps_wf_comet [intro]:
  assumes nc: "\<not> is_create c"
  shows "keeps wf_world (comet c)"
proof (rule keepsI)
  fix w assume wf: "wf_world w"
  obtain r w' where eq: "comet c w = (r, w')" by fastforce
  from eq nc have "dom (store w') = dom (store w) \<and> next_id w' = next_id w"
    by (rule comet_store_dom)
  with wf eq show "wf_world (snd (comet c w))" by (simp add: wf_world_def)
qed

lemma keeps_wf_create_experiment [intro]: "keeps wf_world (create_experiment kd ws p)"
proof (rule keepsI)
  fix w assume wf: "wf_world w"
  obtain r w' where eq: "create_experiment kd ws p w = (r, w')" by fastforce
  then have "dom (store w') \<subseteq> insert (key_of (next_id w)) (dom (store w))"
    and nxt: "next_id w' = Suc (next_id w)" by (simp_all add: create_experiment_dom)
  with wf have "dom (store w') \<subseteq> insert (key_of (next_id w)) (key_of ` {..<next_id w})"
    unfolding wf_world_def by blast
  then have "wf_world w'"
    unfolding wf_world_def nxt lessThan_Suc image_insert .
  with eq show "wf_world (snd (create_experiment kd ws p w))" by simp
qed

lemma keeps_wf_get_default_workspace [intro]: "keeps wf_world get_default_workspace"
  unfolding get_default_workspace_def
  by (intro keeps_then_exc keeps_wf_comet keepsI) (simp_all add: is_create_def)

end
