(* ===== verification/Callback.thy ===== *)
theory Callback
  imports Optuna Comet
begin

text \<open>
  The class \<open>CometCallback\<close> of \<open>src/optuna_integration/comet.py\<close>. The state of a
  process running it is the record \<open>st\<close>: the tracking service (\<open>world\<close>, shared
  with other processes), the study in Optuna's storage (\<open>study\<close>, shared), the
  callback object (\<open>cb\<close>, whose fields are the attributes \<open>self._...\<close>), and the
  module attribute \<open>comet_ml.active_experiment\<close> the code sets and reads
  (\<open>active\<close>; None while \<open>hasattr\<close> is false). Each method is one definition in
  the state-and-exception monad of the prelude; remote calls go through
  \<open>remote\<close>, so that each of them may fail.
\<close>

section \<open>State\<close>

record cb =
  cb_project_name :: "string option"
  cb_workspace :: "string option"
  cb_metric_names :: "string list"
  cb_study_experiment :: key
  cb_trial_experiments :: attr

text \<open>The object \<open>comet_ml.active_experiment\<close>: its key and its \<open>ended\<close> flag.\<close>

record active_exp =
  act_key :: key
  act_ended :: bool

record st =
  world :: world
  study :: study
  cb :: cb
  active :: "active_exp option"

section \<open>Primitive statements\<close>

definition in_world :: "(world, 'a) exc \<Rightarrow> (st, 'a) exc" where
  "in_world m s = (case m (world s) of (r, w') \<Rightarrow> (r, s\<lparr>world := w'\<rparr>))"

definition remote :: "call \<Rightarrow> (st, unit) exc" where
  "remote c = in_world (comet c)"

definition gets :: "(st \<Rightarrow> 'a) \<Rightarrow> (st, 'a) exc" where
  "gets f s = (Inr (f s), s)"

definition modify :: "(st \<Rightarrow> st) \<Rightarrow> (st, unit) exc" where
  "modify f s = (Inr (), f s)"

text \<open>\<open>comet_ml.active_experiment.end()\<close>: the remote end, then the local flag.\<close>

definition end_active :: "(st, unit) exc" where
  "end_active s =
     (case active s of
        None \<Rightarrow> ret ()
      | Some a \<Rightarrow> then_exc (remote (CEnd (act_key a)))
                    (modify (\<lambda>s. s\<lparr>active := Some (a\<lparr>act_ended := True\<rparr>)\<rparr>))) s"

text \<open>\<open>self._trial_experiments.get(n)\<close> and \<open>self._trial_experiments[n] = k\<close>.\<close>

definition dict_get :: "attr \<Rightarrow> nat \<Rightarrow> error + key option" where
  "dict_get a n = (case a of ADict d \<Rightarrow> Inr (map_of d n) | _ \<Rightarrow> Inl (AttributeError ''get''))"

definition dict_set :: "attr \<Rightarrow> nat \<Rightarrow> key \<Rightarrow> attr" where
  "dict_set a n k = (case a of ADict d \<Rightarrow> ADict (AList.update n k d) | _ \<Rightarrow> a)"

section \<open>Names and texts the callback builds\<close>

text \<open>\<open>metric_names[i] if i < len(metric_names) else i\<close>, formatted by an f-string.\<close>

definition metric_name_at :: "string list \<Rightarrow> nat \<Rightarrow> string" where
  "metric_name_at names i = (if i < length names then names ! i else str_nat i)"

definition direction_str :: "study_direction \<Rightarrow> string" where
  "direction_str d = (if d = MINIMIZE then ''minimize'' else ''maximize'')"

text \<open>\<open>metric_name\<close> of the single-objective branch.\<close>

definition single_metric_name :: "string list \<Rightarrow> string" where
  "single_metric_name names = (if 0 < length names then names ! 0 else ''objective_value'')"

text \<open>\<open>trial.values and len(trial.values) > 1\<close>.\<close>

definition is_multi :: "real list option \<Rightarrow> bool" where
  "is_multi vs = (case vs of Some vals \<Rightarrow> vals \<noteq> [] \<and> 1 < length vals | None \<Rightarrow> False)"

section \<open>The methods\<close>

text \<open>
  \<open>_init_optuna_study_experiment\<close> from line 143 on, given the attribute read at
  line 141: resume the stored key, or create, tag and annotate a new record and
  store its key in the study.
\<close>

definition study_experiment_from_attr :: "attr option \<Rightarrow> (st, key) exc" where
  "study_experiment_from_attr ekey s =
     (let stu = study s in
      if (case ekey of None \<Rightarrow> False | Some a \<Rightarrow> attr_truthy a) then
        (case ekey of
           Some (AStr k) \<Rightarrow> then_exc (remote (CResume APIExperimentK k)) (ret k)
         | _ \<Rightarrow> raise (TypeError ''previous_experiment''))
      else
        bind_exc (in_world (create_experiment APIExperimentK (cb_workspace (cb s)) (cb_project_name (cb s))))
          (\<lambda>k. then_exc (remote (CAddTag k ''optuna_study''))
               (then_exc (remote (CLogOther k ''optuna_study_name'' (OStr (study_name stu))))
               (then_exc (remote (CLogOther k ''optuna_storage'' (OStr (storage_name stu))))
               (then_exc (modify (\<lambda>s. s\<lparr>study := set_user_attr ''comet_study_experiment_key'' (AStr k) (study s)\<rparr>))
               (ret k)))))) s"

text \<open>\<open>_init_optuna_study_experiment(study)\<close>: line 141 reads the stored key.\<close>

definition init_study_experiment :: "(st, key) exc" where
  "init_study_experiment =
     bind_exc (gets (\<lambda>s. user_attrs (study s) ''comet_study_experiment_key'')) study_experiment_from_attr"

text \<open>The loop of \<open>__init__\<close> that logs one direction per objective.\<close>

definition log_directions :: "key \<Rightarrow> string list \<Rightarrow> study_direction list \<Rightarrow> (st, unit) exc" where
  "log_directions k names ds =
     for_each (enumerate 0 ds)
       (\<lambda>(i, d). remote (CLogOther k (''direction_of_objective_'' @ metric_name_at names i) (OStr (direction_str d))))"

text \<open>
  Lines 75 to 86 of \<open>__init__\<close>: the attributes, then the default workspace when
  none is given (\<open>API().get_default_workspace()\<close>).
\<close>

definition init_attributes :: "string option \<Rightarrow> string option \<Rightarrow> string list \<Rightarrow> (st, unit) exc" where
  "init_attributes ws proj names =
     then_exc (modify (\<lambda>s. s\<lparr>cb := \<lparr>cb_project_name = proj, cb_workspace = ws, cb_metric_names = names,
                                     cb_study_experiment = [], cb_trial_experiments = ANone\<rparr>\<rparr>))
       (if ws = None then
          bind_exc (in_world get_default_workspace)
            (\<lambda>w. modify (\<lambda>s. s\<lparr>cb := (cb s)\<lparr>cb_workspace := Some w\<rparr>\<rparr>))
        else ret ())"

text \<open>
  Lines 98 to 101: the mapping read from the study, or a new empty dict. The
  last statement of the source, \<open>study.user_attrs\<close>, only reads the attributes:
  the mapping is not written back to the study.
\<close>

definition load_trial_experiments :: "(st, unit) exc" where
  "load_trial_experiments =
     modify (\<lambda>s. s\<lparr>cb := (cb s)\<lparr>cb_trial_experiments :=
       (case user_attrs (study s) ''trial_experiments'' of
          None \<Rightarrow> ADict [] | Some ANone \<Rightarrow> ADict [] | Some a \<Rightarrow> a)\<rparr>\<rparr>)"

text \<open>\<open>__init__(study, workspace, project_name, metric_names)\<close>.\<close>

definition cb_init :: "string option \<Rightarrow> string option \<Rightarrow> string list option \<Rightarrow> (st, unit) exc" where
  "cb_init ws proj mnames =
     (let names = (case mnames of None \<Rightarrow> [] | Some ns \<Rightarrow> ns) in
      then_exc (init_attributes ws proj names)
      (bind_exc init_study_experiment
        (\<lambda>k. then_exc (modify (\<lambda>s. s\<lparr>cb := (cb s)\<lparr>cb_study_experiment := k\<rparr>\<rparr>))
        (bind_exc (gets (\<lambda>s. directions (study s)))
          (\<lambda>ds. then_exc (log_directions k names ds) load_trial_experiments)))))"

text \<open>\<open>setattr(comet_ml, "active_experiment", experiment); return experiment\<close>.\<close>

definition activate :: "key \<Rightarrow> (st, key) exc" where
  "activate k = then_exc (modify (\<lambda>s. s\<lparr>active := Some \<lparr>act_key = k, act_ended = False\<rparr>\<rparr>)) (ret k)"

text \<open>The \<open>else\<close> branch of \<open>_init_optuna_trial_experiment\<close>: a new trial experiment.\<close>

definition create_trial_experiment :: "frozen_trial \<Rightarrow> (st, key) exc" where
  "create_trial_experiment t s =
     bind_exc (in_world (create_experiment SessionK (cb_workspace (cb s)) (cb_project_name (cb s))))
       (\<lambda>k. then_exc (remote (CAddTag k ''optuna_trial''))
            (then_exc (remote (CLogOther k ''optuna_study_name'' (OStr (study_name (study s)))))
            (then_exc (modify (\<lambda>s. s\<lparr>cb := (cb s)\<lparr>cb_trial_experiments :=
                                  dict_set (cb_trial_experiments (cb s)) (number t) k\<rparr>\<rparr>))
            (activate k)))) s"

text \<open>\<open>_init_optuna_trial_experiment\<close> from line 173 on: resume or create, then activate.\<close>

definition start_trial_experiment :: "frozen_trial \<Rightarrow> key option \<Rightarrow> (st, key) exc" where
  "start_trial_experiment t ekey =
     (if truthy_key ekey then then_exc (remote (CResume SessionK (the ekey))) (activate (the ekey))
      else create_trial_experiment t)"

text \<open>\<open>_init_optuna_trial_experiment(study, trial)\<close>.\<close>

definition init_trial_experiment :: "frozen_trial \<Rightarrow> (st, key) exc" where
  "init_trial_experiment t s =
     (case dict_get (cb_trial_experiments (cb s)) (number t) of
        Inl e \<Rightarrow> raise e
      | Inr ekey \<Rightarrow>
          (case active s of
             Some a \<Rightarrow>
               if ekey = Some (act_key a) then ret (act_key a)
               else if \<not> act_ended a then then_exc end_active (start_trial_experiment t ekey)
               else start_trial_experiment t ekey
           | None \<Rightarrow> start_trial_experiment t ekey)) s"

text \<open>The multi-objective loop of \<open>__call__\<close>: one metric per value.\<close>

definition log_metrics :: "key \<Rightarrow> string list \<Rightarrow> real list \<Rightarrow> (st, unit) exc" where
  "log_metrics k names vals =
     for_each (enumerate 0 vals) (\<lambda>(i, v). remote (CLogMetric k (metric_name_at names i) v))"

text \<open>The branch of \<open>__call__\<close> on the number of objective values.\<close>

definition log_objectives :: "key \<Rightarrow> frozen_trial \<Rightarrow> (st, unit) exc" where
  "log_objectives k t s =
     (if is_multi (trial_values t) then log_metrics k (cb_metric_names (cb s)) (the (trial_values t))
      else bind_exc (lift_sum (trial_value t))
             (\<lambda>v. bind_exc (lift_sum (study_direction (study s)))
             (\<lambda>d. remote (CLogOptimization k
                    \<lparr>opt_id = study_name (study s), opt_metric = single_metric_name (cb_metric_names (cb s)),
                     opt_value = v, opt_params = params t, opt_objective = d\<rparr>)))) s"

text \<open>Line 132: the best trials, overwritten on the study experiment.\<close>

definition log_best_trials :: "(st, unit) exc" where
  "log_best_trials s =
     remote (CLogOther (cb_study_experiment (cb s)) ''best_trials''
               (OStr (json_dumps_nats (best_trials (study s))))) s"

text \<open>\<open>__call__(study, trial)\<close>.\<close>

definition cb_call :: "frozen_trial \<Rightarrow> (st, unit) exc" where
  "cb_call t =
     bind_exc (init_trial_experiment t)
       (\<lambda>k. then_exc (remote (CLogParameters k (params t)))
            (then_exc (remote (CLogOther k ''trial_number'' (ONat (number t))))
            (then_exc (remote (CAddTag k (''trial_number_'' @ str_nat (number t))))
            (then_exc (log_objectives k t)
            (then_exc log_best_trials
            end_active)))))"

text \<open>
  \<open>track_in_comet()\<close>: the wrapper of a decorated objective. The objective is a
  computation on the process state that receives the trial and the experiment
  the wrapper attached to it (\<open>trial.experiment\<close>).
\<close>

definition track_in_comet :: "(frozen_trial \<Rightarrow> key \<Rightarrow> (st, 'r) exc) \<Rightarrow> frozen_trial \<Rightarrow> (st, 'r) exc" where
  "track_in_comet func t = bind_exc (init_trial_experiment t) (\<lambda>k. func t k)"

section \<open>Evaluation\<close>

text \<open>The equations that evaluate the methods on a symbolic or concrete state.\<close>

lemmas callback_evals = in_world_def remote_def comet_def create_experiment_def
  modify_def gets_def on_exp_def new_experiment_def activate_def end_active_def
  dict_get_def dict_set_def init_trial_experiment_def start_trial_experiment_def
  create_trial_experiment_def log_objectives_def log_best_trials_def cb_call_def
  track_in_comet_def init_study_experiment_def study_experiment_from_attr_def

section \<open>Invariants of the tracking service\<close>

text \<open>
  A property of the service that every client call keeps, whatever its outcome,
  is kept by every method of the callback: the methods reach the service only
  through \<open>remote\<close>, \<open>create_experiment\<close> and \<open>get_default_workspace\<close>.
\<close>

definition svc_sess :: "(world \<Rightarrow> bool) \<Rightarrow> bool" where
  "svc_sess P \<longleftrightarrow> (\<forall>c. \<not> is_create c \<longrightarrow> keeps P (comet c)) \<and> (\<forall>ws p. keeps P (create_experiment SessionK ws p))"

definition svc_inv :: "(world \<Rightarrow> bool) \<Rightarrow> bool" where
  "svc_inv P \<longleftrightarrow> svc_sess P \<and> (\<forall>ws p. keeps P (create_experiment APIExperimentK ws p))"

text \<open>
  \<open>svc_sess\<close> asks less: the calls of \<open>__call__\<close> and of the decorator create
  sessions only, so their lemmas below assume it; those of \<open>__init__\<close> assume
  \<open>svc_inv\<close>.
\<close>

lemma svc_sessD:
  assumes "svc_sess P"
  shows "\<not> is_create c \<Longrightarrow> keeps P (comet c)" "keeps P (create_experiment SessionK ws p)"
  using assms by (simp_all add: svc_sess_def)

lemma svc_inv_sess: "svc_inv P \<Longrightarrow> svc_sess P"
  by (simp add: svc_inv_def)

lemma svc_invI:
  "(\<And>c. \<not> is_create c \<Longrightarrow> keeps P (comet c)) \<Longrightarrow> (\<And>kd ws p. keeps P (create_experiment kd ws p)) \<Longrightarrow> svc_inv P"
  by (simp add: svc_inv_def svc_sess_def)

lemma keeps_svc_get_default_workspace: "svc_sess P \<Longrightarrow> keeps P get_default_workspace"
  unfolding get_default_workspace_def
  by (rule keeps_then_exc, erule svc_sessD, simp add: is_create_def, rule keepsI, simp)

lemma keeps_svc_in_world: "keeps P m \<Longrightarrow> keeps (\<lambda>s. P (world s)) (in_world m)"
  by (auto simp: keeps_def in_world_def split: prod.splits)

lemma keeps_svc_remote: "svc_sess P \<Longrightarrow> \<not> is_create c \<Longrightarrow> keeps (\<lambda>s. P (world s)) (remote c)"
  unfolding remote_def by (intro keeps_svc_in_world svc_sessD)

lemma keeps_svc_create_session:
  "svc_sess P \<Longrightarrow> keeps (\<lambda>s. P (world s)) (in_world (create_experiment SessionK ws p))"
  by (intro keeps_svc_in_world svc_sessD)

lemma keeps_svc_create_api:
  "svc_inv P \<Longrightarrow> keeps (\<lambda>s. P (world s)) (in_world (create_experiment APIExperimentK ws p))"
  by (intro keeps_svc_in_world) (simp add: svc_inv_def)

lemma keeps_svc_modify: "(\<And>s. world (f s) = world s) \<Longrightarrow> keeps (\<lambda>s. P (world s)) (modify f)"
  by (simp add: keeps_def modify_def)

lemma keeps_gets: "keeps P (gets f)"
  by (simp add: keeps_def gets_def)

lemma keeps_case_attr:
  "(\<And>x. keeps P (f x)) \<Longrightarrow> (\<And>i. keeps P (g i)) \<Longrightarrow> (\<And>d. keeps P (h d)) \<Longrightarrow> keeps P n \<Longrightarrow>
   keeps P (case a of AStr x \<Rightarrow> f x | AInt i \<Rightarrow> g i | ADict d \<Rightarrow> h d | ANone \<Rightarrow> n)"
  by (cases a) simp_all

lemmas keeps_svc_intros = keeps_ret keeps_raise keeps_lift_sum keeps_bind_exc keeps_then_exc
  keeps_for_each keeps_if keeps_case_option keeps_case_sum keeps_case_prod keeps_gets keeps_case_attr
  keeps_svc_remote keeps_svc_modify keeps_svc_create_session keeps_svc_in_world keeps_svc_get_default_workspace

lemma keeps_svc_end_active: "svc_sess P \<Longrightarrow> keeps (\<lambda>s. P (world s)) end_active"
  unfolding end_active_def by (rule keeps_reading) (intro keeps_svc_intros; simp add: is_create_def)

lemma keeps_svc_activate: "keeps (\<lambda>s. P (world s)) (activate k)"
  unfolding activate_def by (intro keeps_svc_intros; simp)

lemma keeps_svc_create_trial: "svc_sess P \<Longrightarrow> keeps (\<lambda>s. P (world s)) (create_trial_experiment t)"
  unfolding create_trial_experiment_def
  by (rule keeps_reading) (intro keeps_svc_intros keeps_svc_activate; simp add: is_create_def)

lemma keeps_svc_init_trial: "svc_sess P \<Longrightarrow> keeps (\<lambda>s. P (world s)) (init_trial_experiment t)"
  unfolding init_trial_experiment_def start_trial_experiment_def
  by (rule keeps_reading)
     (intro keeps_svc_intros keeps_svc_activate keeps_svc_create_trial keeps_svc_end_active;
      simp add: is_create_def)

lemma keeps_svc_log_objectives: "svc_sess P \<Longrightarrow> keeps (\<lambda>s. P (world s)) (log_objectives k t)"
  unfolding log_objectives_def log_metrics_def
  by (rule keeps_reading) (intro keeps_svc_intros; simp add: is_create_def)

lemma keeps_svc_log_best_trials: "svc_sess P \<Longrightarrow> keeps (\<lambda>s. P (world s)) log_best_trials"
  unfolding log_best_trials_def by (rule keeps_reading) (intro keeps_svc_intros; simp add: is_create_def)

lemma keeps_svc_cb_call: "svc_sess P \<Longrightarrow> keeps (\<lambda>s. P (world s)) (cb_call t)"
  unfolding cb_call_def
  by (intro keeps_svc_intros keeps_svc_init_trial keeps_svc_log_objectives keeps_svc_log_best_trials
        keeps_svc_end_active; simp add: is_create_def)

lemma keeps_svc_study_exp: "svc_inv P \<Longrightarrow> keeps (\<lambda>s. P (world s)) (study_experiment_from_attr a)"
  unfolding study_experiment_from_attr_def Let_def
  by (rule keeps_reading) (intro keeps_svc_intros keeps_svc_create_api svc_inv_sess; simp add: is_create_def)

lemma keeps_svc_cb_init: "svc_inv P \<Longrightarrow> keeps (\<lambda>s. P (world s)) (cb_init ws p names)"
  unfolding cb_init_def init_attributes_def load_trial_experiments_def init_study_experiment_def
    log_directions_def Let_def
  by (intro keeps_svc_intros keeps_svc_study_exp svc_inv_sess; simp add: is_create_def)

lemma keeps_svc_track:
  "svc_sess P \<Longrightarrow> (\<And>k. keeps (\<lambda>s. P (world s)) (func t k)) \<Longrightarrow> keeps (\<lambda>s. P (world s)) (track_in_comet func t)"
  unfolding track_in_comet_def by (intro keeps_bind_exc keeps_svc_init_trial)

section \<open>Well-formedness of the tracking store\<close>

definition wf_st :: "st \<Rightarrow> bool" where
  "wf_st s \<longleftrightarrow> wf_world (world s)"

lemma svc_inv_wf: "svc_inv wf_world"
  by (intro svc_invI keeps_wf_comet keeps_wf_create_experiment)

text \<open>The service never forgets a record, and its fault schedule is fixed.\<close>

lemma comet_dom_mono: "comet c w = (r, w') \<Longrightarrow> dom (store w) \<subseteq> dom (store w')"
  by (cases c) (auto simp: comet_def Let_def on_exp_def split: if_splits option.splits sum.splits)

lemma svc_inv_grows: "svc_inv (\<lambda>w. faults w = F \<and> D \<subseteq> dom (store w))"
proof -
  have c: "keeps (\<lambda>w. faults w = F \<and> D \<subseteq> dom (store w)) (comet c)" for c
  proof (rule keepsI)
    fix w :: world assume "faults w = F \<and> D \<subseteq> dom (store w)"
    moreover obtain r w' where "comet c w = (r, w')" by fastforce
    ultimately show "faults (snd (comet c w)) = F \<and> D \<subseteq> dom (store (snd (comet c w)))"
      using comet_dom_mono comet_frame by fastforce
  qed
  have "keeps (\<lambda>w. faults w = F \<and> D \<subseteq> dom (store w)) (create_experiment kd ws p)" for kd ws p
  proof (rule keepsI)
    fix w :: world assume "faults w = F \<and> D \<subseteq> dom (store w)"
    then have "faults (w\<lparr>next_id := Suc (next_id w)\<rparr>) = F \<and> D \<subseteq> dom (store (w\<lparr>next_id := Suc (next_id w)\<rparr>))"
      by simp
    with c have "faults (snd (comet (CCreate kd (key_of (next_id w)) ws p) (w\<lparr>next_id := Suc (next_id w)\<rparr>))) = F \<and>
      D \<subseteq> dom (store (snd (comet (CCreate kd (key_of (next_id w)) ws p) (w\<lparr>next_id := Suc (next_id w)\<rparr>))))"
      by (rule keepsD)
    then show "faults (snd (create_experiment kd ws p w)) = F \<and> D \<subseteq> dom (store (snd (create_experiment kd ws p w)))"
      by (auto simp: create_experiment_def Let_def exc_simps split: prod.splits sum.splits)
  qed
  with c show ?thesis by (intro svc_invI)
qed

section \<open>The session invariant\<close>

text \<open>
  Every running session of the tracking store is the process's active
  experiment, and that one is not ended: so at most one session runs.
\<close>

definition sess_inv :: "st \<Rightarrow> bool" where
  "sess_inv s \<longleftrightarrow> (\<forall>k \<in> running_keys (store (world s)). active s = Some \<lparr>act_key = k, act_ended = False\<rparr>)"

lemma sess_inv_ended_none:
  "sess_inv s \<Longrightarrow> (case active s of None \<Rightarrow> True | Some a \<Rightarrow> act_ended a) \<Longrightarrow>
   running_keys (store (world s)) = {}"
  by (force simp: sess_inv_def split: option.splits)

lemma faults_snd_remote [simp]: "faults (world (snd (remote c s))) = faults (world s)"
  by (auto simp: remote_def in_world_def dest: comet_frame split: prod.splits)

lemma keeps_sess_remote: "\<not> starts_session c \<Longrightarrow> keeps sess_inv (remote c)"
  by (auto simp: keeps_def sess_inv_def remote_def in_world_def dest!: comet_running split: prod.splits)

lemma keeps_sess_create_api: "keeps sess_inv (in_world (create_experiment APIExperimentK ws p))"
  by (auto simp: keeps_def sess_inv_def in_world_def dest!: create_api_running split: prod.splits)

lemma keeps_sess_modify:
  "(\<And>s. active (f s) = active s \<and> store (world (f s)) = store (world s)) \<Longrightarrow> keeps sess_inv (modify f)"
  by (simp add: keeps_def sess_inv_def modify_def)

lemmas keeps_sess_intros = keeps_ret keeps_raise keeps_lift_sum keeps_bind_exc keeps_then_exc
  keeps_for_each keeps_if keeps_case_option keeps_case_sum keeps_case_prod keeps_gets keeps_case_attr
  keeps_sess_remote keeps_sess_create_api keeps_sess_modify

text \<open>Ending the active experiment keeps the invariant, whether or not the call fails.\<close>

lemma keeps_sess_end_active: "keeps sess_inv end_active"
proof (rule keepsI)
  fix s assume inv: "sess_inv s"
  show "sess_inv (snd (end_active s))"
  proof (cases "active s")
    case None
    with inv show ?thesis by (simp add: end_active_def exc_simps)
  next
    case (Some a)
    obtain r w' where c: "comet (CEnd (act_key a)) (world s) = (r, w')" by fastforce
    then have "running_keys (store w') \<subseteq> running_keys (store (world s))"
      by (auto dest: comet_running simp: starts_session_def)
    moreover have "r = Inr () \<Longrightarrow> act_key a \<notin> running_keys (store w')"
      using c by (auto simp: comet_def Let_def on_exp_def running_keys_def split: if_splits option.splits)
    ultimately show ?thesis using inv Some c
      by (auto simp: end_active_def exc_simps remote_def in_world_def modify_def sess_inv_def
               split: sum.splits)
  qed
qed

text \<open>
  Starting a trial experiment from a state where no session runs: the new or
  resumed one is then the only running session, and it is the active one.
  The creation path needs a fault-free service: a failure between
  \<open>Experiment()\<close> and \<open>setattr\<close> leaves a running session nobody points to.
\<close>

lemma start_trial_sess:
  assumes "faults (world s) = []" "wf_st s" "running_keys (store (world s)) = {}"
  shows "sess_inv (snd (start_trial_experiment t ekey s))"
  using assms fresh_key_not_stored[of "world s"]
  by (auto simp: callback_evals exc_simps Let_def sess_inv_def wf_st_def split: option.splits)

lemma end_active_cases:
  assumes "faults (world s) = []" "sess_inv s" "active s = Some a" "\<not> act_ended a"
  shows "case end_active s of
           (Inl e, s') \<Rightarrow> sess_inv s'
         | (Inr x, s') \<Rightarrow> running_keys (store (world s')) = {} \<and> faults (world s') = []"
  using assms by (auto simp: callback_evals exc_simps Let_def sess_inv_def split: option.splits)

lemma init_trial_sess:
  assumes ff: "faults (world s) = []" and wf: "wf_st s" and inv: "sess_inv s"
  shows "sess_inv (snd (init_trial_experiment t s))"
proof (cases "dict_get (cb_trial_experiments (cb s)) (number t)")
  case (Inl e)
  with inv show ?thesis by (simp add: init_trial_experiment_def exc_simps)
next
  case (Inr ekey)
  show ?thesis
  proof (cases "active s")
    case None
    with inv have "running_keys (store (world s)) = {}" by (simp add: sess_inv_ended_none)
    with None Inr ff wf show ?thesis by (simp add: init_trial_experiment_def start_trial_sess)
  next
    case (Some a)
    show ?thesis
    proof (cases "ekey = Some (act_key a)")
      case True
      with Some Inr inv show ?thesis by (simp add: init_trial_experiment_def exc_simps)
    next
      case neq: False
      show ?thesis
      proof (cases "act_ended a")
        case True
        with Some inv have "running_keys (store (world s)) = {}" by (simp add: sess_inv_ended_none)
        with True Some neq Inr ff wf show ?thesis
          by (simp add: init_trial_experiment_def start_trial_sess)
      next
        case False
        obtain r s' where e: "end_active s = (r, s')" by fastforce
        from keepsD [OF keeps_svc_end_active [OF svc_inv_sess [OF svc_inv_wf]] wf [unfolded wf_st_def]] e have wf': "wf_st s'"
          by (simp add: wf_st_def)
        from end_active_cases [OF ff inv Some False] e
        have "case r of Inl _ \<Rightarrow> sess_inv s'
                | Inr _ \<Rightarrow> running_keys (store (world s')) = {} \<and> faults (world s') = []"
          by (simp split: sum.splits)
        with wf' e False Some neq Inr show ?thesis
          by (auto simp: init_trial_experiment_def exc_simps start_trial_sess split: sum.splits)
      qed
    qed
  qed
qed

text \<open>Everything \<open>__call__\<close> does after resolving the trial experiment keeps the invariant.\<close>

lemma keeps_sess_log_objectives: "keeps sess_inv (log_objectives k t)"
  unfolding log_objectives_def log_metrics_def
  by (rule keeps_reading) (intro keeps_sess_intros; simp add: starts_session_def)

lemma keeps_sess_log_best_trials: "keeps sess_inv log_best_trials"
  unfolding log_best_trials_def
  by (rule keeps_reading) (intro keeps_sess_intros; simp add: starts_session_def)

lemma cb_call_sess:
  assumes "faults (world s) = []" "wf_st s" "sess_inv s"
  shows "sess_inv (snd (cb_call t s))"
  unfolding cb_call_def
  by (rule keeps_after_bind [where P = sess_inv and m = "init_trial_experiment t", OF init_trial_sess [OF assms]])
     (intro keeps_sess_intros keeps_sess_end_active keeps_sess_log_objectives keeps_sess_log_best_trials;
      simp add: starts_session_def)

lemma keeps_sess_in_world: "(\<And>w. store (snd (m w)) = store w) \<Longrightarrow> keeps sess_inv (in_world m)"
  by (auto simp: keeps_def sess_inv_def in_world_def split: prod.splits) (metis snd_conv)

lemma store_get_default_workspace: "store (snd (get_default_workspace w)) = store w"
  by (auto simp: get_default_workspace_def comet_def Let_def exc_simps split: option.splits)

lemma keeps_sess_study_exp: "keeps sess_inv (study_experiment_from_attr a)"
  unfolding study_experiment_from_attr_def Let_def
  by (rule keeps_reading) (intro keeps_sess_intros; simp add: starts_session_def)

lemma keeps_sess_cb_init: "keeps sess_inv (cb_init ws p names)"
  unfolding cb_init_def init_attributes_def load_trial_experiments_def init_study_experiment_def
    log_directions_def Let_def
  by (intro keeps_sess_intros keeps_sess_study_exp keeps_sess_in_world;
      simp add: starts_session_def store_get_default_workspace)

section \<open>Frames\<close>

lemma remote_frame [simp]:
  "study (snd (remote c s)) = study s" "cb (snd (remote c s)) = cb s" "active (snd (remote c s)) = active s"
  by (auto simp: remote_def in_world_def split: prod.splits)

lemma remote_frame_eq:
  "remote c s = (r, s') \<Longrightarrow> study s' = study s \<and> cb s' = cb s \<and> active s' = active s"
  by (auto simp: remote_def in_world_def split: prod.splits)

lemma keeps_remote_local: "(\<And>s w. P (s\<lparr>world := w\<rparr>) = P s) \<Longrightarrow> keeps P (remote c)"
  by (auto simp: keeps_def remote_def in_world_def split: prod.splits)

lemma keeps_in_world_local: "(\<And>s w. P (s\<lparr>world := w\<rparr>) = P s) \<Longrightarrow> keeps P (in_world m)"
  by (auto simp: keeps_def in_world_def split: prod.splits)

lemma keeps_modify_gen: "(\<And>s. P s \<Longrightarrow> P (f s)) \<Longrightarrow> keeps P (modify f)"
  by (simp add: keeps_def modify_def)

lemmas keeps_local_intros = keeps_ret keeps_raise keeps_lift_sum keeps_bind_exc keeps_then_exc
  keeps_for_each keeps_if keeps_case_option keeps_case_sum keeps_case_prod keeps_gets keeps_case_attr
  keeps_remote_local keeps_in_world_local keeps_modify_gen

text \<open>
  A property of the process state that does not look at the tracking service and
  survives a change of the active experiment (\<open>obs_frame\<close>), and one that also
  survives a change of the trial mapping (\<open>call_frame\<close>): the parts \<open>__call__\<close>
  may change besides the service.
\<close>

definition obs_frame :: "(st \<Rightarrow> bool) \<Rightarrow> bool" where
  "obs_frame P \<longleftrightarrow> (\<forall>s w. P (s\<lparr>world := w\<rparr>) = P s) \<and> (\<forall>s a. P s \<longrightarrow> P (s\<lparr>active := a\<rparr>))"

definition call_frame :: "(st \<Rightarrow> bool) \<Rightarrow> bool" where
  "call_frame P \<longleftrightarrow> obs_frame P \<and> (\<forall>s d. P s \<longrightarrow> P (s\<lparr>cb := (cb s)\<lparr>cb_trial_experiments := d\<rparr>\<rparr>))"

lemma obs_frameD:
  assumes "obs_frame P"
  shows "P (s\<lparr>world := w\<rparr>) = P s" "P s \<Longrightarrow> P (s\<lparr>active := a\<rparr>)"
  using assms by (simp_all add: obs_frame_def)

lemma call_frame_obs: "call_frame P \<Longrightarrow> obs_frame P"
  by (simp add: call_frame_def)

lemma call_frameD:
  assumes "call_frame P"
  shows "P (s\<lparr>world := w\<rparr>) = P s" "P s \<Longrightarrow> P (s\<lparr>active := a\<rparr>)"
    "P s \<Longrightarrow> P (s\<lparr>cb := (cb s)\<lparr>cb_trial_experiments := d\<rparr>\<rparr>)"
  using assms by (simp_all add: call_frame_def obs_frame_def)

text \<open>Ending, logging the objectives and the best trials touch no mapping.\<close>

lemma keeps_frame_end_active: "obs_frame P \<Longrightarrow> keeps P end_active"
  unfolding end_active_def by (rule keeps_reading) (intro keeps_local_intros; simp add: obs_frameD)

lemma keeps_frame_activate: "call_frame P \<Longrightarrow> keeps P (activate k)"
  unfolding activate_def by (intro keeps_local_intros; simp add: call_frameD)

lemma keeps_frame_create_trial: "call_frame P \<Longrightarrow> keeps P (create_trial_experiment t)"
  unfolding create_trial_experiment_def
  by (rule keeps_reading) (intro keeps_local_intros keeps_frame_activate; simp add: call_frameD)

lemma keeps_frame_init_trial: "call_frame P \<Longrightarrow> keeps P (init_trial_experiment t)"
  unfolding init_trial_experiment_def start_trial_experiment_def
  by (rule keeps_reading)
     (intro keeps_local_intros keeps_frame_activate keeps_frame_end_active keeps_frame_create_trial call_frame_obs;
      simp add: call_frameD)

lemma keeps_frame_log_objectives: "obs_frame P \<Longrightarrow> keeps P (log_objectives k t)"
  unfolding log_objectives_def log_metrics_def
  by (rule keeps_reading) (intro keeps_local_intros; simp add: obs_frameD)

lemma keeps_frame_log_best_trials: "obs_frame P \<Longrightarrow> keeps P log_best_trials"
  unfolding log_best_trials_def by (rule keeps_reading) (intro keeps_local_intros; simp add: obs_frameD)

lemma keeps_frame_cb_call: "call_frame P \<Longrightarrow> keeps P (cb_call t)"
  unfolding cb_call_def
  by (intro keeps_local_intros keeps_frame_init_trial keeps_frame_log_objectives
        keeps_frame_log_best_trials keeps_frame_end_active call_frame_obs; simp add: call_frameD)

text \<open>
  \<open>__init__\<close> changes the service, the callback object, and in the study only the
  attribute that holds the study experiment's key.
\<close>

lemma keeps_frame_cb_init:
  assumes w: "\<And>s w. P (s\<lparr>world := w\<rparr>) = P s"
    and c: "\<And>s c. P s \<Longrightarrow> P (s\<lparr>cb := c\<rparr>)"
    and k: "\<And>s v. P s \<Longrightarrow> P (s\<lparr>study := set_user_attr ''comet_study_experiment_key'' v (study s)\<rparr>)"
  shows "keeps P (cb_init ws p names)"
proof -
  have se: "keeps P (study_experiment_from_attr a)" for a
    unfolding study_experiment_from_attr_def Let_def
    by (rule keeps_reading) (intro keeps_local_intros; simp add: w k)
  show ?thesis
    unfolding cb_init_def init_attributes_def load_trial_experiments_def init_study_experiment_def
    log_directions_def Let_def
    by (intro keeps_local_intros se; simp add: w c)
qed

section \<open>What a successful resolution leaves behind\<close>

lemma end_active_cb: "end_active s = (r, s1) \<Longrightarrow> cb s1 = cb s"
  by (auto simp: end_active_def remote_def in_world_def modify_def exc_simps
           split: option.splits prod.splits sum.splits)

lemma start_trial_success:
  assumes "start_trial_experiment t ekey s = (Inr k, s1)"
    and "dict_get (cb_trial_experiments (cb s)) (number t) = Inr ekey"
  shows "dict_get (cb_trial_experiments (cb s1)) (number t) = Inr (Some k) \<and>
         map_option act_key (active s1) = Some k"
  using assms
  by (auto simp: start_trial_experiment_def create_trial_experiment_def activate_def
     dict_get_def dict_set_def truthy_key_def in_world_def remote_def modify_def exc_simps
     split: sum.splits option.splits if_splits prod.splits attr.splits)

text \<open>
  After \<open>_init_optuna_trial_experiment\<close> returns a key, the mapping holds it for
  the trial and the active experiment has it, whatever branch was taken.
\<close>

lemma init_trial_success:
  assumes r: "init_trial_experiment t s = (Inr k, s1)"
  shows "dict_get (cb_trial_experiments (cb s1)) (number t) = Inr (Some k) \<and>
         map_option act_key (active s1) = Some k"
proof (cases "dict_get (cb_trial_experiments (cb s)) (number t)")
  case (Inl e)
  with r show ?thesis by (simp add: init_trial_experiment_def exc_simps)
next
  case (Inr ekey)
  show ?thesis
  proof (cases "\<exists>a. active s = Some a \<and> ekey = Some (act_key a)")
    case True
    with r Inr show ?thesis by (auto simp: init_trial_experiment_def exc_simps)
  next
    case False
    then have "\<exists>s0. (end_active s = (Inr (), s0) \<or> s0 = s) \<and> start_trial_experiment t ekey s0 = (Inr k, s1)"
      using r Inr by (auto simp: init_trial_experiment_def exc_simps split: option.splits if_splits prod.splits sum.splits)
    then obtain s0 where "end_active s = (Inr (), s0) \<or> s0 = s"
      and st: "start_trial_experiment t ekey s0 = (Inr k, s1)" by blast
    then have "cb s0 = cb s" by (auto dest: end_active_cb)
    with st Inr show ?thesis by (simp add: start_trial_success)
  qed
qed

section \<open>Effects of single statements on a record\<close>

lemma remote_log_other_Inr:
  "remote (CLogOther k n v) s = (Inr (), s') \<Longrightarrow> \<exists>e. store (world s') k = Some e \<and> e_others e n = Some v"
  by (auto simp: remote_def in_world_def comet_def Let_def on_exp_def split: if_splits option.splits prod.splits)

text \<open>Ending a session touches only its running flag.\<close>

lemma end_active_others:
  "end_active s = (r, s') \<Longrightarrow> store (world s) k = Some e \<Longrightarrow>
   \<exists>e'. store (world s') k = Some e' \<and> e_others e' = e_others e"
  by (auto simp: end_active_def remote_def in_world_def comet_def Let_def on_exp_def modify_def exc_simps
           split: if_splits option.splits prod.splits sum.splits)

section \<open>What a normal return of \<open>__call__\<close> went through\<close>

lemma cb_call_InrD:
  assumes r: "cb_call t s = (Inr (), s')"
  obtains k s1 s4 s5 s6 where "init_trial_experiment t s = (Inr k, s1)"
    "then_exc (remote (CLogParameters k (params t)))
       (then_exc (remote (CLogOther k ''trial_number'' (ONat (number t))))
         (remote (CAddTag k (''trial_number_'' @ str_nat (number t))))) s1 = (Inr (), s4)"
    "log_objectives k t s4 = (Inr (), s5)" "log_best_trials s5 = (Inr (), s6)" "end_active s6 = (Inr (), s')"
proof -
  let ?pre = "\<lambda>k. then_exc (remote (CLogParameters k (params t)))
       (then_exc (remote (CLogOther k ''trial_number'' (ONat (number t))))
         (remote (CAddTag k (''trial_number_'' @ str_nat (number t)))))"
  have "cb_call t = bind_exc (init_trial_experiment t)
          (\<lambda>k. then_exc (?pre k) (then_exc (log_objectives k t) (then_exc log_best_trials end_active)))"
    by (simp add: cb_call_def then_exc_assoc)
  with r obtain k s1 where i: "init_trial_experiment t s = (Inr k, s1)"
    and r1: "then_exc (?pre k) (then_exc (log_objectives k t) (then_exc log_best_trials end_active)) s1 = (Inr (), s')"
    using bind_exc_InrD by fastforce
  from then_exc_InrD [OF r1] obtain s4 where p: "?pre k s1 = (Inr (), s4)"
    and r4: "then_exc (log_objectives k t) (then_exc log_best_trials end_active) s4 = (Inr (), s')" by blast
  from then_exc_InrD [OF r4] obtain s5 where o: "log_objectives k t s4 = (Inr (), s5)"
    and r5: "then_exc log_best_trials end_active s5 = (Inr (), s')" by blast
  from then_exc_InrD [OF r5] obtain s6 where "log_best_trials s5 = (Inr (), s6)" "end_active s6 = (Inr (), s')"
    by blast
  with i p o show ?thesis by (rule that)
qed

text \<open>After \<open>end()\<close> returned, the active experiment, if any, is ended.\<close>

lemma end_active_Inr:
  "end_active s = (Inr (), s') \<Longrightarrow> (case active s' of None \<Rightarrow> True | Some a \<Rightarrow> act_ended a)"
  by (auto simp: end_active_def remote_def in_world_def modify_def exc_simps
           split: option.splits prod.splits sum.splits)

section \<open>Example states\<close>

text \<open>
  A fresh process (\<open>ex_st0\<close>) and the same process after constructing the
  callback for a new single-objective study (\<open>ex_st1\<close>), used to instantiate the
  properties below.
\<close>

definition ex_study :: study where
  "ex_study = \<lparr>study_name = ''s'', directions = [MINIMIZE], user_attrs = Map.empty,
                storage_name = ''InMemoryStorage'', best_trials = [0]\<rparr>"

definition ex_world :: world where
  "ex_world = \<lparr>store = Map.empty, next_id = 0, default_workspace = Some ''ws'', faults = [],
                attempts = 0, call_log = []\<rparr>"

definition ex_st0 :: st where
  "ex_st0 = \<lparr>world = ex_world, study = ex_study,
             cb = \<lparr>cb_project_name = None, cb_workspace = None, cb_metric_names = [],
                   cb_study_experiment = [], cb_trial_experiments = ANone\<rparr>,
             active = None\<rparr>"

definition ex_study_exp :: remote_exp where
  "ex_study_exp = (new_experiment APIExperimentK (Some ''ws'') (Some ''general''))
     \<lparr>e_tags := [''optuna_study''],
      e_others := [''optuna_study_name'' \<mapsto> OStr ''s'', ''optuna_storage'' \<mapsto> OStr ''InMemoryStorage'',
                   ''direction_of_objective_0'' \<mapsto> OStr ''minimize'']\<rparr>"

definition ex_st1 :: st where
  "ex_st1 = \<lparr>world = \<lparr>store = [''exp0'' \<mapsto> ex_study_exp], next_id = 1, default_workspace = Some ''ws'',
                       faults = [], attempts = 6, call_log = []\<rparr>,
             study = ex_study\<lparr>user_attrs := [''comet_study_experiment_key'' \<mapsto> AStr ''exp0'']\<rparr>,
             cb = \<lparr>cb_project_name = Some ''general'', cb_workspace = Some ''ws'', cb_metric_names = [],
                   cb_study_experiment = ''exp0'', cb_trial_experiments = ADict []\<rparr>,
             active = None\<rparr>"

definition ex_trial :: frozen_trial where
  "ex_trial = \<lparr>number = 0, params = [(''x'', PFloat 1)], trial_values = Some [1]\<rparr>"

text \<open>An objective that logs to the experiment the wrapper gives it.\<close>

definition ex_objective :: "frozen_trial \<Rightarrow> key \<Rightarrow> (st, unit) exc" where
  "ex_objective t k = remote (CLogOther k ''foo'' (OStr ''bar''))"

lemma str_nat_digit [simp]: "n < 10 \<Longrightarrow> str_nat n = [digit_char n]"
  by (simp add: str_nat.simps)

lemma ex_keys:
  "key_of 0 = ''exp0''" "key_of (Suc 0) = ''exp1''" "key_of 1 = ''exp1''" "key_of 2 = ''exp2''"
  "key_of (Suc (Suc 0)) = ''exp2''"
  by (simp_all add: key_of_def digit_char_def char_of_eq_iff)

lemmas ex_defs = ex_study_def ex_world_def ex_st0_def ex_study_exp_def ex_st1_def ex_trial_def
  ex_keys Let_def

section \<open>Runs of logging calls\<close>

text \<open>The calls that only annotate an existing record.\<close>

definition logs_on :: "key \<Rightarrow> call \<Rightarrow> bool" where
  "logs_on k c =
     (case c of
        CAddTag k' _ \<Rightarrow> k' = k | CLogOther k' _ _ \<Rightarrow> k' = k | CLogParameters k' _ \<Rightarrow> k' = k
      | CLogMetric k' _ _ \<Rightarrow> k' = k | CLogOptimization k' _ \<Rightarrow> k' = k | _ \<Rightarrow> False)"

lemma remote_log_ok:
  assumes "faults (world s) = []" "store (world s) k \<noteq> None" "logs_on k c"
  shows "fst (remote c s) = Inr () \<and>
         call_log (world (snd (remote c s))) = call_log (world s) @ [c] \<and>
         faults (world (snd (remote c s))) = [] \<and>
         dom (store (world (snd (remote c s)))) = dom (store (world s)) \<and>
         running_keys (store (world (snd (remote c s)))) = running_keys (store (world s))"
  using assms
  by (cases c) (auto simp: logs_on_def remote_def in_world_def comet_def Let_def on_exp_def running_keys_def
                     split: if_splits)

end
