(* ===== verification/Trials.thy ===== *)
theory Trials
  imports Callback
begin

text \<open>
  Properties of \<open>__call__\<close>, \<open>_init_optuna_trial_experiment\<close> and the
  \<open>track_in_comet\<close> wrapper: what they do to the tracking service and to the
  process state, on every branch, and what they keep.
\<close>


section \<open>Example states\<close>

text \<open>
  A process whose trial 0 experiment \<open>exp1\<close> is still open (its objective was
  wrapped by \<open>track_in_comet\<close> but the callback did not run), and trial 1.
\<close>

definition ex_session :: remote_exp where
  "ex_session = (new_experiment SessionK (Some ''ws'') (Some ''general''))
     \<lparr>e_tags := [''optuna_trial''], e_others := [''optuna_study_name'' \<mapsto> OStr ''s'']\<rparr>"

definition ex_st_open :: st where
  "ex_st_open = ex_st1\<lparr>world := (world ex_st1)\<lparr>store := (store (world ex_st1))(''exp1'' \<mapsto> ex_session),
                                                next_id := 2\<rparr>,
                       cb := (cb ex_st1)\<lparr>cb_trial_experiments := ADict [(0, ''exp1'')]\<rparr>,
                       active := Some \<lparr>act_key = ''exp1'', act_ended = False\<rparr>\<rparr>"

definition ex_trial1 :: frozen_trial where
  "ex_trial1 = \<lparr>number = 1, params = [(''x'', PFloat 2)], trial_values = Some [1 / 2]\<rparr>"

section \<open>Resolving the trial experiment\<close>

text \<open>
  C2. Switching trials closes the open experiment first: when another trial's
  experiment is active and not ended, \<open>_init_optuna_trial_experiment\<close> for a new
  trial ends it, then creates the new experiment, tags it and annotates it, in
  this order; the new one becomes the active experiment, the old one no longer
  runs, and the mapping records the new key for the trial.
\<close>

theorem init_trial_ends_previous:
  assumes "faults (world s) = []" and "wf_st s"
    and "cb_trial_experiments (cb s) = ADict d" and "map_of d (number t) = None"
    and "active s = Some a" and "\<not> act_ended a" and "store (world s) (act_key a) = Some e"
  shows "let k = key_of (next_id (world s)); s' = snd (init_trial_experiment t s) in
         fst (init_trial_experiment t s) = Inr k \<and>
         call_log (world s') = call_log (world s) @
           [CEnd (act_key a), CCreate SessionK k (cb_workspace (cb s)) (cb_project_name (cb s)),
            CAddTag k ''optuna_trial'', CLogOther k ''optuna_study_name'' (OStr (study_name (study s)))] \<and>
         active s' = Some \<lparr>act_key = k, act_ended = False\<rparr> \<and>
         act_key a \<notin> running_keys (store (world s')) \<and>
         cb_trial_experiments (cb s') = ADict (AList.update (number t) k d)"
proof -
  have fresh: "store (world s) (key_of (next_id (world s))) = None"
    using assms(2) by (simp add: wf_st_def fresh_key_not_stored)
  with assms(7) have ne: "act_key a \<noteq> key_of (next_id (world s))" by auto
  show ?thesis
    using assms fresh ne
    by (simp add: callback_evals exc_simps Let_def running_keys_def)
qed

theorem init_trial_ends_previous_witness:
  "fst (init_trial_experiment ex_trial1 ex_st_open) = Inr ''exp2'' \<and>
   call_log (world (snd (init_trial_experiment ex_trial1 ex_st_open))) =
     [CEnd ''exp1'', CCreate SessionK ''exp2'' (Some ''ws'') (Some ''general''),
      CAddTag ''exp2'' ''optuna_trial'', CLogOther ''exp2'' ''optuna_study_name'' (OStr ''s'')]"
proof -
  have wf: "wf_st ex_st_open"
    by (auto simp: wf_st_def wf_world_def ex_st_open_def ex_defs lessThan_Suc eval_nat_numeral)
  show ?thesis
    using init_trial_ends_previous [where s = ex_st_open and t = ex_trial1 and d = "[(0, ''exp1'')]"
        and a = "\<lparr>act_key = ''exp1'', act_ended = False\<rparr>" and e = ex_session, OF _ wf]
    by (simp add: ex_st_open_def ex_trial1_def ex_defs Let_def)
qed

section \<open>The decorator and the callback\<close>

text \<open>
  C14. The decorator and the callback agree on the trial's experiment: after the
  wrapper of \<open>track_in_comet\<close> resolved the experiment \<open>k\<close> and ran an objective
  that leaves the callback object and the active experiment alone, resolving the
  trial's experiment again (as \<open>__call__\<close> does next) returns the same \<open>k\<close>
  without any remote call and without changing the state.
\<close>

theorem track_then_call_reuses:
  assumes "init_trial_experiment t s = (Inr k, s1)" and "func t k s1 = (r, s2)"
    and "cb s2 = cb s1" and "active s2 = active s1"
  shows "track_in_comet func t s = (r, s2) \<and> init_trial_experiment t s2 = (Inr k, s2)"
proof
  show "track_in_comet func t s = (r, s2)"
    using assms(1,2) by (simp add: track_in_comet_def)
next
  from init_trial_success [OF assms(1)] obtain a where
    d: "dict_get (cb_trial_experiments (cb s1)) (number t) = Inr (Some k)"
    and a: "active s1 = Some a" and ak: "act_key a = k" by auto
  with assms(3,4) show "init_trial_experiment t s2 = (Inr k, s2)"
    by (simp add: init_trial_experiment_def exc_simps)
qed

theorem track_then_call_reuses_witness:
  "track_in_comet ex_objective ex_trial ex_st1 = ex_objective ex_trial ''exp1''
     (snd (init_trial_experiment ex_trial ex_st1)) \<and>
   init_trial_experiment ex_trial (snd (track_in_comet ex_objective ex_trial ex_st1)) =
     (Inr ''exp1'', snd (track_in_comet ex_objective ex_trial ex_st1))"
proof -
  obtain s1 where i: "init_trial_experiment ex_trial ex_st1 = (Inr ''exp1'', s1)"
    by (simp add: ex_defs callback_evals exc_simps)
  obtain r s2 where o: "ex_objective ex_trial ''exp1'' s1 = (r, s2)" by fastforce
  then have "s2 = snd (remote (CLogOther ''exp1'' ''foo'' (OStr ''bar'')) s1)"
    by (simp add: ex_objective_def)
  then have "cb s2 = cb s1" "active s2 = active s1" by simp_all
  from track_then_call_reuses [where func = ex_objective, OF i o this] i o show ?thesis by simp
qed

text \<open>
  C12. Whenever \<open>__call__\<close> returns normally, the study experiment's
  \<open>"best_trials"\<close> annotation is the JSON list of the study's current best trial
  numbers, whatever it held before: the value is overwritten, not appended to.
  This holds under any fault schedule.
\<close>

theorem best_trials_overwritten:
  assumes r: "cb_call t s = (Inr (), s')"
  shows "\<exists>e. store (world s') (cb_study_experiment (cb s)) = Some e \<and>
             e_others e ''best_trials'' = Some (OStr (json_dumps_nats (best_trials (study s))))"
proof -
  let ?P = "\<lambda>x. cb_study_experiment (cb x) = cb_study_experiment (cb s) \<and> study x = study s"
  have cf: "call_frame ?P" by (simp add: call_frame_def obs_frame_def)
  from r obtain k s1 s4 s5 s6 where i: "init_trial_experiment t s = (Inr k, s1)"
    and p: "then_exc (remote (CLogParameters k (params t)))
              (then_exc (remote (CLogOther k ''trial_number'' (ONat (number t))))
                (remote (CAddTag k (''trial_number_'' @ str_nat (number t))))) s1 = (Inr (), s4)"
    and o: "log_objectives k t s4 = (Inr (), s5)" and b: "log_best_trials s5 = (Inr (), s6)"
    and e: "end_active s6 = (Inr (), s')"
    by (rule cb_call_InrD)
  have "?P (snd (init_trial_experiment t s))"
    by (rule keepsD [OF keeps_frame_init_trial [OF cf]]) simp
  with i have p1: "?P s1" by simp
  have "keeps ?P (then_exc (remote (CLogParameters k (params t)))
              (then_exc (remote (CLogOther k ''trial_number'' (ONat (number t))))
                (remote (CAddTag k (''trial_number_'' @ str_nat (number t))))))"
    by (intro keeps_then_exc keeps_remote_local; simp)
  from this p1 have "?P (snd (then_exc (remote (CLogParameters k (params t)))
              (then_exc (remote (CLogOther k ''trial_number'' (ONat (number t))))
                (remote (CAddTag k (''trial_number_'' @ str_nat (number t))))) s1))"
    by (rule keepsD)
  with p have p4: "?P s4" by simp
  have "?P (snd (log_objectives k t s4))"
    by (rule keepsD [OF keeps_frame_log_objectives [OF call_frame_obs [OF cf]] p4])
  with o have p5: "?P s5" by simp
  from b p5 have "remote (CLogOther (cb_study_experiment (cb s)) ''best_trials''
      (OStr (json_dumps_nats (best_trials (study s))))) s5 = (Inr (), s6)"
    by (simp add: log_best_trials_def)
  from remote_log_other_Inr [OF this] obtain e
    where st: "store (world s6) (cb_study_experiment (cb s)) = Some e"
      and ot: "e_others e ''best_trials'' = Some (OStr (json_dumps_nats (best_trials (study s))))"
    by blast
  from end_active_others [OF e st] ot show ?thesis by auto
qed

theorem best_trials_overwritten_witness:
  "\<exists>e. store (world (snd (cb_call ex_trial ex_st1))) ''exp0'' = Some e \<and>
       e_others e ''best_trials'' = Some (OStr (json_dumps_nats [0]))"
proof -
  obtain s' where r: "cb_call ex_trial ex_st1 = (Inr (), s')"
    by (simp add: ex_defs callback_evals exc_simps single_metric_name_def is_multi_def)
  from best_trials_overwritten [OF r] r show ?thesis by (simp add: ex_st1_def ex_study_def)
qed

text \<open>
  C19. \<open>__init__\<close> and \<open>__call__\<close> never write the study's
  \<open>"trial_experiments"\<close> attribute: the trial-to-experiment mapping stays in the
  callback object, and other processes never see it (line 101 only reads
  \<open>study.user_attrs\<close>).
\<close>

theorem trial_mapping_never_persisted:
  "user_attrs (study (snd (cb_init ws p names s))) ''trial_experiments'' =
     user_attrs (study s) ''trial_experiments'' \<and>
   user_attrs (study (snd (cb_call t s))) ''trial_experiments'' =
     user_attrs (study s) ''trial_experiments''"
proof
  let ?P = "\<lambda>x. user_attrs (study x) ''trial_experiments'' = user_attrs (study s) ''trial_experiments''"
  have "keeps ?P (cb_init ws p names)" by (rule keeps_frame_cb_init) simp_all
  then show "?P (snd (cb_init ws p names s))" by (rule keepsD) simp
  have "keeps ?P (cb_call t)" by (rule keeps_frame_cb_call) (simp add: call_frame_def obs_frame_def)
  then show "?P (snd (cb_call t s))" by (rule keepsD) simp
qed

end
