(* ===== verification/Cost.thy ===== *)
theory Cost
  imports Trials
begin

text \<open>
  The number of round trips to the tracking service. Every remote call, failed
  or not, counts one attempt (\<open>attempts\<close> of the service); \<open>calls_le n m\<close> says
  that the statement \<open>m\<close> makes at most \<open>n\<close> of them from any state. The bounds
  compose along the structure of the methods: a sequence adds, a branch takes
  the larger, a loop multiplies by its length. \<open>__call__\<close> makes at most
  \<open>9 + k\<close> round trips for a trial with \<open>k\<close> objective values (at least one),
  and reaches that bound when it switches from an open experiment to a new one.
\<close>

section \<open>Definitions\<close>

definition calls_le :: "nat \<Rightarrow> (st, 'a) exc \<Rightarrow> bool" where
  "calls_le n m \<longleftrightarrow> (\<forall>s. attempts (world (snd (m s))) \<le> attempts (world s) + n)"

text \<open>The objective calls of a trial: one metric per value, or one optimization result.\<close>

definition objective_calls :: "frozen_trial \<Rightarrow> nat" where
  "objective_calls t = (case trial_values t of Some vs \<Rightarrow> max 1 (length vs) | None \<Rightarrow> 1)"

section \<open>The calculus\<close>

lemma calls_leI: "(\<And>s. attempts (world (snd (m s))) \<le> attempts (world s) + n) \<Longrightarrow> calls_le n m"
  by (simp add: calls_le_def)

lemma calls_leD: "calls_le n m \<Longrightarrow> attempts (world (snd (m s))) \<le> attempts (world s) + n"
  by (simp add: calls_le_def)

lemma calls_le_mono: "calls_le n m \<Longrightarrow> n \<le> k \<Longrightarrow> calls_le k m"
  unfolding calls_le_def by (meson add_left_mono order_trans)

lemma calls_le_ret: "calls_le 0 (ret x)" and calls_le_raise: "calls_le 0 (raise e)"
  and calls_le_lift_sum: "calls_le 0 (lift_sum r)" and calls_le_gets: "calls_le 0 (gets f)"
  by (simp_all add: calls_le_def exc_simps gets_def)

lemma calls_le_modify: "(\<And>s. world (f s) = world s) \<Longrightarrow> calls_le 0 (modify f)"
  by (simp add: calls_le_def modify_def)

lemma calls_le_comet: "comet c w = (r, w') \<Longrightarrow> attempts w' = Suc (attempts w)"
  by (rule comet_attempts)

lemma calls_le_remote: "calls_le 1 (remote c)"
  by (auto simp: calls_le_def remote_def in_world_def dest!: comet_attempts split: prod.splits)

lemma calls_le_create: "calls_le 1 (in_world (create_experiment kd ws p))"
  by (auto simp: calls_le_def in_world_def create_experiment_def Let_def exc_simps dest!: comet_attempts
           split: prod.splits sum.splits)

lemma calls_le_bind:
  assumes m: "calls_le n m" and f: "\<And>x. calls_le k (f x)"
  shows "calls_le (n + k) (bind_exc m f)"
proof (rule calls_leI)
  fix s
  obtain r s1 where e: "m s = (r, s1)" by fastforce
  from calls_leD [OF m, of s] e have a: "attempts (world s1) \<le> attempts (world s) + n" by simp
  show "attempts (world (snd (bind_exc m f s))) \<le> attempts (world s) + (n + k)"
  proof (cases r)
    case (Inl e')
    with e a show ?thesis by (simp add: bind_exc_def)
  next
    case (Inr x)
    from calls_leD [OF f, of x s1] e Inr a show ?thesis by (simp add: bind_exc_def)
  qed
qed

lemma calls_le_then: "calls_le n m \<Longrightarrow> calls_le k r \<Longrightarrow> calls_le (n + k) (then_exc m r)"
  unfolding then_exc_def by (rule calls_le_bind)

lemma calls_le_if: "calls_le n m \<Longrightarrow> calls_le k r \<Longrightarrow> calls_le (max n k) (if b then m else r)"
  by (auto intro: calls_le_mono)

lemma calls_le_for_each:
  "(\<And>x. x \<in> set xs \<Longrightarrow> calls_le n (f x)) \<Longrightarrow> calls_le (length xs * n) (for_each xs f)"
proof (induction xs)
  case Nil
  then show ?case by (simp add: calls_le_ret)
next
  case (Cons x xs)
  then have "calls_le (n + length xs * n) (then_exc (f x) (for_each xs f))"
    by (intro calls_le_then) simp_all
  then show ?case by simp
qed

lemma calls_le_reading: "(\<And>s0. calls_le n (M s0)) \<Longrightarrow> calls_le n (\<lambda>s. M s s)"
  by (simp add: calls_le_def)

lemma calls_le_case_option:
  "calls_le n m \<Longrightarrow> (\<And>a. calls_le k (f a)) \<Longrightarrow> calls_le (max n k) (case x of None \<Rightarrow> m | Some a \<Rightarrow> f a)"
  by (cases x) (simp_all add: calls_le_mono [OF _ max.cobounded1] calls_le_mono [OF _ max.cobounded2])

lemma calls_le_case_sum:
  "(\<And>e. calls_le n (f e)) \<Longrightarrow> (\<And>a. calls_le k (g a)) \<Longrightarrow> calls_le (max n k) (case x of Inl e \<Rightarrow> f e | Inr a \<Rightarrow> g a)"
  by (cases x) (simp_all add: calls_le_mono [OF _ max.cobounded1] calls_le_mono [OF _ max.cobounded2])

lemma calls_le_case_prod: "(\<And>a b. calls_le n (f a b)) \<Longrightarrow> calls_le n (case x of (a, b) \<Rightarrow> f a b)"
  by (cases x) simp

text \<open>A branch on a condition, each side bounded under its own case.\<close>

lemma calls_le_cond: "(b \<Longrightarrow> calls_le n m) \<Longrightarrow> (\<not> b \<Longrightarrow> calls_le n r) \<Longrightarrow> calls_le n (if b then m else r)"
  by simp

lemmas calls_le_intros = calls_le_ret calls_le_raise calls_le_lift_sum calls_le_gets calls_le_modify
  calls_le_remote calls_le_create calls_le_then calls_le_bind calls_le_if calls_le_for_each
  calls_le_case_option calls_le_case_sum calls_le_case_prod

section \<open>Round trips of the methods\<close>

lemma calls_le_end_active: "calls_le 1 end_active"
  unfolding end_active_def
  by (rule calls_le_reading, rule calls_le_mono, (rule calls_le_intros | simp)+)

lemma calls_le_activate: "calls_le 0 (activate k)"
  unfolding activate_def by (rule calls_le_mono, (rule calls_le_intros | simp)+)

lemma calls_le_create_trial: "calls_le 3 (create_trial_experiment t)"
  unfolding create_trial_experiment_def
  by (rule calls_le_reading, rule calls_le_mono, (rule calls_le_intros calls_le_activate | simp)+)

lemma calls_le_start_trial: "calls_le 3 (start_trial_experiment t ekey)"
  unfolding start_trial_experiment_def
  by (rule calls_le_mono, (rule calls_le_intros calls_le_activate calls_le_create_trial | simp)+)

lemma calls_le_init_trial: "calls_le 4 (init_trial_experiment t)"
  unfolding init_trial_experiment_def
  by (rule calls_le_reading, rule calls_le_mono,
      (rule calls_le_intros calls_le_end_active calls_le_start_trial | simp)+)

lemma calls_le_log_objectives: "calls_le (objective_calls t) (log_objectives k t)"
  unfolding log_objectives_def
proof (rule calls_le_reading, rule calls_le_cond)
  fix s0
  assume m: "is_multi (trial_values t)"
  then obtain vs where vs: "trial_values t = Some vs" by (auto simp: is_multi_def split: option.splits)
  have "calls_le (length (enumerate 0 vs) * 1) (log_metrics k (cb_metric_names (cb s0)) vs)"
    unfolding log_metrics_def by (rule calls_le_for_each calls_le_case_prod calls_le_remote)+
  then show "calls_le (objective_calls t) (log_metrics k (cb_metric_names (cb s0)) (the (trial_values t)))"
    using vs by (auto simp: objective_calls_def intro: calls_le_mono)
next
  fix s0
  show "calls_le (objective_calls t)
          (bind_exc (lift_sum (trial_value t))
            (\<lambda>v. bind_exc (lift_sum (study_direction (study s0)))
              (\<lambda>d. remote (CLogOptimization k
                 \<lparr>opt_id = study_name (study s0), opt_metric = single_metric_name (cb_metric_names (cb s0)),
                  opt_value = v, opt_params = params t, opt_objective = d\<rparr>))))"
    by (rule calls_le_mono, (rule calls_le_intros | simp add: objective_calls_def split: option.splits)+)
qed

lemma calls_le_log_best_trials: "calls_le 1 log_best_trials"
  unfolding log_best_trials_def by (rule calls_le_reading, rule calls_le_remote)

section \<open>The bound of \<open>__call__\<close>\<close>

text \<open>
  C10. Whatever the state of the service and of the callback, one call of
  \<open>CometCallback.__call__\<close> on a trial makes at most nine round trips plus one
  per objective value (one for a trial without values): four to find or start
  the trial's experiment (end the open one, create, tag, annotate), three for
  its parameters and number, the objective metrics, one for the best trials
  and one to end the experiment. The bound is reached: trial 1 arriving while
  trial 0's experiment is still open takes exactly that many.
\<close>

theorem cb_call_round_trips:
  "calls_le (9 + objective_calls t) (cb_call t) \<and>
   attempts (world (snd (cb_call ex_trial1 ex_st_open))) = attempts (world ex_st_open) + 9 + objective_calls ex_trial1"
proof
  show "calls_le (9 + objective_calls t) (cb_call t)"
    unfolding cb_call_def
    by (rule calls_le_mono, (rule calls_le_intros calls_le_init_trial calls_le_log_objectives
          calls_le_log_best_trials calls_le_end_active | simp)+)
  show "attempts (world (snd (cb_call ex_trial1 ex_st_open))) = attempts (world ex_st_open) + 9 + objective_calls ex_trial1"
    by (simp add: cb_call_def ex_st_open_def ex_trial1_def ex_defs callback_evals exc_simps Let_def
        objective_calls_def is_multi_def log_metrics_def trial_value_def study_direction_def)
qed

end
