(* ===== verification/Logging.thy ===== *)
theory Logging
  imports Callback
begin

text \<open>
  What one invocation of \<open>__call__\<close> sends to the tracking service once the
  trial's experiment is resolved, against an abstract specification written
  from the description of the per-trial invocation (parameters, trial number,
  objective values, best trials, end), and the error path of a trial without
  values in a multi-objective study; the loop of the multi-objective branch is
  shown equivalent to a loop over the metric names padded by indices
  (\<open>padded_names\<close>). The proofs use a small calculus for
  statements that only annotate existing records: \<open>logs_as Q m cs\<close> says that
  from a state satisfying \<open>Q\<close> the statement \<open>m\<close> returns normally, keeps \<open>Q\<close>,
  and appends exactly the calls \<open>cs\<close> to the service's log.
\<close>

section \<open>Definitions\<close>

subsection \<open>Statements that only log\<close>

definition logs_as :: "(st \<Rightarrow> bool) \<Rightarrow> (st, unit) exc \<Rightarrow> call list \<Rightarrow> bool" where
  "logs_as Q m cs \<longleftrightarrow>
     (\<forall>s. Q s \<longrightarrow> fst (m s) = Inr () \<and> Q (snd (m s)) \<and> call_log (world (snd (m s))) = call_log (world s) @ cs)"

text \<open>
  The states in which a logging statement runs: the service does not fail, the
  set of stored records is \<open>D\<close>, that of running sessions \<open>R\<close>, and the
  study, the callback object and the active experiment are fixed.
\<close>

definition quiet :: "key set \<Rightarrow> key set \<Rightarrow> study \<Rightarrow> cb \<Rightarrow> active_exp option \<Rightarrow> st \<Rightarrow> bool" where
  "quiet D R S C A s \<longleftrightarrow>
     faults (world s) = [] \<and> dom (store (world s)) = D \<and> running_keys (store (world s)) = R \<and>
     study s = S \<and> cb s = C \<and> active s = A"

subsection \<open>The specification of one trial\<close>

text \<open>
  The specification of one invocation (the per-trial steps 2 to 6 of the
  description): the parameters as one batch, the trial number as metadata and as
  a tag, then the objectives (one metric per value, named by the configured
  name or the index, for a multi-objective trial; otherwise one optimization
  result with the study name as its id, the configured first name or
  \<open>"objective_value"\<close>, the value, the parameters and the study's direction),
  the best trials on the study experiment, and the end of the trial experiment.
  \<open>spec_input_ok\<close> is the input the description covers: a multi-objective trial,
  or a trial with at most one value in a single-objective study.
\<close>

definition spec_optimization :: "string list \<Rightarrow> study \<Rightarrow> frozen_trial \<Rightarrow> key \<Rightarrow> call" where
  "spec_optimization names stu t k =
     CLogOptimization k
       \<lparr>opt_id = study_name stu, opt_metric = (case names of [] \<Rightarrow> ''objective_value'' | n # _ \<Rightarrow> n),
        opt_value = (case trial_values t of Some (v # _) \<Rightarrow> Some v | _ \<Rightarrow> None),
        opt_params = params t, opt_objective = hd (directions stu)\<rparr>"

definition spec_objective_calls :: "string list \<Rightarrow> study \<Rightarrow> frozen_trial \<Rightarrow> key \<Rightarrow> call list" where
  "spec_objective_calls names stu t k =
     (case trial_values t of
        Some vs \<Rightarrow>
          if 1 < length vs then map (\<lambda>i. CLogMetric k (metric_name_at names i) (vs ! i)) [0..<length vs]
          else [spec_optimization names stu t k]
      | None \<Rightarrow> [spec_optimization names stu t k])"

definition spec_input_ok :: "study \<Rightarrow> frozen_trial \<Rightarrow> bool" where
  "spec_input_ok stu t \<longleftrightarrow>
     (case trial_values t of
        Some vs \<Rightarrow> 1 < length vs \<or> (length vs = 1 \<and> length (directions stu) = 1)
      | None \<Rightarrow> length (directions stu) = 1)"

definition spec_trial_calls :: "string list \<Rightarrow> study \<Rightarrow> key \<Rightarrow> frozen_trial \<Rightarrow> key \<Rightarrow> call list" where
  "spec_trial_calls names stu skey t k =
     [CLogParameters k (params t), CLogOther k ''trial_number'' (ONat (number t)),
      CAddTag k (''trial_number_'' @ str_nat (number t))] @
     spec_objective_calls names stu t k @
     [CLogOther skey ''best_trials'' (OStr (json_dumps_nats (best_trials stu))), CEnd k]"

subsection \<open>Stored active experiments\<close>

text \<open>
  The names of the metrics of a multi-objective trial with \<open>n\<close> values, as a
  list: the names given to the callback, then the decimal indices of the
  values that have none.
\<close>

definition padded_names :: "string list \<Rightarrow> nat \<Rightarrow> string list" where
  "padded_names names n = take n names @ map str_nat [length names..<n]"

text \<open>The active experiment, when there is one, is a stored record.\<close>

definition active_stored :: "st \<Rightarrow> bool" where
  "active_stored s \<longleftrightarrow> (case active s of None \<Rightarrow> True | Some a \<Rightarrow> act_key a \<in> dom (store (world s)))"

subsection \<open>Example states\<close>

text \<open>
  A two-objective study whose callback was constructed with the metric names
  \<open>loss\<close> and \<open>acc\<close>; a trial with the values \<open>0.1\<close> and \<open>0.9\<close>, and a failed
  trial (no values).
\<close>

definition ex_mo_study :: study where
  "ex_mo_study = ex_study\<lparr>directions := [MINIMIZE, MAXIMIZE],
                          user_attrs := [''comet_study_experiment_key'' \<mapsto> AStr ''exp0'']\<rparr>"

definition ex_st_mo :: st where
  "ex_st_mo = ex_st1\<lparr>study := ex_mo_study, cb := (cb ex_st1)\<lparr>cb_metric_names := [''loss'', ''acc'']\<rparr>\<rparr>"

definition ex_mo_trial :: frozen_trial where
  "ex_mo_trial = \<lparr>number = 0, params = [(''x'', PFloat 1)], trial_values = Some [1 / 10, 9 / 10]\<rparr>"

definition ex_failed_trial :: frozen_trial where
  "ex_failed_trial = \<lparr>number = 0, params = [(''x'', PFloat 3)], trial_values = None\<rparr>"

lemmas ex_mo_defs = ex_mo_study_def ex_st_mo_def ex_mo_trial_def ex_failed_trial_def ex_defs

section \<open>The calculus of logging statements\<close>

lemma logs_asD:
  assumes "logs_as Q m cs" "Q s"
  obtains s1 where "m s = (Inr (), s1)" "Q s1" "call_log (world s1) = call_log (world s) @ cs"
  using assms unfolding logs_as_def by (metis prod.collapse)

lemma logs_as_ret: "logs_as Q (ret ()) []"
  by (simp add: logs_as_def ret_def)

lemma logs_as_then:
  assumes m: "logs_as Q m cs1" and k: "logs_as Q k cs2"
  shows "logs_as Q (then_exc m k) (cs1 @ cs2)"
  unfolding logs_as_def
proof (intro allI impI)
  fix s assume "Q s"
  with m obtain s1 where r: "m s = (Inr (), s1)" and q: "Q s1"
    and l: "call_log (world s1) = call_log (world s) @ cs1" by (rule logs_asD)
  from k q l show "fst (then_exc m k s) = Inr () \<and> Q (snd (then_exc m k s)) \<and>
                   call_log (world (snd (then_exc m k s))) = call_log (world s) @ cs1 @ cs2"
    by (simp add: r logs_as_def)
qed

lemma logs_as_for_each:
  "(\<And>x. x \<in> set xs \<Longrightarrow> logs_as Q (f x) [g x]) \<Longrightarrow> logs_as Q (for_each xs f) (map g xs)"
proof (induction xs)
  case Nil
  then show ?case by (simp add: logs_as_ret)
next
  case (Cons x xs)
  then have "logs_as Q (then_exc (f x) (for_each xs f)) ([g x] @ map g xs)"
    by (intro logs_as_then) simp_all
  then show ?case by simp
qed

text \<open>A statement that behaves as another one on the states of \<open>Q\<close>.\<close>

lemma logs_as_cong: "(\<And>s. Q s \<Longrightarrow> m s = m' s) \<Longrightarrow> logs_as Q m' cs \<Longrightarrow> logs_as Q m cs"
  by (simp add: logs_as_def)

lemma logs_as_remote: "logs_on k c \<Longrightarrow> k \<in> D \<Longrightarrow> logs_as (quiet D R S C A) (remote c) [c]"
  unfolding logs_as_def quiet_def
proof (intro allI impI)
  fix s :: st assume "logs_on k c" "k \<in> D"
    and q: "faults (world s) = [] \<and> dom (store (world s)) = D \<and> running_keys (store (world s)) = R \<and>
      study s = S \<and> cb s = C \<and> active s = A"
  then have "store (world s) k \<noteq> None" by auto
  with q \<open>logs_on k c\<close> show "fst (remote c s) = Inr () \<and>
      (faults (world (snd (remote c s))) = [] \<and> dom (store (world (snd (remote c s)))) = D \<and>
       running_keys (store (world (snd (remote c s)))) = R \<and> study (snd (remote c s)) = S \<and> cb (snd (remote c s)) = C \<and> active (snd (remote c s)) = A) \<and>
      call_log (world (snd (remote c s))) = call_log (world s) @ [c]"
    using remote_log_ok [of s k c] by simp
qed

section \<open>The steps of \<open>__call__\<close>\<close>

lemma map_enumerate_nth:
  "map (\<lambda>(i, v). f i v) (enumerate 0 vs) = map (\<lambda>i. f i (vs ! i)) [0..<length vs]"
  by (rule nth_equalityI) (simp_all add: nth_enumerate_eq)

lemma log_metrics_logs:
  "k \<in> D \<Longrightarrow> logs_as (quiet D R S C A) (log_metrics k names vs)
     (map (\<lambda>i. CLogMetric k (metric_name_at names i) (vs ! i)) [0..<length vs])"
proof -
  assume k: "k \<in> D"
  have "logs_as (quiet D R S C A) (for_each (enumerate 0 vs) (\<lambda>(i, v). remote (CLogMetric k (metric_name_at names i) v)))
          (map (\<lambda>(i, v). CLogMetric k (metric_name_at names i) v) (enumerate 0 vs))"
    by (rule logs_as_for_each) (auto intro: logs_as_remote [OF _ k] simp: logs_on_def)
  then show ?thesis by (simp only: log_metrics_def map_enumerate_nth)
qed

lemma log_objectives_logs:
  assumes k: "k \<in> D" and ok: "spec_input_ok S t"
  shows "logs_as (quiet D R S C A) (log_objectives k t) (spec_objective_calls (cb_metric_names C) S t k)"
proof (cases "is_multi (trial_values t)")
  case True
  then obtain vs where vs: "trial_values t = Some vs" "1 < length vs"
    by (auto simp: is_multi_def split: option.splits)
  show ?thesis
  proof (rule logs_as_cong)
    show "log_objectives k t s = log_metrics k (cb_metric_names C) vs s" if "quiet D R S C A s" for s
      using that vs True by (simp add: log_objectives_def quiet_def)
    show "logs_as (quiet D R S C A) (log_metrics k (cb_metric_names C) vs)
            (spec_objective_calls (cb_metric_names C) S t k)"
      using log_metrics_logs [OF k] vs by (simp add: spec_objective_calls_def)
  qed
next
  case False
  with ok obtain d v where d: "directions S = [d]" and v: "trial_value t = Inr v"
    and vv: "v = (case trial_values t of Some (v # _) \<Rightarrow> Some v | _ \<Rightarrow> None)"
    by (auto simp: spec_input_ok_def is_multi_def trial_value_def length_Suc_conv split: option.splits)
  show ?thesis
  proof (rule logs_as_cong)
    show "log_objectives k t s = remote (spec_optimization (cb_metric_names C) S t k) s"
      if "quiet D R S C A s" for s
      using that False d v vv
      by (simp add: log_objectives_def quiet_def spec_optimization_def single_metric_name_def
               study_direction_def split: list.split)
    show "logs_as (quiet D R S C A) (remote (spec_optimization (cb_metric_names C) S t k))
            (spec_objective_calls (cb_metric_names C) S t k)"
      using logs_as_remote [OF _ k] False
      by (auto simp: spec_objective_calls_def spec_optimization_def logs_on_def is_multi_def
               split: option.splits)
  qed
qed

lemma log_best_trials_logs:
  "cb_study_experiment C \<in> D \<Longrightarrow> logs_as (quiet D R S C A) log_best_trials
     [CLogOther (cb_study_experiment C) ''best_trials'' (OStr (json_dumps_nats (best_trials S)))]"
  by (rule logs_as_cong [where m' = "remote (CLogOther (cb_study_experiment C) ''best_trials''
          (OStr (json_dumps_nats (best_trials S))))"])
     (auto simp: log_best_trials_def quiet_def intro: logs_as_remote simp: logs_on_def)

lemma start_trial_stored:
  "start_trial_experiment t ekey s = (Inr k, s1) \<Longrightarrow> k \<in> dom (store (world s1))"
  by (auto simp: start_trial_experiment_def create_trial_experiment_def activate_def
     truthy_key_def in_world_def remote_def modify_def exc_simps comet_def create_experiment_def
     Let_def on_exp_def split: sum.splits option.splits if_splits prod.splits)

lemma init_trial_stored:
  assumes r: "init_trial_experiment t s = (Inr k, s1)" and a: "active_stored s"
  shows "k \<in> dom (store (world s1))"
proof (cases "dict_get (cb_trial_experiments (cb s)) (number t)")
  case (Inl e)
  with r show ?thesis by (simp add: init_trial_experiment_def exc_simps)
next
  case (Inr ekey)
  show ?thesis
  proof (cases "\<exists>a. active s = Some a \<and> ekey = Some (act_key a)")
    case True
    with r Inr a show ?thesis by (auto simp: init_trial_experiment_def exc_simps active_stored_def)
  next
    case False
    then have "\<exists>s0. start_trial_experiment t ekey s0 = (Inr k, s1)"
      using r Inr by (auto simp: init_trial_experiment_def exc_simps split: option.splits if_splits prod.splits sum.splits)
    then show ?thesis by (auto dest: start_trial_stored)
  qed
qed

text \<open>Ending the resolved experiment \<open>k\<close> on a fault-free service.\<close>

lemma end_active_ok:
  assumes "faults (world s) = []" "active s = Some a" "act_key a = k" "k \<in> dom (store (world s))"
  shows "fst (end_active s) = Inr () \<and>
         call_log (world (snd (end_active s))) = call_log (world s) @ [CEnd k] \<and>
         active (snd (end_active s)) = Some \<lparr>act_key = k, act_ended = True\<rparr> \<and>
         running_keys (store (world (snd (end_active s)))) = running_keys (store (world s)) - {k}"
  using assms by (auto simp: end_active_def remote_def in_world_def comet_def Let_def on_exp_def
      modify_def exc_simps)

text \<open>What \<open>_init_optuna_trial_experiment\<close> leaves of the state \<open>__call__\<close> reads next.\<close>

lemma init_trial_keeps_reads:
  assumes "init_trial_experiment t s = (r, s1)"
  shows "study s1 = study s \<and> cb_metric_names (cb s1) = cb_metric_names (cb s) \<and>
         cb_study_experiment (cb s1) = cb_study_experiment (cb s)"
proof -
  let ?P = "\<lambda>x. study x = study s \<and> cb_metric_names (cb x) = cb_metric_names (cb s) \<and>
                cb_study_experiment (cb x) = cb_study_experiment (cb s)"
  have "keeps ?P (init_trial_experiment t)" by (rule keeps_frame_init_trial) (simp add: call_frame_def obs_frame_def)
  then have "?P (snd (init_trial_experiment t s))" by (rule keepsD) simp
  with assms show ?thesis by simp
qed

lemma init_trial_grows:
  assumes "init_trial_experiment t s = (r, s1)"
  shows "faults (world s1) = faults (world s) \<and> dom (store (world s)) \<subseteq> dom (store (world s1))"
proof -
  have "keeps (\<lambda>x. faults (world x) = faults (world s) \<and> dom (store (world s)) \<subseteq> dom (store (world x)))
          (init_trial_experiment t)"
    by (rule keeps_svc_init_trial [OF svc_inv_sess [OF svc_inv_grows]])
  then have "faults (world (snd (init_trial_experiment t s))) = faults (world s) \<and>
             dom (store (world s)) \<subseteq> dom (store (world (snd (init_trial_experiment t s))))"
    by (rule keepsD) simp
  with assms show ?thesis by simp
qed

lemma map_metric_name_at: "map (metric_name_at names) [0..<n] = padded_names names n"
  by (rule nth_equalityI) (auto simp: padded_names_def metric_name_at_def nth_append min_def)

section \<open>The metric loop is a loop over the padded names\<close>

text \<open>
  C13. The loop of \<open>__call__\<close> over \<open>enumerate(trial.values)\<close>, which looks a
  name up by index in \<open>_metric_names\<close> and falls back to the index, logs the
  same metrics as a loop over the values zipped with the given names padded
  by the decimal indices of the values past their end.
\<close>

theorem log_metrics_zip:
  "log_metrics k names vals =
     for_each (zip (padded_names names (length vals)) vals) (\<lambda>(n, v). remote (CLogMetric k n v))"
proof -
  have "zip (padded_names names (length vals)) vals =
        map (\<lambda>(i, v). (metric_name_at names i, v)) (enumerate 0 vals)"
    by (simp add: map_metric_name_at [symmetric] enumerate_eq_zip zip_map1)
  then show ?thesis
    by (simp add: log_metrics_def for_each_map split_def)
qed

section \<open>\<open>__call__\<close> implements its specification\<close>

text \<open>
  The run of \<open>__call__\<close> once the trial's experiment is resolved: the calls
  it sends, the active experiment and the running sessions it leaves, and the
  callback object, which only the resolution changes.
\<close>

lemma cb_call_runs_spec:
  assumes i: "init_trial_experiment t s = (Inr k, s1)"
    and f: "faults (world s) = []" and a: "active_stored s"
    and sk: "cb_study_experiment (cb s) \<in> dom (store (world s))"
    and ok: "spec_input_ok (study s) t"
  shows "fst (cb_call t s) = Inr () \<and>
         call_log (world (snd (cb_call t s))) = call_log (world s1) @
           spec_trial_calls (cb_metric_names (cb s)) (study s) (cb_study_experiment (cb s)) t k \<and>
         active (snd (cb_call t s)) = Some \<lparr>act_key = k, act_ended = True\<rparr> \<and>
         running_keys (store (world (snd (cb_call t s)))) = running_keys (store (world s1)) - {k} \<and>
         cb (snd (cb_call t s)) = cb s1"
proof -
  let ?names = "cb_metric_names (cb s)" and ?skey = "cb_study_experiment (cb s)"
  let ?D = "dom (store (world s1))"
  let ?R = "running_keys (store (world s1))"
  let ?Q = "quiet ?D ?R (study s) (cb s1) (active s1)"
  from init_trial_keeps_reads [OF i] have rd: "study s1 = study s" "cb_metric_names (cb s1) = ?names"
    "cb_study_experiment (cb s1) = ?skey" by simp_all
  from init_trial_grows [OF i] f sk have f1: "faults (world s1) = []" and sk1: "?skey \<in> ?D" by auto
  from init_trial_stored [OF i a] have k1: "k \<in> ?D" .
  from init_trial_success [OF i] obtain a1 where a1: "active s1 = Some a1" "act_key a1 = k" by auto
  let ?pre = "then_exc (remote (CLogParameters k (params t)))
               (then_exc (remote (CLogOther k ''trial_number'' (ONat (number t))))
               (then_exc (remote (CAddTag k (''trial_number_'' @ str_nat (number t))))
               (then_exc (log_objectives k t) log_best_trials)))"
  have "logs_as ?Q ?pre
     ([CLogParameters k (params t)] @ ([CLogOther k ''trial_number'' (ONat (number t))] @
      ([CAddTag k (''trial_number_'' @ str_nat (number t))] @
       (spec_objective_calls (cb_metric_names (cb s1)) (study s) t k @
        [CLogOther (cb_study_experiment (cb s1)) ''best_trials'' (OStr (json_dumps_nats (best_trials (study s))))]))))"
    using k1 sk1 ok rd
    by (intro logs_as_then logs_as_remote log_objectives_logs log_best_trials_logs) (simp_all add: logs_on_def)
  then have pre: "logs_as ?Q ?pre
     ([CLogParameters k (params t), CLogOther k ''trial_number'' (ONat (number t)),
       CAddTag k (''trial_number_'' @ str_nat (number t))] @ spec_objective_calls ?names (study s) t k @
      [CLogOther ?skey ''best_trials'' (OStr (json_dumps_nats (best_trials (study s))))])"
    by (simp add: rd)
  have q1: "?Q s1" using f1 rd by (simp add: quiet_def)
  from pre q1 obtain s2 where p: "?pre s1 = (Inr (), s2)" and q2: "?Q s2"
    and l2: "call_log (world s2) = call_log (world s1) @
      [CLogParameters k (params t), CLogOther k ''trial_number'' (ONat (number t)),
       CAddTag k (''trial_number_'' @ str_nat (number t))] @ spec_objective_calls ?names (study s) t k @
      [CLogOther ?skey ''best_trials'' (OStr (json_dumps_nats (best_trials (study s))))]"
    by (rule logs_asD)
  have c: "cb_call t s = end_active s2"
    using i p by (simp add: cb_call_def then_exc_assoc [symmetric])
  have ce: "cb (snd (end_active s2)) = cb s2"
    by (rule keepsD [OF keeps_frame_end_active, where P = "\<lambda>x. cb x = cb s2"]) (simp_all add: obs_frame_def)
  from q2 a1 k1 have "faults (world s2) = []" "active s2 = Some a1" "k \<in> dom (store (world s2))"
    and r2: "running_keys (store (world s2)) = ?R" and c2: "cb s2 = cb s1" by (simp_all add: quiet_def)
  from end_active_ok [OF this(1,2) a1(2) this(3)] c l2 r2 c2 ce show ?thesis
    by (simp add: spec_trial_calls_def)
qed

text \<open>
  C1. Refinement of the per-trial specification: once \<open>_init_optuna_trial_experiment\<close>
  has resolved the trial's experiment \<open>k\<close> (on any branch), \<open>__call__\<close> on a
  fault-free service, with the study experiment stored and an input the
  description covers, returns normally; it sends exactly the calls of
  \<open>spec_trial_calls\<close> after those of the resolution, in this order; and it
  leaves \<open>k\<close> as the ended active experiment, ending no other session.
\<close>

theorem cb_call_refines_spec:
  assumes i: "init_trial_experiment t s = (Inr k, s1)"
    and f: "faults (world s) = []" and a: "active_stored s"
    and sk: "cb_study_experiment (cb s) \<in> dom (store (world s))"
    and ok: "spec_input_ok (study s) t"
  shows "fst (cb_call t s) = Inr () \<and>
         call_log (world (snd (cb_call t s))) = call_log (world s1) @
           spec_trial_calls (cb_metric_names (cb s)) (study s) (cb_study_experiment (cb s)) t k \<and>
         active (snd (cb_call t s)) = Some \<lparr>act_key = k, act_ended = True\<rparr> \<and>
         running_keys (store (world (snd (cb_call t s)))) = running_keys (store (world s1)) - {k}"
  using cb_call_runs_spec [OF assms] by simp

theorem cb_call_refines_spec_witness:
  "fst (cb_call ex_mo_trial ex_st_mo) = Inr () \<and>
   call_log (world (snd (cb_call ex_mo_trial ex_st_mo))) =
     [CCreate SessionK ''exp1'' (Some ''ws'') (Some ''general''), CAddTag ''exp1'' ''optuna_trial'',
      CLogOther ''exp1'' ''optuna_study_name'' (OStr ''s''),
      CLogParameters ''exp1'' [(''x'', PFloat 1)], CLogOther ''exp1'' ''trial_number'' (ONat 0),
      CAddTag ''exp1'' (''trial_number_'' @ str_nat 0),
      CLogMetric ''exp1'' ''loss'' (1 / 10), CLogMetric ''exp1'' ''acc'' (9 / 10),
      CLogOther ''exp0'' ''best_trials'' (OStr (json_dumps_nats [0])), CEnd ''exp1'']"
proof -
  obtain s1 where i: "init_trial_experiment ex_mo_trial ex_st_mo = (Inr ''exp1'', s1)"
    and l1: "call_log (world s1) = [CCreate SessionK ''exp1'' (Some ''ws'') (Some ''general''),
               CAddTag ''exp1'' ''optuna_trial'', CLogOther ''exp1'' ''optuna_study_name'' (OStr ''s'')]"
    by (simp add: ex_mo_defs callback_evals exc_simps)
  have f: "faults (world ex_st_mo) = []" and a: "active_stored ex_st_mo"
    and sk: "cb_study_experiment (cb ex_st_mo) \<in> dom (store (world ex_st_mo))"
    and ok: "spec_input_ok (study ex_st_mo) ex_mo_trial"
    by (simp_all add: ex_mo_defs active_stored_def spec_input_ok_def)
  from cb_call_refines_spec [OF i f a sk ok] l1 show ?thesis
    by (simp add: spec_trial_calls_def spec_objective_calls_def ex_mo_defs metric_name_at_def
                  upt_conv_Cons)
qed

section \<open>A failed trial of a multi-objective study\<close>

text \<open>
  C15. A trial without values (a failed trial, which Optuna also passes to its
  callbacks) in a multi-objective study makes \<open>__call__\<close> raise Optuna's
  RuntimeError: \<open>trial.values\<close> is None, so the single-objective branch runs and
  reads \<open>study.direction\<close>. By then the parameters, trial number and tag are
  logged; the best trials are not, and the trial experiment is not ended: it
  stays running and active.
\<close>

theorem failed_trial_multi_objective_raises:
  assumes i: "init_trial_experiment t s = (Inr k, s1)"
    and f: "faults (world s) = []" and a: "active_stored s"
    and nv: "trial_values t = None" and md: "1 < length (directions (study s))"
  shows "\<exists>msg. fst (cb_call t s) = Inl (RuntimeError msg) \<and>
         call_log (world (snd (cb_call t s))) = call_log (world s1) @
           [CLogParameters k (params t), CLogOther k ''trial_number'' (ONat (number t)),
            CAddTag k (''trial_number_'' @ str_nat (number t))] \<and>
         active (snd (cb_call t s)) = active s1 \<and>
         running_keys (store (world (snd (cb_call t s)))) = running_keys (store (world s1))"
proof -
  let ?D = "dom (store (world s1))" and ?R = "running_keys (store (world s1))"
  let ?Q = "quiet ?D ?R (study s) (cb s1) (active s1)"
  from init_trial_keeps_reads [OF i] have rd: "study s1 = study s" by simp
  from init_trial_grows [OF i] f have f1: "faults (world s1) = []" by simp
  from init_trial_stored [OF i a] have k1: "k \<in> ?D" .
  let ?pre = "then_exc (remote (CLogParameters k (params t)))
               (then_exc (remote (CLogOther k ''trial_number'' (ONat (number t))))
               (remote (CAddTag k (''trial_number_'' @ str_nat (number t)))))"
  have "logs_as ?Q ?pre ([CLogParameters k (params t)] @ ([CLogOther k ''trial_number'' (ONat (number t))] @
          [CAddTag k (''trial_number_'' @ str_nat (number t))]))"
    using k1 by (intro logs_as_then logs_as_remote) (simp_all add: logs_on_def)
  moreover have "?Q s1" using f1 rd by (simp add: quiet_def)
  ultimately obtain s2 where p: "?pre s1 = (Inr (), s2)" and q2: "?Q s2"
    and l2: "call_log (world s2) = call_log (world s1) @ [CLogParameters k (params t),
               CLogOther k ''trial_number'' (ONat (number t)), CAddTag k (''trial_number_'' @ str_nat (number t))]"
    by (rule logs_asD) simp
  from md obtain d1 d2 ds where "directions (study s) = d1 # d2 # ds"
    by (cases "directions (study s)" rule: remdups_adj.cases) auto
  then obtain msg where "study_direction (study s) = Inl (RuntimeError msg)"
    using study_direction_multi by blast
  with q2 nv have o: "log_objectives k t s2 = (Inl (RuntimeError msg), s2)"
    by (simp add: log_objectives_def quiet_def is_multi_def exc_simps)
  have "cb_call t s = then_exc ?pre (then_exc (log_objectives k t) (then_exc log_best_trials end_active)) s1"
    using i by (simp add: cb_call_def then_exc_assoc [symmetric])
  also have "\<dots> = then_exc (log_objectives k t) (then_exc log_best_trials end_active) s2"
    using p by simp
  finally have "cb_call t s = then_exc (log_objectives k t) (then_exc log_best_trials end_active) s2" .
  with o l2 q2 show ?thesis by (simp add: quiet_def)
qed

theorem failed_trial_multi_objective_raises_witness:
  "\<exists>msg. fst (cb_call ex_failed_trial ex_st_mo) = Inl (RuntimeError msg) \<and>
     active (snd (cb_call ex_failed_trial ex_st_mo)) = Some \<lparr>act_key = ''exp1'', act_ended = False\<rparr> \<and>
     ''exp1'' \<in> running_keys (store (world (snd (cb_call ex_failed_trial ex_st_mo))))"
proof -
  obtain s1 where i: "init_trial_experiment ex_failed_trial ex_st_mo = (Inr ''exp1'', s1)"
    and a1: "active s1 = Some \<lparr>act_key = ''exp1'', act_ended = False\<rparr>"
    and r1: "''exp1'' \<in> running_keys (store (world s1))"
    by (simp add: ex_mo_defs callback_evals exc_simps new_experiment_def)
  have f: "faults (world ex_st_mo) = []" and a: "active_stored ex_st_mo"
    and nv: "trial_values ex_failed_trial = None" and md: "1 < length (directions (study ex_st_mo))"
    by (simp_all add: ex_mo_defs active_stored_def)
  from failed_trial_multi_objective_raises [OF i f a nv md] a1 r1 show ?thesis by auto
qed

end
