(* ===== verification/StudyExp.thy ===== *)
theory StudyExp
  imports Logging
begin

text \<open>
  \<open>CometCallback.__init__\<close> and \<open>_init_optuna_study_experiment\<close>
  (\<open>src/optuna_integration/comet.py\<close>, lines 68 to 153): constructing the callback
  for a study without a stored key creates one \<open>APIExperiment\<close>, tags and annotates
  it, stores its key in the study and logs one direction per objective;
  constructing it again for the same study resumes that record, creating and
  tagging nothing; without a workspace and without an account default, the
  construction fails before anything is created.
\<close>

section \<open>Definitions\<close>

text \<open>
  The direction annotations the description asks for: one per objective, in
  order, keyed by the configured metric name when there is one and by the
  objective's index otherwise.
\<close>

definition spec_direction_calls :: "key \<Rightarrow> string list \<Rightarrow> study_direction list \<Rightarrow> call list" where
  "spec_direction_calls k names ds =
     map (\<lambda>i. CLogOther k (''direction_of_objective_'' @ metric_name_at names i) (OStr (direction_str (ds ! i))))
       [0..<length ds]"

text \<open>A fresh process and a new two-objective study.\<close>

definition ex_st_fresh :: st where
  "ex_st_fresh = ex_st0\<lparr>study := ex_study\<lparr>directions := [MINIMIZE, MAXIMIZE]\<rparr>\<rparr>"

section \<open>The phases of \<open>__init__\<close>\<close>

lemma ex_digit_chars: "digit_char 0 = CHR ''0''" "digit_char (Suc 0) = CHR ''1''"
  by (simp_all add: digit_char_def char_of_eq_iff)

lemma log_directions_logs:
  assumes k: "k \<in> D"
  shows "logs_as (quiet D R S C A) (log_directions k names ds) (spec_direction_calls k names ds)"
proof -
  have "logs_as (quiet D R S C A)
          (for_each (enumerate 0 ds) (\<lambda>(i, d). remote (CLogOther k (''direction_of_objective_'' @ metric_name_at names i) (OStr (direction_str d)))))
          (map (\<lambda>(i, d). CLogOther k (''direction_of_objective_'' @ metric_name_at names i) (OStr (direction_str d))) (enumerate 0 ds))"
    by (rule logs_as_for_each) (auto intro: logs_as_remote [OF _ k] simp: logs_on_def)
  then show ?thesis by (simp only: log_directions_def spec_direction_calls_def map_enumerate_nth)
qed

text \<open>The creation branch of \<open>_init_optuna_study_experiment\<close> on a fault-free service.\<close>

lemma study_exp_create:
  assumes f: "faults (world s) = []" and wf: "wf_st s" and nt: "\<not> (case a of None \<Rightarrow> False | Some x \<Rightarrow> attr_truthy x)"
  shows "let k = key_of (next_id (world s)); s' = snd (study_experiment_from_attr a s) in
         fst (study_experiment_from_attr a s) = Inr k \<and>
         call_log (world s') = call_log (world s) @
           [CCreate APIExperimentK k (cb_workspace (cb s)) (cb_project_name (cb s)), CAddTag k ''optuna_study'',
            CLogOther k ''optuna_study_name'' (OStr (study_name (study s))),
            CLogOther k ''optuna_storage'' (OStr (storage_name (study s)))] \<and>
         faults (world s') = [] \<and> dom (store (world s')) = insert k (dom (store (world s))) \<and>
         running_keys (store (world s')) = running_keys (store (world s)) \<and>
         api_keys (store (world s')) = insert k (api_keys (store (world s))) \<and>
         study s' = set_user_attr ''comet_study_experiment_key'' (AStr k) (study s) \<and>
         cb s' = cb s \<and> active s' = active s"
  using f nt fresh_key_not_stored [OF wf [unfolded wf_st_def]]
  by (simp add: study_experiment_from_attr_def callback_evals exc_simps Let_def new_experiment_def
                running_keys_def) auto

lemma study_exp_resume:
  assumes f: "faults (world s) = []" and k: "k \<noteq> []" "k \<in> dom (store (world s))"
  shows "let s' = snd (study_experiment_from_attr (Some (AStr k)) s) in
         fst (study_experiment_from_attr (Some (AStr k)) s) = Inr k \<and>
         call_log (world s') = call_log (world s) @ [CResume APIExperimentK k] \<and>
         faults (world s') = [] \<and> dom (store (world s')) = dom (store (world s)) \<and>
         running_keys (store (world s')) = running_keys (store (world s)) \<and>
         study s' = study s \<and> cb s' = cb s \<and> active s' = active s"
  using assms
  by (auto simp: study_experiment_from_attr_def callback_evals exc_simps Let_def running_keys_def
           split: if_splits)

text \<open>The resolved workspace: the argument, or the account's default.\<close>

lemma init_attributes_ok:
  assumes f: "faults (world s) = []" and ws: "ws \<noteq> None \<or> default_workspace (world s) \<noteq> None"
  shows "let s' = snd (init_attributes ws proj names s) in
         fst (init_attributes ws proj names s) = Inr () \<and>
         call_log (world s') = call_log (world s) @ (if ws = None then [CGetDefaultWorkspace] else []) \<and>
         faults (world s') = [] \<and> store (world s') = store (world s) \<and> next_id (world s') = next_id (world s) \<and>
         default_workspace (world s') = default_workspace (world s) \<and>
         study s' = study s \<and> active s' = active s \<and>
         cb s' = \<lparr>cb_project_name = proj, cb_workspace = (if ws = None then default_workspace (world s) else ws),
                  cb_metric_names = names, cb_study_experiment = [], cb_trial_experiments = ANone\<rparr>"
  using assms
  by (auto simp: init_attributes_def get_default_workspace_def callback_evals exc_simps Let_def)

text \<open>Lines 89 to 101, once the study experiment \<open>k\<close> is resolved.\<close>

lemma init_tail_ok:
  assumes f: "faults (world s) = []" and k: "k \<in> dom (store (world s))"
  shows "let m = then_exc (modify (\<lambda>s. s\<lparr>cb := (cb s)\<lparr>cb_study_experiment := k\<rparr>\<rparr>))
                   (bind_exc (gets (\<lambda>s. directions (study s)))
                     (\<lambda>ds. then_exc (log_directions k names ds) load_trial_experiments));
             s' = snd (m s) in
         fst (m s) = Inr () \<and>
         call_log (world s') = call_log (world s) @ spec_direction_calls k names (directions (study s)) \<and>
         faults (world s') = [] \<and> dom (store (world s')) = dom (store (world s)) \<and>
         running_keys (store (world s')) = running_keys (store (world s)) \<and>
         study s' = study s \<and> active s' = active s \<and>
         cb s' = (cb s)\<lparr>cb_study_experiment := k, cb_trial_experiments :=
                   (case user_attrs (study s) ''trial_experiments'' of
                      None \<Rightarrow> ADict [] | Some ANone \<Rightarrow> ADict [] | Some a \<Rightarrow> a)\<rparr>"
proof -
  let ?s1 = "s\<lparr>cb := (cb s)\<lparr>cb_study_experiment := k\<rparr>\<rparr>"
  let ?Q = "quiet (dom (store (world s))) (running_keys (store (world s))) (study s) (cb ?s1) (active s)"
  have "?Q ?s1" using f by (simp add: quiet_def)
  with log_directions_logs [OF k] obtain s2 where l: "log_directions k names (directions (study s)) ?s1 = (Inr (), s2)"
    and q: "?Q s2" and c: "call_log (world s2) = call_log (world ?s1) @ spec_direction_calls k names (directions (study s))"
    by (rule logs_asD)
  from q have "study s2 = study s" by (simp add: quiet_def)
  with l q c show ?thesis
    by (simp add: Let_def modify_def gets_def load_trial_experiments_def exc_simps quiet_def)
qed

text \<open>\<open>__init__\<close> in three phases: attributes, study experiment, the rest.\<close>

lemma cb_init_steps:
  assumes "init_attributes ws proj (case mnames of None \<Rightarrow> [] | Some ns \<Rightarrow> ns) s = (Inr (), sP)"
    and "study_experiment_from_attr (user_attrs (study sP) ''comet_study_experiment_key'') sP = (Inr k, sS)"
  shows "cb_init ws proj mnames s =
           then_exc (modify (\<lambda>s. s\<lparr>cb := (cb s)\<lparr>cb_study_experiment := k\<rparr>\<rparr>))
             (bind_exc (gets (\<lambda>s. directions (study s)))
               (\<lambda>ds. then_exc (log_directions k (case mnames of None \<Rightarrow> [] | Some ns \<Rightarrow> ns) ds)
                       load_trial_experiments)) sS"
  using assms by (simp add: cb_init_def init_study_experiment_def gets_def Let_def exc_simps)

text \<open>A study experiment that was resolved is stored, and its key is in the study.\<close>

lemma study_exp_success:
  "study_experiment_from_attr (user_attrs (study s) ''comet_study_experiment_key'') s = (Inr k, s1) \<Longrightarrow>
   user_attrs (study s1) ''comet_study_experiment_key'' = Some (AStr k) \<and> k \<noteq> [] \<and> k \<in> dom (store (world s1))"
  by (auto simp: study_experiment_from_attr_def callback_evals exc_simps Let_def
           split: option.splits attr.splits if_splits)

lemma cb_init_success:
  assumes r: "cb_init ws proj mnames s = (Inr (), s1)"
  shows "\<exists>k. user_attrs (study s1) ''comet_study_experiment_key'' = Some (AStr k) \<and> k \<noteq> [] \<and>
             k \<in> dom (store (world s1)) \<and> cb_study_experiment (cb s1) = k"
proof -
  let ?names = "case mnames of None \<Rightarrow> [] | Some ns \<Rightarrow> ns"
  obtain sP where p: "init_attributes ws proj ?names s = (Inr (), sP)"
    and r1: "bind_exc init_study_experiment
              (\<lambda>k. then_exc (modify (\<lambda>s. s\<lparr>cb := (cb s)\<lparr>cb_study_experiment := k\<rparr>\<rparr>))
                (bind_exc (gets (\<lambda>s. directions (study s)))
                  (\<lambda>ds. then_exc (log_directions k ?names ds) load_trial_experiments))) sP = (Inr (), s1)"
    using then_exc_InrD [OF r [unfolded cb_init_def Let_def]] by blast
  from bind_exc_InrD [OF r1] obtain k sS
    where c: "init_study_experiment sP = (Inr k, sS)"
      and r2: "then_exc (modify (\<lambda>s. s\<lparr>cb := (cb s)\<lparr>cb_study_experiment := k\<rparr>\<rparr>))
                (bind_exc (gets (\<lambda>s. directions (study s)))
                  (\<lambda>ds. then_exc (log_directions k ?names ds) load_trial_experiments)) sS = (Inr (), s1)"
    by blast
  from c have sS: "user_attrs (study sS) ''comet_study_experiment_key'' = Some (AStr k) \<and> k \<noteq> [] \<and>
                   k \<in> dom (store (world sS))"
    by (intro study_exp_success) (simp add: init_study_experiment_def gets_def)
  let ?sK = "sS\<lparr>cb := (cb sS)\<lparr>cb_study_experiment := k\<rparr>\<rparr>"
  let ?rest = "bind_exc (gets (\<lambda>s. directions (study s)))
                 (\<lambda>ds. then_exc (log_directions k ?names ds) load_trial_experiments)"
  from r2 have r3: "?rest ?sK = (Inr (), s1)" by (simp add: modify_def)
  let ?P = "\<lambda>x. study x = study sS \<and> cb_study_experiment (cb x) = k"
  have "keeps ?P ?rest"
    unfolding log_directions_def load_trial_experiments_def
    by (intro keeps_local_intros; simp)
  then have "?P (snd (?rest ?sK))" by (rule keepsD) simp
  moreover have "keeps (\<lambda>x. faults (world x) = faults (world sS) \<and> dom (store (world sS)) \<subseteq> dom (store (world x))) ?rest"
    unfolding log_directions_def load_trial_experiments_def
    by (intro keeps_svc_intros svc_inv_sess [OF svc_inv_grows]; simp add: is_create_def)
  then have "dom (store (world sS)) \<subseteq> dom (store (world (snd (?rest ?sK))))" by (rule keepsD [THEN conjunct2]) simp
  ultimately show ?thesis using sS r3 by auto
qed

section \<open>Creation and reuse of the study experiment\<close>

text \<open>
  C6. For a study without a stored key, on a fault-free service, \<open>__init__\<close>
  returns normally after exactly these calls: the default-workspace lookup
  when no workspace is given, the creation of one \<open>APIExperiment\<close> under a fresh
  key, its tag \<open>optuna_study\<close>, its study-name and storage annotations, and one
  direction annotation per objective. It creates no other record, stores the
  new key in the study and keeps it as the study experiment.
\<close>

theorem study_experiment_created:
  assumes f: "faults (world s) = []" and wf: "wf_st s"
    and none: "user_attrs (study s) ''comet_study_experiment_key'' = None"
    and ws: "ws \<noteq> None \<or> default_workspace (world s) \<noteq> None"
  shows "let k = key_of (next_id (world s)); names = (case mnames of None \<Rightarrow> [] | Some ns \<Rightarrow> ns);
             s' = snd (cb_init ws proj mnames s) in
         fst (cb_init ws proj mnames s) = Inr () \<and>
         call_log (world s') = call_log (world s) @ (if ws = None then [CGetDefaultWorkspace] else []) @
           [CCreate APIExperimentK k (if ws = None then default_workspace (world s) else ws) proj,
            CAddTag k ''optuna_study'', CLogOther k ''optuna_study_name'' (OStr (study_name (study s))),
            CLogOther k ''optuna_storage'' (OStr (storage_name (study s)))] @
           spec_direction_calls k names (directions (study s)) \<and>
         dom (store (world s')) = insert k (dom (store (world s))) \<and>
         user_attrs (study s') ''comet_study_experiment_key'' = Some (AStr k) \<and>
         cb_study_experiment (cb s') = k"
proof -
  let ?names = "case mnames of None \<Rightarrow> [] | Some ns \<Rightarrow> ns" and ?k = "key_of (next_id (world s))"
  obtain sP where p: "init_attributes ws proj ?names s = (Inr (), sP)"
    and pP: "call_log (world sP) = call_log (world s) @ (if ws = None then [CGetDefaultWorkspace] else [])"
      "faults (world sP) = []" "store (world sP) = store (world s)" "next_id (world sP) = next_id (world s)"
      "study sP = study s"
      "cb sP = \<lparr>cb_project_name = proj, cb_workspace = (if ws = None then default_workspace (world s) else ws),
                cb_metric_names = ?names, cb_study_experiment = [], cb_trial_experiments = ANone\<rparr>"
    using init_attributes_ok [OF f ws, of proj ?names] by (metis prod.collapse)
  have wfP: "wf_st sP" using wf pP by (simp add: wf_st_def wf_world_def)
  have nt: "\<not> (case user_attrs (study sP) ''comet_study_experiment_key'' of None \<Rightarrow> False | Some x \<Rightarrow> attr_truthy x)"
    using none pP by simp
  obtain sS where c: "study_experiment_from_attr (user_attrs (study sP) ''comet_study_experiment_key'') sP = (Inr ?k, sS)"
    and cS: "call_log (world sS) = call_log (world sP) @
           [CCreate APIExperimentK ?k (cb_workspace (cb sP)) (cb_project_name (cb sP)), CAddTag ?k ''optuna_study'',
            CLogOther ?k ''optuna_study_name'' (OStr (study_name (study sP))),
            CLogOther ?k ''optuna_storage'' (OStr (storage_name (study sP)))]"
      "faults (world sS) = []" "dom (store (world sS)) = insert ?k (dom (store (world sP)))"
      "study sS = set_user_attr ''comet_study_experiment_key'' (AStr ?k) (study sP)"
    using study_exp_create [OF pP(2) wfP nt] pP(4) by (simp add: Let_def) (metis prod.collapse)
  have kS: "?k \<in> dom (store (world sS))" using cS by simp
  from init_tail_ok [OF cS(2) kS, of ?names] cb_init_steps [OF p c] cS pP show ?thesis
    by (simp add: Let_def)
qed

theorem study_experiment_created_witness:
  "fst (cb_init None (Some ''general'') (Some [''loss'']) ex_st_fresh) = Inr () \<and>
   call_log (world (snd (cb_init None (Some ''general'') (Some [''loss'']) ex_st_fresh))) =
     [CGetDefaultWorkspace, CCreate APIExperimentK ''exp0'' (Some ''ws'') (Some ''general''),
      CAddTag ''exp0'' ''optuna_study'', CLogOther ''exp0'' ''optuna_study_name'' (OStr ''s''),
      CLogOther ''exp0'' ''optuna_storage'' (OStr ''InMemoryStorage''),
      CLogOther ''exp0'' ''direction_of_objective_loss'' (OStr ''minimize''),
      CLogOther ''exp0'' ''direction_of_objective_1'' (OStr ''maximize'')] \<and>
   user_attrs (study (snd (cb_init None (Some ''general'') (Some [''loss'']) ex_st_fresh)))
     ''comet_study_experiment_key'' = Some (AStr ''exp0'')"
proof -
  have f: "faults (world ex_st_fresh) = []" and wf: "wf_st ex_st_fresh"
    and none: "user_attrs (study ex_st_fresh) ''comet_study_experiment_key'' = None"
    and ws: "None \<noteq> None \<or> default_workspace (world ex_st_fresh) \<noteq> None"
    by (simp_all add: ex_st_fresh_def ex_defs wf_st_def wf_world_def)
  from study_experiment_created [where proj = "Some ''general''" and mnames = "Some [''loss'']", OF f wf none ws] show ?thesis
    by (simp add: Let_def ex_st_fresh_def ex_defs spec_direction_calls_def metric_name_at_def direction_str_def
                  upt_conv_Cons ex_digit_chars)
qed

text \<open>
  C8. Round trip through the study's attributes: after a construction that
  returned normally on a fault-free service, a second construction for the
  same study (any workspace, project and metric names) resumes the same
  record by its stored key: its only calls are the workspace lookup, one
  \<open>APIExperiment(previous_experiment=key)\<close> and the direction annotations. It
  creates no record, adds no tag and leaves the study unchanged.
\<close>

theorem study_experiment_reused:
  assumes r: "cb_init ws proj mnames s = (Inr (), s1)" and f: "faults (world s) = []"
    and ws': "ws' \<noteq> None \<or> default_workspace (world s1) \<noteq> None"
  shows "let k = cb_study_experiment (cb s1); names = (case mnames' of None \<Rightarrow> [] | Some ns \<Rightarrow> ns);
             s2 = snd (cb_init ws' proj' mnames' s1) in
         fst (cb_init ws' proj' mnames' s1) = Inr () \<and> cb_study_experiment (cb s2) = k \<and>
         call_log (world s2) = call_log (world s1) @ (if ws' = None then [CGetDefaultWorkspace] else []) @
           [CResume APIExperimentK k] @ spec_direction_calls k names (directions (study s1)) \<and>
         dom (store (world s2)) = dom (store (world s1)) \<and> study s2 = study s1"
proof -
  let ?names = "case mnames' of None \<Rightarrow> [] | Some ns \<Rightarrow> ns"
  from cb_init_success [OF r] obtain k where a: "user_attrs (study s1) ''comet_study_experiment_key'' = Some (AStr k)"
    and k: "k \<noteq> []" "k \<in> dom (store (world s1))" and ck: "cb_study_experiment (cb s1) = k" by blast
  have "keeps (\<lambda>x. faults (world x) = faults (world s) \<and> {} \<subseteq> dom (store (world x))) (cb_init ws proj mnames)"
    by (rule keeps_svc_cb_init [OF svc_inv_grows])
  then have "faults (world (snd (cb_init ws proj mnames s))) = faults (world s)" by (rule keepsD [THEN conjunct1]) simp
  with r f have f1: "faults (world s1) = []" by simp
  obtain sP where p: "init_attributes ws' proj' ?names s1 = (Inr (), sP)"
    and pP: "call_log (world sP) = call_log (world s1) @ (if ws' = None then [CGetDefaultWorkspace] else [])"
      "faults (world sP) = []" "store (world sP) = store (world s1)" "study sP = study s1"
    using init_attributes_ok [OF f1 ws', of proj' ?names] by (metis prod.collapse)
  from k pP have kP: "k \<in> dom (store (world sP))" by simp
  obtain sS where c: "study_experiment_from_attr (user_attrs (study sP) ''comet_study_experiment_key'') sP = (Inr k, sS)"
    and cS: "call_log (world sS) = call_log (world sP) @ [CResume APIExperimentK k]"
      "faults (world sS) = []" "dom (store (world sS)) = dom (store (world sP))" "study sS = study sP"
    using study_exp_resume [OF pP(2) k(1) kP] a pP(4) by (simp add: Let_def) (metis prod.collapse)
  have kS: "k \<in> dom (store (world sS))" using cS kP by simp
  from init_tail_ok [OF cS(2) kS, of ?names] cb_init_steps [OF p c] cS pP ck show ?thesis
    by (simp add: Let_def)
qed

theorem study_experiment_reused_witness:
  "fst (cb_init (Some ''ws'') (Some ''other'') None (snd (cb_init None (Some ''general'') (Some [''loss'']) ex_st_fresh))) = Inr () \<and>
   call_log (world (snd (cb_init (Some ''ws'') (Some ''other'') None (snd (cb_init None (Some ''general'') (Some [''loss'']) ex_st_fresh))))) =
     call_log (world (snd (cb_init None (Some ''general'') (Some [''loss'']) ex_st_fresh))) @
     [CResume APIExperimentK ''exp0'',
      CLogOther ''exp0'' ''direction_of_objective_0'' (OStr ''minimize''),
      CLogOther ''exp0'' ''direction_of_objective_1'' (OStr ''maximize'')]"
proof -
  obtain s1 where r: "cb_init None (Some ''general'') (Some [''loss'']) ex_st_fresh = (Inr (), s1)"
    and k: "cb_study_experiment (cb s1) = ''exp0''" and d: "directions (study s1) = [MINIMIZE, MAXIMIZE]"
    and w: "default_workspace (world s1) = Some ''ws''"
    by (simp add: ex_st_fresh_def ex_defs cb_init_def init_attributes_def load_trial_experiments_def
                  log_directions_def get_default_workspace_def callback_evals exc_simps)
  have f: "faults (world ex_st_fresh) = []" by (simp add: ex_st_fresh_def ex_defs)
  have ws: "Some ''ws'' \<noteq> None \<or> default_workspace (world s1) \<noteq> None" by simp
  from study_experiment_reused [where proj' = "Some ''other''" and mnames' = None, OF r f ws] r k d show ?thesis
    by (simp add: Let_def spec_direction_calls_def metric_name_at_def direction_str_def upt_conv_Cons ex_digit_chars)
qed

section \<open>Construction without a workspace\<close>

text \<open>
  C20. Without a workspace argument and without a default workspace for the
  account, \<open>__init__\<close> raises (the client's error is passed through) before
  creating or annotating anything: the store, the study and the call log are
  unchanged.
\<close>

theorem init_without_workspace_raises:
  assumes "ws = None" and "default_workspace (world s) = None" and "faults (world s) = []"
  shows "fst (cb_init ws proj mnames s) = Inl ApiKeyMissing \<and>
         store (world (snd (cb_init ws proj mnames s))) = store (world s) \<and>
         study (snd (cb_init ws proj mnames s)) = study s \<and>
         call_log (world (snd (cb_init ws proj mnames s))) = call_log (world s)"
  using assms
  by (simp add: cb_init_def init_attributes_def get_default_workspace_def callback_evals exc_simps Let_def)

theorem init_without_workspace_raises_witness:
  "fst (cb_init None (Some ''general'') None (ex_st0\<lparr>world := ex_world\<lparr>default_workspace := None\<rparr>\<rparr>)) = Inl ApiKeyMissing"
proof -
  have "None = (None :: string option)" "default_workspace (world (ex_st0\<lparr>world := ex_world\<lparr>default_workspace := None\<rparr>\<rparr>)) = None"
    "faults (world (ex_st0\<lparr>world := ex_world\<lparr>default_workspace := None\<rparr>\<rparr>)) = []"
    by (simp_all add: ex_world_def)
  from init_without_workspace_raises [where proj = "Some ''general''" and mnames = None, OF this] show ?thesis by simp
qed

end
