(* ===== verification/Runs.thy ===== *)
theory Runs
  imports Trials StudyExp
begin

text \<open>
  Runs of one process: the callback constructed (\<open>__init__\<close>), invoked by Optuna
  after a trial (\<open>__call__\<close>), and objectives decorated by \<open>track_in_comet\<close>
  that log to \<open>trial.experiment\<close>, in any order and from any state an earlier
  event left, also after an exception (the caller may catch it and go on).
  On a fault-free service two invariants hold in every reachable state: at most
  one session runs, and it is the process's active, unended experiment; and
  every \<open>APIExperiment\<close> record is the study experiment whose key the study
  stores. Two runs with one failed call show that neither survives faults.
\<close>

section \<open>Definitions\<close>

text \<open>The events of a process.\<close>

datatype event =
    EInit "string option" "string option" "string list option"
  | ECall frozen_trial
  | ETrack frozen_trial "(string \<times> ovalue) list"

text \<open>
  A decorated objective as in the class docstring: it logs annotations to the
  experiment the wrapper attached to the trial.
\<close>

definition objective_logs :: "(string \<times> ovalue) list \<Rightarrow> frozen_trial \<Rightarrow> key \<Rightarrow> (st, unit) exc" where
  "objective_logs ls t k = for_each ls (\<lambda>(n, v). remote (CLogOther k n v))"

fun run_event :: "event \<Rightarrow> (st, unit) exc" where
  "run_event (EInit ws p names) = cb_init ws p names"
| "run_event (ECall t) = cb_call t"
| "run_event (ETrack t ls) = track_in_comet (objective_logs ls) t"

inductive reach :: "st \<Rightarrow> st \<Rightarrow> bool" for s0 :: st where
  start: "reach s0 s0"
| step: "reach s0 s \<Longrightarrow> reach s0 (snd (run_event ev s))"

text \<open>The key the study stores for its study experiment.\<close>

definition study_key :: "study \<Rightarrow> key set" where
  "study_key stu = (case user_attrs stu ''comet_study_experiment_key'' of Some (AStr k) \<Rightarrow> {k} | _ \<Rightarrow> {})"

definition study_inv :: "st \<Rightarrow> bool" where
  "study_inv s \<longleftrightarrow> api_keys (store (world s)) \<subseteq> study_key (study s)"

text \<open>
  The invariants of the state the processes share (the service and the study),
  and those of one process, which add the session invariant.
\<close>

definition shared_inv :: "st \<Rightarrow> bool" where
  "shared_inv s \<longleftrightarrow> faults (world s) = [] \<and> wf_st s \<and> study_inv s"

definition proc_inv :: "st \<Rightarrow> bool" where
  "proc_inv s \<longleftrightarrow> shared_inv s \<and> sess_inv s"

text \<open>
  Three runs: the callback constructed for a new study and a decorated
  objective run for trial 0 (\<open>ex_run\<close>); from the constructed callback, trial 0's
  callback while the service fails the \<open>add_tag\<close> after \<open>Experiment()\<close> (attempt 7),
  then trial 1's callback (\<open>ex_leak_run\<close>); and two constructions for a new
  study while the service fails the first \<open>add_tag("optuna_study")\<close> (attempt 2)
  (\<open>ex_dup_run\<close>).
\<close>

definition ex_run :: st where
  "ex_run = snd (run_event (ETrack ex_trial [(''foo'', OStr ''bar'')])
                  (snd (run_event (EInit None (Some ''general'') None) ex_st0)))"

definition ex_leak_run :: st where
  "ex_leak_run = snd (run_event (ECall ex_trial1)
     (snd (run_event (ECall ex_trial) (ex_st1\<lparr>world := (world ex_st1)\<lparr>faults := [7]\<rparr>\<rparr>))))"

definition ex_dup_run :: st where
  "ex_dup_run = snd (run_event (EInit None (Some ''general'') None)
     (snd (run_event (EInit None (Some ''general'') None) (ex_st0\<lparr>world := ex_world\<lparr>faults := [2]\<rparr>\<rparr>))))"

section \<open>The invariants of one event\<close>

lemma keeps_conj: "keeps P m \<Longrightarrow> keeps Q m \<Longrightarrow> keeps (\<lambda>s. P s \<and> Q s) m"
  by (simp add: keeps_def)

lemma svc_inv_faults: "svc_inv (\<lambda>w. faults w = F)"
  using svc_inv_grows [of F "{}"] by simp

text \<open>No call but the creation of an \<open>APIExperiment\<close> adds one.\<close>

lemma svc_sess_api: "svc_sess (\<lambda>w. api_keys (store w) \<subseteq> S)"
proof -
  have c: "keeps (\<lambda>w. api_keys (store w) \<subseteq> S) (comet c)" if "\<not> is_create c" for c
    using that
    by (intro keepsI, cases c)
       (auto simp: comet_def Let_def on_exp_def is_create_def api_keys_def split: if_splits option.splits)
  have "keeps (\<lambda>w. api_keys (store w) \<subseteq> S) (create_experiment SessionK ws p)" for ws p
    by (rule keepsI)
       (auto simp: create_experiment_def comet_def Let_def exc_simps new_experiment_def api_keys_def split: if_splits)
  with c show ?thesis by (simp add: svc_sess_def)
qed

text \<open>A statement that adds no \<open>APIExperiment\<close> and leaves the study alone keeps \<open>study_inv\<close>.\<close>

lemma keeps_study_inv:
  assumes a: "\<And>S. keeps (\<lambda>s. api_keys (store (world s)) \<subseteq> S) m" and b: "\<And>S0. keeps (\<lambda>s. study s = S0) m"
  shows "keeps study_inv m"
proof (rule keepsI)
  fix s assume "study_inv s"
  then have "api_keys (store (world s)) \<subseteq> study_key (study s)" by (simp add: study_inv_def)
  with a have "api_keys (store (world (snd (m s)))) \<subseteq> study_key (study s)" by (rule keepsD)
  moreover from b have "study (snd (m s)) = study s" by (rule keepsD) simp
  ultimately show "study_inv (snd (m s))" by (simp add: study_inv_def)
qed

lemma keeps_faults_free: "svc_sess (\<lambda>w. faults w = [])"
  by (rule svc_inv_sess [OF svc_inv_faults])

lemma keeps_wf_sess: "svc_sess wf_world"
  by (rule svc_inv_sess [OF svc_inv_wf])

text \<open>The decorated objective of the docstring, and the study as a frame.\<close>

lemma keeps_svc_objective: "svc_sess P \<Longrightarrow> keeps (\<lambda>s. P (world s)) (objective_logs ls t k)"
  unfolding objective_logs_def by (intro keeps_svc_intros; simp add: is_create_def)

lemma keeps_frame_objective: "call_frame Q \<Longrightarrow> keeps Q (objective_logs ls t k)"
  unfolding objective_logs_def by (intro keeps_local_intros; simp add: call_frameD)

lemma keeps_sess_objective: "keeps sess_inv (objective_logs ls t k)"
  unfolding objective_logs_def by (intro keeps_sess_intros; simp add: starts_session_def)

lemma frame_study: "call_frame (\<lambda>s. study s = S0)"
  by (simp add: call_frame_def obs_frame_def)

lemma keeps_shared_invI:
  "keeps (\<lambda>s. faults (world s) = []) m \<Longrightarrow> keeps wf_st m \<Longrightarrow> keeps study_inv m \<Longrightarrow> keeps shared_inv m"
  by (simp add: keeps_def shared_inv_def)

lemma keeps_shared_call: "keeps shared_inv (cb_call t)"
proof (rule keeps_shared_invI)
  show "keeps (\<lambda>s. faults (world s) = []) (cb_call t)" by (rule keeps_svc_cb_call [OF keeps_faults_free])
  show "keeps wf_st (cb_call t)" unfolding wf_st_def by (rule keeps_svc_cb_call [OF keeps_wf_sess])
  show "keeps study_inv (cb_call t)"
    by (rule keeps_study_inv [OF keeps_svc_cb_call [OF svc_sess_api] keeps_frame_cb_call [OF frame_study]])
qed

lemma keeps_shared_track: "keeps shared_inv (track_in_comet (objective_logs ls) t)"
proof (rule keeps_shared_invI)
  show "keeps (\<lambda>s. faults (world s) = []) (track_in_comet (objective_logs ls) t)"
    by (rule keeps_svc_track [OF keeps_faults_free keeps_svc_objective [OF keeps_faults_free]])
  show "keeps wf_st (track_in_comet (objective_logs ls) t)"
    unfolding wf_st_def by (rule keeps_svc_track [OF keeps_wf_sess keeps_svc_objective [OF keeps_wf_sess]])
  show "keeps study_inv (track_in_comet (objective_logs ls) t)"
  proof (rule keeps_study_inv)
    show "keeps (\<lambda>s. api_keys (store (world s)) \<subseteq> S) (track_in_comet (objective_logs ls) t)" for S
      by (rule keeps_svc_track [OF svc_sess_api keeps_svc_objective [OF svc_sess_api]])
    show "keeps (\<lambda>s. study s = S0) (track_in_comet (objective_logs ls) t)" for S0
      unfolding track_in_comet_def
      by (intro keeps_bind_exc keeps_frame_init_trial [OF frame_study] keeps_frame_objective [OF frame_study])
  qed
qed

text \<open>\<open>__init__\<close> keeps them: its attributes, its study experiment, the rest.\<close>

lemma keeps_shared_attributes: "keeps shared_inv (init_attributes ws p names)"
proof (rule keeps_shared_invI)
  show "keeps (\<lambda>s. faults (world s) = []) (init_attributes ws p names)"
    unfolding init_attributes_def by (intro keeps_svc_intros keeps_faults_free; simp)
  show "keeps wf_st (init_attributes ws p names)"
    unfolding wf_st_def init_attributes_def by (intro keeps_svc_intros keeps_wf_sess; simp)
  show "keeps study_inv (init_attributes ws p names)"
  proof (rule keeps_study_inv)
    show "keeps (\<lambda>s. api_keys (store (world s)) \<subseteq> S) (init_attributes ws p names)" for S
      unfolding init_attributes_def by (intro keeps_svc_intros svc_sess_api; simp)
    show "keeps (\<lambda>s. study s = S0) (init_attributes ws p names)" for S0
      unfolding init_attributes_def by (intro keeps_local_intros; simp)
  qed
qed

lemma keeps_shared_tail:
  "keeps shared_inv (then_exc (modify (\<lambda>s. s\<lparr>cb := (cb s)\<lparr>cb_study_experiment := k\<rparr>\<rparr>))
     (bind_exc (gets (\<lambda>s. directions (study s)))
       (\<lambda>ds. then_exc (log_directions k names ds) load_trial_experiments)))"
  (is "keeps shared_inv ?m")
proof (rule keeps_shared_invI)
  show "keeps (\<lambda>s. faults (world s) = []) ?m"
    unfolding log_directions_def load_trial_experiments_def
    by (intro keeps_svc_intros keeps_faults_free; simp add: is_create_def)
  show "keeps wf_st ?m"
    unfolding wf_st_def log_directions_def load_trial_experiments_def
    by (intro keeps_svc_intros keeps_wf_sess; simp add: is_create_def)
  show "keeps study_inv ?m"
  proof (rule keeps_study_inv)
    show "keeps (\<lambda>s. api_keys (store (world s)) \<subseteq> S) ?m" for S
      unfolding log_directions_def load_trial_experiments_def
      by (intro keeps_svc_intros svc_sess_api; simp add: is_create_def)
    show "keeps (\<lambda>s. study s = S0) ?m" for S0
      unfolding log_directions_def load_trial_experiments_def by (intro keeps_local_intros; simp)
  qed
qed

text \<open>
  The study experiment: resuming changes no kind and no attribute; creating
  (only when no key is stored, so that no \<open>APIExperiment\<close> is stored either)
  stores the one new key in the study before anything can fail on a
  fault-free service.
\<close>

lemma study_inv_study_exp:
  assumes f: "faults (world s) = []" and w: "wf_st s" and u: "study_inv s"
  shows "study_inv (snd (study_experiment_from_attr (user_attrs (study s) ''comet_study_experiment_key'') s))"
    (is "study_inv (snd (study_experiment_from_attr ?a s))")
proof (cases "case ?a of None \<Rightarrow> False | Some x \<Rightarrow> attr_truthy x")
  case True
  let ?m = "case ?a of Some (AStr k) \<Rightarrow> then_exc (remote (CResume APIExperimentK k)) (ret k)
                     | _ \<Rightarrow> raise (TypeError ''previous_experiment'')"
  have "study_experiment_from_attr ?a s = ?m s"
    using True by (simp add: study_experiment_from_attr_def)
  moreover have "keeps study_inv ?m"
  proof (rule keeps_study_inv)
    show "keeps (\<lambda>s. api_keys (store (world s)) \<subseteq> S) ?m" for S
      by (intro keeps_svc_intros svc_sess_api; simp add: is_create_def)
    show "keeps (\<lambda>s. study s = S0) ?m" for S0
      by (intro keeps_local_intros; simp)
  qed
  ultimately show ?thesis using u by (simp add: keepsD)
next
  case False
  let ?k = "key_of (next_id (world s))"
  have "[] \<notin> api_keys (store (world s))"
    using wf_world_empty_key [OF w [unfolded wf_st_def]] by (simp add: api_keys_def)
  with u False have empty: "api_keys (store (world s)) = {}"
    by (auto simp: study_inv_def study_key_def split: option.splits attr.splits)
  from study_exp_create [OF f w False] empty show ?thesis
    by (simp add: Let_def study_inv_def study_key_def)
qed

lemma keeps_shared_study_exp: "keeps shared_inv init_study_experiment"
proof (rule keepsI)
  fix s assume p: "shared_inv s"
  let ?a = "user_attrs (study s) ''comet_study_experiment_key''"
  have e: "init_study_experiment s = study_experiment_from_attr ?a s"
    by (simp add: init_study_experiment_def gets_def)
  from p have f: "faults (world s) = []" and w: "wf_st s" and u: "study_inv s"
    by (simp_all add: shared_inv_def)
  have "faults (world (snd (study_experiment_from_attr ?a s))) = []"
    using keeps_svc_study_exp [OF svc_inv_faults] f by (rule keepsD)
  moreover have "wf_st (snd (study_experiment_from_attr ?a s))"
    using keeps_svc_study_exp [OF svc_inv_wf] w unfolding wf_st_def by (rule keepsD)
  moreover have "study_inv (snd (study_experiment_from_attr ?a s))" using f w u by (rule study_inv_study_exp)
  ultimately show "shared_inv (snd (init_study_experiment s))" by (simp add: e shared_inv_def)
qed

lemma keeps_shared_init: "keeps shared_inv (cb_init ws p names)"
  unfolding cb_init_def Let_def
  by (intro keeps_then_exc keeps_bind_exc keeps_shared_attributes keeps_shared_study_exp keeps_shared_tail)

lemma keeps_shared_event: "keeps shared_inv (run_event ev)"
  by (cases ev) (simp_all add: keeps_shared_init keeps_shared_call keeps_shared_track)

text \<open>The session invariant needs the shared one: a creation on a well-formed store is fresh.\<close>

lemma sess_inv_event:
  assumes "shared_inv s" and i: "sess_inv s" shows "sess_inv (snd (run_event ev s))"
proof -
  from assms have f: "faults (world s) = []" and w: "wf_st s" by (simp_all add: shared_inv_def)
  show ?thesis
  proof (cases ev)
    case (EInit ws p names)
    with i show ?thesis by (simp add: keepsD [OF keeps_sess_cb_init])
  next
    case (ECall t)
    with f w i show ?thesis by (simp add: cb_call_sess)
  next
    case (ETrack t ls)
    obtain r s1 where e: "init_trial_experiment t s = (r, s1)" by fastforce
    with init_trial_sess [OF f w i, of t] have "sess_inv s1" by simp
    with e ETrack show ?thesis
      by (auto simp: track_in_comet_def exc_simps dest: keepsD [OF keeps_sess_objective] split: sum.splits)
  qed
qed

lemma proc_inv_event: "proc_inv s \<Longrightarrow> proc_inv (snd (run_event ev s))"
  by (simp add: proc_inv_def sess_inv_event keepsD [OF keeps_shared_event])

text \<open>Rule induction: the invariants hold in every state a fault-free run reaches.\<close>

lemma reach_proc_inv: "reach s0 s \<Longrightarrow> proc_inv s0 \<Longrightarrow> proc_inv s"
  by (induction rule: reach.induct) (simp_all add: proc_inv_event)

section \<open>Fault-free runs\<close>

text \<open>The equations that evaluate a run on concrete states.\<close>

lemmas run_evals = callback_evals cb_init_def init_attributes_def load_trial_experiments_def log_directions_def
  get_default_workspace_def exc_simps objective_logs_def trial_value_def study_direction_def

lemma ex_reach_two: "reach s0 (snd (run_event ev2 (snd (run_event ev1 s0))))"
  by (intro reach.step reach.start)

text \<open>
  C3. The at-most-one-active invariant of the description: in every state that
  a run of one process reaches on a fault-free service, from a state where it
  holds, every running session is the process's active experiment and that
  experiment is not ended; so at most one session runs.
\<close>

theorem single_running_session:
  assumes "reach s0 s" and "proc_inv s0"
  shows "(\<forall>k \<in> running_keys (store (world s)). active s = Some \<lparr>act_key = k, act_ended = False\<rparr>) \<and>
         (\<forall>k1 \<in> running_keys (store (world s)). \<forall>k2 \<in> running_keys (store (world s)). k1 = k2)"
proof -
  from reach_proc_inv [OF assms] have i: "sess_inv s" by (simp add: proc_inv_def)
  have "k1 = k2" if "k1 \<in> running_keys (store (world s))" "k2 \<in> running_keys (store (world s))" for k1 k2
  proof -
    from i that(1) have "active s = Some \<lparr>act_key = k1, act_ended = False\<rparr>" unfolding sess_inv_def by blast
    moreover from i that(2) have "active s = Some \<lparr>act_key = k2, act_ended = False\<rparr>"
      unfolding sess_inv_def by blast
    ultimately show ?thesis by simp
  qed
  with i show ?thesis by (simp add: sess_inv_def)
qed

theorem single_running_session_witness:
  "reach ex_st0 ex_run \<and> ''exp1'' \<in> running_keys (store (world ex_run)) \<and>
   active ex_run = Some \<lparr>act_key = ''exp1'', act_ended = False\<rparr>"
proof -
  have r: "reach ex_st0 ex_run" unfolding ex_run_def by (rule ex_reach_two)
  have p: "proc_inv ex_st0"
    by (simp add: proc_inv_def shared_inv_def ex_defs wf_st_def wf_world_def sess_inv_def study_inv_def)
  have k: "''exp1'' \<in> running_keys (store (world ex_run))"
    by (simp add: ex_run_def ex_defs run_evals new_experiment_def)
  from single_running_session [OF r p] r k show ?thesis by blast
qed

text \<open>A normal return of \<open>__call__\<close> from a state of the invariants leaves no session running.\<close>

lemma cb_call_closes:
  assumes "proc_inv s" and "cb_call t s = (Inr (), s')"
  shows "running_keys (store (world s')) = {}"
proof -
  from assms(1) have "proc_inv (snd (run_event (ECall t) s))" by (rule proc_inv_event)
  with assms(2) have i: "sess_inv s'" by (simp add: proc_inv_def)
  from assms(2) obtain k s1 s4 s5 s6 where "end_active s6 = (Inr (), s')" by (rule cb_call_InrD)
  then have "case active s' of None \<Rightarrow> True | Some a \<Rightarrow> act_ended a" by (rule end_active_Inr)
  with i show ?thesis by (rule sess_inv_ended_none)
qed

text \<open>
  C9. Every trial's session is closed by its callback: in a fault-free run of
  one process, once \<open>__call__\<close> has returned normally no session runs any more,
  whatever ran before it (for instance the session the decorator opened for
  the same trial).
\<close>

theorem callback_closes_sessions:
  assumes "reach s0 s" and "proc_inv s0" and "cb_call t s = (Inr (), s')"
  shows "running_keys (store (world s')) = {}"
proof -
  from reach_proc_inv [OF assms(1,2)] have "proc_inv s" .
  from this assms(3) show ?thesis by (rule cb_call_closes)
qed

theorem callback_closes_sessions_witness:
  "''exp1'' \<in> running_keys (store (world ex_run)) \<and>
   fst (cb_call ex_trial ex_run) = Inr () \<and> running_keys (store (world (snd (cb_call ex_trial ex_run)))) = {}"
proof -
  have r: "reach ex_st0 ex_run" unfolding ex_run_def by (rule ex_reach_two)
  have p: "proc_inv ex_st0"
    by (simp add: proc_inv_def shared_inv_def ex_defs wf_st_def wf_world_def sess_inv_def study_inv_def)
  have k: "''exp1'' \<in> running_keys (store (world ex_run))"
    by (simp add: ex_run_def ex_defs run_evals new_experiment_def)
  obtain s' where c: "cb_call ex_trial ex_run = (Inr (), s')"
    by (simp add: ex_run_def ex_defs run_evals new_experiment_def single_metric_name_def is_multi_def)
  from callback_closes_sessions [OF r p c] k c show ?thesis by simp
qed

text \<open>
  C4. One study experiment per study: in every state that a run of one process
  reaches on a fault-free service, from a state where it holds, every
  \<open>APIExperiment\<close> record is the one whose key the study stores; so there is at
  most one.
\<close>

theorem single_study_experiment:
  assumes "reach s0 s" and "proc_inv s0"
  shows "api_keys (store (world s)) \<subseteq> study_key (study s) \<and>
         (\<forall>k1 \<in> api_keys (store (world s)). \<forall>k2 \<in> api_keys (store (world s)). k1 = k2)"
proof -
  from reach_proc_inv [OF assms] have u: "api_keys (store (world s)) \<subseteq> study_key (study s)"
    by (simp add: proc_inv_def shared_inv_def study_inv_def)
  moreover have "\<forall>k1 \<in> study_key (study s). \<forall>k2 \<in> study_key (study s). k1 = k2"
    by (simp add: study_key_def split: option.splits attr.splits)
  ultimately show ?thesis by blast
qed

theorem single_study_experiment_witness:
  "reach ex_st0 ex_run \<and> api_keys (store (world ex_run)) = {''exp0''}"
proof -
  have r: "reach ex_st0 ex_run" unfolding ex_run_def by (rule ex_reach_two)
  have p: "proc_inv ex_st0"
    by (simp add: proc_inv_def shared_inv_def ex_defs wf_st_def wf_world_def sess_inv_def study_inv_def)
  have k: "''exp0'' \<in> api_keys (store (world ex_run))" and sk: "study_key (study ex_run) = {''exp0''}"
    by (simp_all add: ex_run_def ex_defs run_evals new_experiment_def api_keys_def study_key_def)
  from single_study_experiment [OF r p] r k sk show ?thesis by blast
qed

section \<open>Runs with a failed call\<close>

text \<open>
  C16. A failure between \<open>Experiment()\<close> and \<open>setattr\<close> leaks a session: when the
  \<open>add_tag("optuna_trial")\<close> of trial 0's new experiment fails, that session
  keeps running, but neither the mapping nor the active-experiment pointer
  refers to it, so no later call ends it. After trial 1's callback it still
  runs while the active experiment is trial 1's ended one: the invariant of
  the description does not hold.
\<close>

theorem trial_fault_leaks_session:
  "reach (ex_st1\<lparr>world := (world ex_st1)\<lparr>faults := [7]\<rparr>\<rparr>) ex_leak_run \<and>
   ''exp1'' \<in> running_keys (store (world ex_leak_run)) \<and>
   active ex_leak_run = Some \<lparr>act_key = ''exp2'', act_ended = True\<rparr> \<and> \<not> sess_inv ex_leak_run"
proof -
  have r: "reach (ex_st1\<lparr>world := (world ex_st1)\<lparr>faults := [7]\<rparr>\<rparr>) ex_leak_run"
    unfolding ex_leak_run_def by (rule ex_reach_two)
  have k: "''exp1'' \<in> running_keys (store (world ex_leak_run))"
    and a: "active ex_leak_run = Some \<lparr>act_key = ''exp2'', act_ended = True\<rparr>"
    by (simp_all add: ex_leak_run_def ex_defs ex_trial1_def run_evals new_experiment_def
                      single_metric_name_def is_multi_def)
  from k a have "\<not> sess_inv ex_leak_run" by (auto simp: sess_inv_def)
  with r k a show ?thesis by blast
qed

text \<open>
  C17. A failure between the creation of the study experiment and the write of
  its key duplicates it: when the first \<open>add_tag("optuna_study")\<close> fails, the key
  is never stored, and constructing the callback again creates a second
  \<open>APIExperiment\<close> for the same study. The study stores only the second key.
\<close>

theorem init_fault_duplicates_study_experiment:
  "reach (ex_st0\<lparr>world := ex_world\<lparr>faults := [2]\<rparr>\<rparr>) ex_dup_run \<and>
   api_keys (store (world ex_dup_run)) = {''exp0'', ''exp1''} \<and>
   study_key (study ex_dup_run) = {''exp1''} \<and> \<not> study_inv ex_dup_run"
proof -
  have r: "reach (ex_st0\<lparr>world := ex_world\<lparr>faults := [2]\<rparr>\<rparr>) ex_dup_run"
    unfolding ex_dup_run_def by (rule ex_reach_two)
  have a: "api_keys (store (world ex_dup_run)) = {''exp0'', ''exp1''}"
    and k: "study_key (study ex_dup_run) = {''exp1''}"
    by (simp_all add: ex_dup_run_def ex_defs run_evals new_experiment_def study_key_def
                      set_user_attr_def insert_commute)
  from a k have "\<not> study_inv ex_dup_run" by (simp add: study_inv_def)
  with r a k show ?thesis by blast
qed

end
