(* ===== verification/Optimize.thy ===== *)
theory Optimize
  imports Cost Runs
begin

text \<open>
  The driver of the callback: Optuna's \<open>study.optimize(func, n_trials,
  callbacks=[comet_callback])\<close> as the class docstring uses it, in its
  sequential form (\<open>_optimize_sequential\<close>). Each iteration runs the
  objective on the next trial, records the trial in the study (its best
  trials), and invokes the callback with the finished trial. An exception of
  the objective fails the trial; it is re-raised unless \<open>catch\<close> names it, in
  which case the callback sees the failed trial (no values). An exception of
  the callback ends the loop. Without \<open>n_trials\<close> the loop only ends by an
  exception, so it is a \<open>partial_function (option)\<close>: \<open>None\<close> is a loop that
  never returns. The trials Optuna hands out (sampled parameters, the values
  the objective returns, the best trials afterwards) are a parameter
  \<open>trials\<close>: sampling and the computation of the best trials are not modelled.
  The theory proves that the decorated usage of the docstring, on a
  fault-free service, runs its hundred trials to a normal return and leaves
  no session running, with the study experiment the only one.
\<close>

section \<open>Definitions\<close>

text \<open>The study's storage records a finished trial: the best trials change.\<close>

definition record_best :: "nat list \<Rightarrow> st \<Rightarrow> st" where
  "record_best bt s = s\<lparr>study := (study s)\<lparr>best_trials := bt\<rparr>\<rparr>"

text \<open>
  \<open>_run_trial\<close>: the objective on the trial; a completed trial is stored with
  the new best trials; a failed one is returned without values when
  \<open>catch\<close> covers the error, and its error is re-raised otherwise.
\<close>

definition run_trial ::
  "(error \<Rightarrow> bool) \<Rightarrow> (frozen_trial \<Rightarrow> (st, unit) exc) \<Rightarrow> frozen_trial \<Rightarrow> nat list \<Rightarrow> (st, frozen_trial) exc" where
  "run_trial catch func t bt s =
     (case func t s of
        (Inr _, s1) \<Rightarrow> (Inr t, record_best bt s1)
      | (Inl e, s1) \<Rightarrow> if catch e then (Inr (t\<lparr>trial_values := None\<rparr>), s1) else (Inl e, s1))"

text \<open>One iteration: the trial, then \<open>callback(study, frozen_trial)\<close>.\<close>

definition optimize_step ::
  "(error \<Rightarrow> bool) \<Rightarrow> (frozen_trial \<Rightarrow> (st, unit) exc) \<Rightarrow> frozen_trial \<times> nat list \<Rightarrow> (st, unit) exc" where
  "optimize_step catch func tb = bind_exc (run_trial catch func (fst tb) (snd tb)) cb_call"

text \<open>The loop, with the count \<open>i_trial\<close> of the trials run so far.\<close>

partial_function (option) optimize_loop ::
  "(error \<Rightarrow> bool) \<Rightarrow> (frozen_trial \<Rightarrow> (st, unit) exc) \<Rightarrow> (nat \<Rightarrow> frozen_trial \<times> nat list) \<Rightarrow>
   nat option \<Rightarrow> nat \<Rightarrow> st \<Rightarrow> ((error + unit) \<times> st) option" where
  "optimize_loop catch func trials n_trials i s =
     (if (case n_trials of Some n \<Rightarrow> n \<le> i | None \<Rightarrow> False) then Some (Inr (), s)
      else (case optimize_step catch func (trials i) s of
              (Inl e, s') \<Rightarrow> Some (Inl e, s')
            | (Inr _, s') \<Rightarrow> optimize_loop catch func trials n_trials (Suc i) s'))"

text \<open>
  \<open>optuna.create_study(directions=...)\<close> in memory: a new study of the given
  name, without user attributes or trials.
\<close>

definition create_study :: "string \<Rightarrow> study_direction list \<Rightarrow> st \<Rightarrow> st" where
  "create_study name ds s =
     s\<lparr>study := \<lparr>study_name = name, directions = ds, user_attrs = Map.empty,
                  storage_name = ''InMemoryStorage'', best_trials = []\<rparr>\<rparr>"

text \<open>
  The usage of the class docstring: a two-objective study, the callback
  constructed with metric names, project and workspace, and
  \<open>study.optimize(func, n_trials=100, callbacks=[comet_callback])\<close> (no
  \<open>catch\<close>).
\<close>

definition docstring_usage ::
  "string \<Rightarrow> (frozen_trial \<Rightarrow> (st, unit) exc) \<Rightarrow> (nat \<Rightarrow> frozen_trial \<times> nat list) \<Rightarrow> st \<Rightarrow>
   ((error + unit) \<times> st) option" where
  "docstring_usage name func trials s =
     (case cb_init (Some ''your_workspace'') (Some ''your_project_name'') (Some [''accuracy'', ''top_k_accuracy''])
             (create_study name [MINIMIZE, MAXIMIZE] s) of
        (Inl e, s1) \<Rightarrow> Some (Inl e, s1)
      | (Inr _, s1) \<Rightarrow> optimize_loop (\<lambda>_. False) func trials (Some 100) 0 s1)"

text \<open>
  The second usage of the docstring: the same, with the objective decorated by
  \<open>track_in_comet\<close>, logging \<open>foo = bar\<close> to \<open>trial.experiment\<close>.
\<close>

definition docstring_decorated :: "string \<Rightarrow> (nat \<Rightarrow> frozen_trial \<times> nat list) \<Rightarrow> st \<Rightarrow> ((error + unit) \<times> st) option" where
  "docstring_decorated name trials =
     docstring_usage name (track_in_comet (objective_logs [(''foo'', OStr ''bar'')])) trials"

text \<open>
  The state between two iterations of the decorated usage, before trial \<open>j\<close>:
  the invariants of a process, the study experiment stored and named by the
  study, the active experiment (if any) stored and ended, and the trial
  mapping a dict of the trials before \<open>j\<close>.
\<close>

definition ready :: "nat \<Rightarrow> st \<Rightarrow> bool" where
  "ready j s \<longleftrightarrow>
     proc_inv s \<and> cb_study_experiment (cb s) \<in> dom (store (world s)) \<and>
     study_key (study s) = {cb_study_experiment (cb s)} \<and>
     (case active s of None \<Rightarrow> True | Some a \<Rightarrow> act_ended a \<and> act_key a \<in> dom (store (world s))) \<and>
     (\<exists>d. cb_trial_experiments (cb s) = ADict d \<and> fst ` set d \<subseteq> {..<j})"

section \<open>The loop with \<open>n_trials\<close> is a sequence of iterations\<close>

lemma optimize_loop_for_each:
  "optimize_loop catch func trials (Some n) i s =
     Some (for_each [i..<n] (\<lambda>j. optimize_step catch func (trials j)) s)"
proof (induction "n - i" arbitrary: i s)
  case 0
  then show ?case by (simp add: optimize_loop.simps exc_simps)
next
  case (Suc d)
  then have i: "i < n" and d: "d = n - Suc i" by simp_all
  from i have u: "[i..<n] = i # [Suc i..<n]" by (rule upt_conv_Cons)
  have IH: "\<And>s. optimize_loop catch func trials (Some n) (Suc i) s =
      Some (for_each [Suc i..<n] (\<lambda>j. optimize_step catch func (trials j)) s)"
    by (rule Suc.hyps(1) [OF d])
  obtain r s' where st: "optimize_step catch func (trials i) s = (r, s')" by fastforce
  show ?case
  proof (cases r)
    case (Inl e)
    with i st show ?thesis by (subst optimize_loop.simps) (simp add: u then_exc_def exc_simps)
  next
    case (Inr x)
    with i st have "optimize_loop catch func trials (Some n) i s = optimize_loop catch func trials (Some n) (Suc i) s'"
      by (subst optimize_loop.simps) simp
    with Inr st show ?thesis by (simp add: IH u then_exc_def exc_simps)
  qed
qed

section \<open>The invariants across iterations\<close>

lemma proc_inv_record_best [simp]: "proc_inv (record_best bt s) \<longleftrightarrow> proc_inv s"
  by (simp add: record_best_def proc_inv_def shared_inv_def wf_st_def study_inv_def sess_inv_def study_key_def)

lemma keeps_proc_call: "keeps proc_inv (cb_call t)"
  using proc_inv_event [where ev = "ECall t"] by (simp add: keeps_def)

lemma keeps_proc_track: "keeps proc_inv (track_in_comet (objective_logs ls) t)"
  using proc_inv_event [where ev = "ETrack t ls"] by (simp add: keeps_def)

lemma keeps_proc_run_trial:
  assumes f: "\<And>t. keeps proc_inv (func t)"
  shows "keeps proc_inv (run_trial catch func t bt)"
proof (rule keepsI)
  fix s assume p: "proc_inv s"
  obtain r s1 where e: "func t s = (r, s1)" by fastforce
  from keepsD [OF f [of t] p] e have "proc_inv s1" by simp
  with e show "proc_inv (snd (run_trial catch func t bt s))"
    by (cases r) (simp_all add: run_trial_def)
qed

lemma keeps_proc_step:
  "(\<And>t. keeps proc_inv (func t)) \<Longrightarrow> keeps proc_inv (optimize_step catch func tb)"
  unfolding optimize_step_def by (intro keeps_bind_exc keeps_proc_run_trial keeps_proc_call)

section \<open>One trial of the decorated usage\<close>

text \<open>\<open>Experiment()\<close>, its tag and annotation, the mapping entry and \<open>setattr\<close> on a fault-free service.\<close>

lemma create_trial_ok:
  assumes "faults (world s) = []"
  shows "let k = key_of (next_id (world s)); s1 = snd (create_trial_experiment t s) in
         fst (create_trial_experiment t s) = Inr k \<and> faults (world s1) = [] \<and>
         dom (store (world s1)) = insert k (dom (store (world s))) \<and>
         study s1 = study s \<and> active s1 = Some \<lparr>act_key = k, act_ended = False\<rparr> \<and>
         cb s1 = (cb s)\<lparr>cb_trial_experiments := dict_set (cb_trial_experiments (cb s)) (number t) k\<rparr>"
  using assms by (simp add: create_trial_experiment_def callback_evals exc_simps Let_def split: attr.split)

text \<open>A trial the mapping does not hold, with no open active experiment: a new session.\<close>

lemma init_trial_fresh:
  assumes "cb_trial_experiments (cb s) = ADict d" and "number t \<notin> fst ` set d"
    and "case active s of None \<Rightarrow> True | Some a \<Rightarrow> act_ended a"
  shows "init_trial_experiment t s = create_trial_experiment t s"
proof -
  from assms(2) have "map_of d (number t) = None" by (simp add: map_of_eq_None_iff)
  with assms(1,3) show ?thesis
    by (simp add: init_trial_experiment_def start_trial_experiment_def dict_get_def split: option.splits)
qed

text \<open>The trial's own session, still active and open: returned as it is.\<close>

lemma init_trial_reuse:
  assumes "cb_trial_experiments (cb s) = ADict d" and "map_of d (number t) = Some k"
    and "active s = Some \<lparr>act_key = k, act_ended = False\<rparr>"
  shows "init_trial_experiment t s = (Inr k, s)"
  using assms by (simp add: init_trial_experiment_def dict_get_def exc_simps)

text \<open>The decorated objective of the docstring logs to a stored experiment and changes nothing else.\<close>

lemma objective_logs_ok:
  assumes "faults (world s) = []" and "k \<in> dom (store (world s))"
  obtains s' where "objective_logs ls t k s = (Inr (), s')"
    and "quiet (dom (store (world s))) (running_keys (store (world s))) (study s) (cb s) (active s) s'"
proof -
  let ?Q = "quiet (dom (store (world s))) (running_keys (store (world s))) (study s) (cb s) (active s)"
  have "logs_as ?Q (objective_logs ls t k) (map (\<lambda>(n, v). CLogOther k n v) ls)"
    unfolding objective_logs_def
    by (rule logs_as_for_each) (auto intro: logs_as_remote [OF _ assms(2)] simp: logs_on_def)
  moreover have "?Q s" using assms(1) by (simp add: quiet_def)
  ultimately obtain s' where "objective_logs ls t k s = (Inr (), s')" "?Q s'"
    by (rule logs_asD)
  then show ?thesis by (rule that)
qed

text \<open>What \<open>__call__\<close> keeps of the study and the store.\<close>

lemma cb_call_keeps_study: "study (snd (cb_call t s)) = study s"
  by (rule keepsD [OF keeps_frame_cb_call, where P = "\<lambda>x. study x = study s"])
     (simp_all add: call_frame_def obs_frame_def)

lemma cb_call_grows: "dom (store (world s)) \<subseteq> dom (store (world (snd (cb_call t s))))"
proof -
  have "keeps (\<lambda>x. faults (world x) = faults (world s) \<and> dom (store (world s)) \<subseteq> dom (store (world x))) (cb_call t)"
    by (rule keeps_svc_cb_call [OF svc_inv_sess [OF svc_inv_grows]])
  from keepsD [OF this] show ?thesis by simp
qed

text \<open>
  One iteration of the decorated usage from a state \<open>ready j\<close>, for trial \<open>j\<close>
  with several values: the wrapper opens the trial's session and the objective
  logs to it, the trial is recorded, and \<open>__call__\<close> returns normally, having
  ended the session; the state is \<open>ready (Suc j)\<close>.
\<close>

lemma usage_step:
  assumes r: "ready j s" and n: "number t = j" and v: "trial_values t = Some vs" "1 < length vs"
  obtains s' where "optimize_step (\<lambda>_. False) (track_in_comet (objective_logs ls)) (t, bt) s = (Inr (), s')"
    and "ready (Suc j) s'"
proof -
  from r obtain d where p: "proc_inv s" and sk: "cb_study_experiment (cb s) \<in> dom (store (world s))"
    and key: "study_key (study s) = {cb_study_experiment (cb s)}"
    and ac: "case active s of None \<Rightarrow> True | Some a \<Rightarrow> act_ended a \<and> act_key a \<in> dom (store (world s))"
    and m: "cb_trial_experiments (cb s) = ADict d" and lt: "fst ` set d \<subseteq> {..<j}"
    by (auto simp: ready_def)
  from p have f: "faults (world s) = []" by (simp add: proc_inv_def shared_inv_def)
  let ?k = "key_of (next_id (world s))"
  obtain s1 where c1: "create_trial_experiment t s = (Inr ?k, s1)" and f1: "faults (world s1) = []"
    and d1: "dom (store (world s1)) = insert ?k (dom (store (world s)))" and st1: "study s1 = study s"
    and a1: "active s1 = Some \<lparr>act_key = ?k, act_ended = False\<rparr>"
    and cb1: "cb s1 = (cb s)\<lparr>cb_trial_experiments := ADict (AList.update j ?k d)\<rparr>"
    using create_trial_ok [OF f, of t] m n by (auto simp: Let_def dict_set_def prod_eq_iff)
  from lt n have "number t \<notin> fst ` set d" by auto
  with m ac have "init_trial_experiment t s = create_trial_experiment t s"
    by (intro init_trial_fresh) (auto split: option.splits)
  with c1 have i1: "init_trial_experiment t s = (Inr ?k, s1)" by simp
  from d1 have k1: "?k \<in> dom (store (world s1))" by simp
  obtain s2 where o: "objective_logs ls t ?k s1 = (Inr (), s2)"
    and q2: "quiet (dom (store (world s1))) (running_keys (store (world s1))) (study s1) (cb s1) (active s1) s2"
    using f1 k1 by (rule objective_logs_ok)
  let ?s3 = "record_best bt s2"
  have tr: "run_trial (\<lambda>_. False) (track_in_comet (objective_logs ls)) t bt s = (Inr t, ?s3)"
    by (simp add: run_trial_def track_in_comet_def i1 o)
  from q2 have f3: "faults (world ?s3) = []" and d3: "dom (store (world ?s3)) = dom (store (world s1))"
    and cb3: "cb ?s3 = cb s1" and a3: "active ?s3 = active s1" and st3: "study_key (study ?s3) = study_key (study s)"
    by (simp_all add: quiet_def record_best_def st1 study_key_def)
  from cb3 cb1 m n a3 a1 have i3: "init_trial_experiment t ?s3 = (Inr ?k, ?s3)"
    by (intro init_trial_reuse [where d = "AList.update j ?k d"]) simp_all
  have as3: "active_stored ?s3" using a3 a1 d3 k1 by (simp add: active_stored_def)
  have sk3: "cb_study_experiment (cb ?s3) \<in> dom (store (world ?s3))" using cb3 cb1 d3 d1 sk by simp
  have ok3: "spec_input_ok (study ?s3) t" using v by (simp add: spec_input_ok_def)
  let ?s4 = "snd (cb_call t ?s3)"
  from cb_call_runs_spec [OF i3 f3 as3 sk3 ok3]
  have c4: "fst (cb_call t ?s3) = Inr ()" and a4: "active ?s4 = Some \<lparr>act_key = ?k, act_ended = True\<rparr>"
    and cb4: "cb ?s4 = cb ?s3" by simp_all
  have step: "optimize_step (\<lambda>_. False) (track_in_comet (objective_logs ls)) (t, bt) s = (Inr (), ?s4)"
    using c4 by (simp add: optimize_step_def tr prod_eq_iff)
  have "keeps proc_inv (optimize_step (\<lambda>_. False) (track_in_comet (objective_logs ls)) (t, bt))"
    by (intro keeps_proc_step keeps_proc_track)
  from keepsD [OF this p] step have p4: "proc_inv ?s4" by simp
  have g4: "dom (store (world ?s3)) \<subseteq> dom (store (world ?s4))" by (rule cb_call_grows)
  have "ready (Suc j) ?s4"
    unfolding ready_def
  proof (intro conjI)
    show "proc_inv ?s4" by (rule p4)
    show "cb_study_experiment (cb ?s4) \<in> dom (store (world ?s4))" using sk3 cb4 g4 by auto
    show "study_key (study ?s4) = {cb_study_experiment (cb ?s4)}"
      using cb_call_keeps_study [of t ?s3] st3 key cb4 cb3 cb1 by simp
    show "case active ?s4 of None \<Rightarrow> True | Some a \<Rightarrow> act_ended a \<and> act_key a \<in> dom (store (world ?s4))"
      using a4 g4 d3 k1 by auto
    show "\<exists>d. cb_trial_experiments (cb ?s4) = ADict d \<and> fst ` set d \<subseteq> {..<Suc j}"
      using cb4 cb3 cb1 lt by (auto simp: dom_update)
  qed
  with step show ?thesis by (rule that)
qed

text \<open>The iterations from trial \<open>j\<close> to trial \<open>n - 1\<close>, each a numbered trial with several values.\<close>

lemma usage_loop:
  assumes "ready j s" and "j \<le> n"
    and tr: "\<And>i. j \<le> i \<Longrightarrow> i < n \<Longrightarrow>
               number (fst (trials i)) = i \<and> (\<exists>vs. trial_values (fst (trials i)) = Some vs \<and> 1 < length vs)"
  shows "\<exists>s'. for_each [j..<n] (\<lambda>i. optimize_step (\<lambda>_. False) (track_in_comet (objective_logs ls)) (trials i)) s =
               (Inr (), s') \<and> ready n s'"
  using assms
proof (induction n)
  case 0
  then show ?case by (simp add: exc_simps)
next
  case (Suc n)
  show ?case
  proof (cases "j = Suc n")
    case True
    with Suc.prems(1) show ?thesis by (simp add: exc_simps)
  next
    case False
    with Suc.prems(2) have jn: "j \<le> n" by simp
    from Suc.IH [OF Suc.prems(1) jn] Suc.prems(3)
    obtain s1 where l: "for_each [j..<n] (\<lambda>i. optimize_step (\<lambda>_. False) (track_in_comet (objective_logs ls)) (trials i)) s =
                         (Inr (), s1)" and r1: "ready n s1" by auto
    from Suc.prems(3) [of n] jn obtain vs where nn: "number (fst (trials n)) = n"
      and v: "trial_values (fst (trials n)) = Some vs" "1 < length vs" by auto
    obtain s' where st: "optimize_step (\<lambda>_. False) (track_in_comet (objective_logs ls)) (fst (trials n), snd (trials n)) s1 = (Inr (), s')"
      and r': "ready (Suc n) s'"
      using r1 nn v by (rule usage_step)
    from jn have "[j..<Suc n] = [j..<n] @ [n]" by simp
    with l st r' show ?thesis by (simp add: for_each_append then_exc_def exc_simps)
  qed
qed

text \<open>
  The construction of the docstring on a new study, from a fault-free process
  with no study experiment, no running session and no active experiment.
\<close>

lemma usage_init:
  assumes f: "faults (world s) = []" and w: "wf_st s" and a: "api_keys (store (world s)) = {}"
    and r: "running_keys (store (world s)) = {}" and n: "active s = None"
  obtains s1 where "cb_init (Some ws) (Some p) (Some names) (create_study name ds s) = (Inr (), s1)"
    and "ready 0 s1"
proof -
  let ?s0 = "create_study name ds s"
  have f0: "faults (world ?s0) = []" and w0: "wf_st ?s0" and n0: "active ?s0 = None"
    and u0: "user_attrs (study ?s0) = Map.empty"
    using f w n by (simp_all add: create_study_def wf_st_def)
  have p0: "proc_inv ?s0"
    using f w a r by (simp add: create_study_def proc_inv_def shared_inv_def wf_st_def study_inv_def sess_inv_def)
  from init_attributes_ok [OF f0, of "Some ws" "Some p" names]
  obtain sP where iP: "init_attributes (Some ws) (Some p) names ?s0 = (Inr (), sP)"
    and fP: "faults (world sP) = []" and wP: "wf_st sP" and uP: "user_attrs (study sP) = Map.empty"
    and nP: "active sP = None"
    using w0 u0 n0 by (auto simp: Let_def prod_eq_iff wf_st_def wf_world_def)
  let ?k = "key_of (next_id (world sP))"
  from study_exp_create [OF fP wP, of None] uP
  obtain sS where iS: "study_experiment_from_attr (user_attrs (study sP) ''comet_study_experiment_key'') sP = (Inr ?k, sS)"
    and fS: "faults (world sS) = []" and dS: "?k \<in> dom (store (world sS))"
    and stS: "study sS = set_user_attr ''comet_study_experiment_key'' (AStr ?k) (study sP)"
    and nS: "active sS = None"
    using nP by (auto simp: Let_def prod_eq_iff)
  define m where "m = then_exc (modify (\<lambda>s. s\<lparr>cb := (cb s)\<lparr>cb_study_experiment := ?k\<rparr>\<rparr>))
                (bind_exc (gets (\<lambda>s. directions (study s)))
                  (\<lambda>ds. then_exc (log_directions ?k names ds) load_trial_experiments))"
  have eq: "cb_init (Some ws) (Some p) (Some names) ?s0 = m sS"
    using cb_init_steps [where mnames = "Some names", OF _ iS] iP by (simp add: m_def)
  define s1 where "s1 = snd (m sS)"
  have T: "fst (m sS) = Inr () \<and> dom (store (world s1)) = dom (store (world sS)) \<and> study s1 = study sS \<and>
           active s1 = active sS \<and>
           cb s1 = (cb sS)\<lparr>cb_study_experiment := ?k, cb_trial_experiments :=
                   (case user_attrs (study sS) ''trial_experiments'' of
                      None \<Rightarrow> ADict [] | Some ANone \<Rightarrow> ADict [] | Some a \<Rightarrow> a)\<rparr>"
    using init_tail_ok [OF fS dS, of names] unfolding m_def s1_def Let_def by blast
  have tx: "user_attrs (study sS) ''trial_experiments'' = None" using stS uP by (simp add: set_user_attr_def)
  from T eq have i1: "cb_init (Some ws) (Some p) (Some names) ?s0 = (Inr (), s1)"
    by (simp add: s1_def prod_eq_iff)
  from T tx nS have d1: "dom (store (world s1)) = dom (store (world sS))" and st1: "study s1 = study sS"
    and n1: "active s1 = None"
    and cb1: "cb s1 = (cb sS)\<lparr>cb_study_experiment := ?k, cb_trial_experiments := ADict []\<rparr>" by simp_all
  from proc_inv_event [OF p0, where ev = "EInit (Some ws) (Some p) (Some names)"] i1
  have p1: "proc_inv s1" by simp
  have "ready 0 s1"
    using p1 d1 dS st1 stS n1 cb1 by (simp add: ready_def study_key_def set_user_attr_def)
  with i1 show ?thesis by (rule that)
qed

section \<open>The usage of the docstring runs to completion\<close>

text \<open>
  C7. The decorated usage of the class docstring (a new two-objective study,
  the callback constructed with metric names, workspace and project, an
  objective decorated by \<open>track_in_comet\<close> that logs to \<open>trial.experiment\<close>, and
  \<open>study.optimize(objective, n_trials=100, callbacks=[comet_callback])\<close>), run
  from a fault-free process with no study experiment, no running session and
  no active experiment, on trials numbered 0 to 99 with two values each,
  returns normally. Afterwards no Comet session is running, the callback's
  study experiment is stored and is the key the study stores, and it is the
  only \<open>APIExperiment\<close>.
\<close>

theorem docstring_usage_completes:
  assumes f: "faults (world s) = []" and w: "wf_st s" and a: "api_keys (store (world s)) = {}"
    and r: "running_keys (store (world s)) = {}" and n: "active s = None"
    and tr: "\<And>j. j < 100 \<Longrightarrow>
               number (fst (trials j)) = j \<and> (\<exists>vs. trial_values (fst (trials j)) = Some vs \<and> length vs = 2)"
  shows "\<exists>s'. docstring_decorated name trials s = Some (Inr (), s') \<and>
           running_keys (store (world s')) = {} \<and>
           cb_study_experiment (cb s') \<in> dom (store (world s')) \<and>
           study_key (study s') = {cb_study_experiment (cb s')} \<and>
           api_keys (store (world s')) \<subseteq> study_key (study s')"
proof -
  obtain s1 where i: "cb_init (Some ''your_workspace'') (Some ''your_project_name'') (Some [''accuracy'', ''top_k_accuracy''])
                        (create_study name [MINIMIZE, MAXIMIZE] s) = (Inr (), s1)" and r1: "ready 0 s1"
    using f w a r n by (rule usage_init)
  from usage_loop [OF r1, of 100 trials] tr
  obtain s' where l: "for_each [0..<100] (\<lambda>i. optimize_step (\<lambda>_. False)
                        (track_in_comet (objective_logs [(''foo'', OStr ''bar'')])) (trials i)) s1 = (Inr (), s')"
    and r': "ready 100 s'" by fastforce
  from r' have p: "proc_inv s'" and ac: "case active s' of None \<Rightarrow> True | Some a \<Rightarrow> act_ended a"
    by (auto simp: ready_def split: option.splits)
  from p have "sess_inv s'" by (simp add: proc_inv_def)
  from sess_inv_ended_none [OF this ac] have "running_keys (store (world s')) = {}" .
  with i l r' p show ?thesis
    by (simp add: docstring_decorated_def docstring_usage_def optimize_loop_for_each ready_def
        proc_inv_def shared_inv_def study_inv_def)
qed

theorem docstring_usage_completes_witness:
  "\<exists>s'. docstring_decorated ''s'' (\<lambda>j. (ex_mo_trial\<lparr>number := j\<rparr>, [0])) ex_st0 = Some (Inr (), s') \<and>
     running_keys (store (world s')) = {} \<and>
     cb_study_experiment (cb s') \<in> dom (store (world s')) \<and>
     study_key (study s') = {cb_study_experiment (cb s')} \<and>
     api_keys (store (world s')) \<subseteq> study_key (study s')"
proof -
  have "faults (world ex_st0) = []" "wf_st ex_st0" "api_keys (store (world ex_st0)) = {}"
    "running_keys (store (world ex_st0)) = {}" "active ex_st0 = None"
    by (simp_all add: ex_defs wf_st_def wf_world_def running_keys_def)
  moreover have "\<And>j. j < 100 \<Longrightarrow> number (fst ((\<lambda>j. (ex_mo_trial\<lparr>number := j\<rparr>, [0::nat])) j)) = j \<and>
      (\<exists>vs. trial_values (fst ((\<lambda>j. (ex_mo_trial\<lparr>number := j\<rparr>, [0::nat])) j)) = Some vs \<and> length vs = 2)"
    by (simp add: ex_mo_trial_def)
  ultimately show ?thesis by (rule docstring_usage_completes)
qed

end
