(* ===== verification/Imports.thy ===== *)
theory Imports
  imports Callback
begin

text \<open>
  Loading the module \<open>optuna_integration.comet\<close>, under the annotation
  semantics of Python before 3.14 (no \<open>from __future__ import annotations\<close>,
  so a \<open>def\<close> evaluates its parameter and return annotations when it runs).
  Lines 1 to 12 bind the imported names; lines 14 and 15 run
  \<open>import comet_ml\<close> inside \<open>with try_import() as _imports\<close>, which records an
  \<open>ImportError\<close> instead of raising it and leaves \<open>comet_ml\<close> unbound;
  \<open>_imports.check()\<close> would raise the recorded error, but the module never
  calls it. The class statement then defines the methods, evaluating their
  annotations in order; the return annotation \<open>comet_ml.APIExperiment\<close> of
  \<open>_init_optuna_study_experiment\<close> (line 139) refers to \<open>comet_ml\<close>.
\<close>

section \<open>Definitions\<close>

text \<open>The expressions an annotation or a default value is made of.\<close>

datatype pyexpr =
    PName string
  | PAttr pyexpr string
  | PSub pyexpr "pyexpr list"
  | PConst

text \<open>Evaluation in a namespace given by its bound names: an unbound name raises \<open>NameError\<close>.\<close>

fun eval_expr :: "string set \<Rightarrow> pyexpr \<Rightarrow> error + unit"
and eval_exprs :: "string set \<Rightarrow> pyexpr list \<Rightarrow> error + unit" where
  "eval_expr ns (PName n) = (if n \<in> ns then Inr () else Inl (NameError n))"
| "eval_expr ns (PAttr e a) = eval_expr ns e"
| "eval_expr ns (PSub e es) = (case eval_expr ns e of Inl err \<Rightarrow> Inl err | Inr _ \<Rightarrow> eval_exprs ns es)"
| "eval_expr ns PConst = Inr ()"
| "eval_exprs ns [] = Inr ()"
| "eval_exprs ns (e # es) = (case eval_expr ns e of Inl err \<Rightarrow> Inl err | Inr _ \<Rightarrow> eval_exprs ns es)"

text \<open>
  Lines 1 to 15: the names the imports bind (with the builtins the
  annotations use), and the error the guard records; \<open>comet_ml\<close> is bound only
  when the client library is installed.
\<close>

definition module_imports :: "bool \<Rightarrow> string set \<times> error option" where
  "module_imports installed =
     ({''functools'', ''Any'', ''Callable'', ''Dict'', ''Optional'', ''Sequence'', ''Union'', ''json'',
       ''optuna'', ''ObjectiveFuncType'', ''try_import'', ''_imports'', ''str'', ''float''} \<union>
      (if installed then {''comet_ml''} else {}),
      if installed then None else Some (ImportError ''comet_ml''))"

text \<open>\<open>_imports.check()\<close> of \<open>optuna_integration._imports\<close>.\<close>

definition imports_check :: "error option \<Rightarrow> error + unit" where
  "imports_check d = (case d of None \<Rightarrow> Inr () | Some e \<Rightarrow> Inl e)"

text \<open>
  What each \<open>def\<close> of the class evaluates, in order: its default values, then
  its parameter annotations, then its return annotation.
\<close>

definition init_annotations :: "pyexpr list" where
  "init_annotations =
     [PConst, PConst, PConst,
      PAttr (PAttr (PName ''optuna'') ''study'') ''Study'',
      PSub (PName ''Optional'') [PName ''str''],
      PSub (PName ''Optional'') [PName ''str''],
      PSub (PName ''Optional'') [PSub (PName ''Sequence'') [PName ''str'']],
      PConst]"

definition call_annotations :: "pyexpr list" where
  "call_annotations = [PAttr (PName ''optuna'') ''Study'', PAttr (PName ''optuna'') ''Trial'', PConst]"

definition study_exp_annotations :: "pyexpr list" where
  "study_exp_annotations = [PAttr (PName ''optuna'') ''Study'', PAttr (PName ''comet_ml'') ''APIExperiment'']"

definition trial_exp_annotations :: "pyexpr list" where
  "trial_exp_annotations =
     [PAttr (PName ''optuna'') ''Study'', PAttr (PName ''optuna'') ''Trial'', PAttr (PName ''comet_ml'') ''Experiment'']"

definition track_annotations :: "pyexpr list" where
  "track_annotations = [PName ''Callable'']"

text \<open>The class statement: the method definitions in the order of the source.\<close>

definition class_annotations :: "pyexpr list" where
  "class_annotations =
     init_annotations @ call_annotations @ study_exp_annotations @ trial_exp_annotations @ track_annotations"

text \<open>Executing the module: the imports, then the class statement.\<close>

definition load_module :: "bool \<Rightarrow> error + unit" where
  "load_module installed = eval_exprs (fst (module_imports installed)) class_annotations"

section \<open>Without the client library\<close>

lemma eval_exprs_append:
  "eval_exprs ns (xs @ ys) = (case eval_exprs ns xs of Inl err \<Rightarrow> Inl err | Inr _ \<Rightarrow> eval_exprs ns ys)"
  by (induction xs) (simp_all split: sum.split)

text \<open>
  C21. With the client library installed the module loads. Without it, the
  guard records an \<open>ImportError\<close> (the error \<open>_imports.check()\<close> would raise),
  but nothing raises it: executing the class statement evaluates the return
  annotation \<open>comet_ml.APIExperiment\<close> of line 139 and raises \<open>NameError\<close> for
  \<open>comet_ml\<close>, so importing the module fails before any callback exists, with
  an error that does not name the missing package as the guard intends.
\<close>

theorem missing_comet_raises_name_error:
  "load_module True = Inr () \<and>
   imports_check (snd (module_imports False)) = Inl (ImportError ''comet_ml'') \<and>
   load_module False = Inl (NameError ''comet_ml'') \<and>
   eval_exprs (fst (module_imports False)) (init_annotations @ call_annotations) = Inr ()"
  by (simp add: load_module_def module_imports_def imports_check_def class_annotations_def eval_exprs_append
      init_annotations_def call_annotations_def study_exp_annotations_def trial_exp_annotations_def
      track_annotations_def)

end
