(* ===== verification/Procs.thy ===== *)
theory Procs
  imports Runs
begin

text \<open>
  Several worker processes of one distributed study: each has its own callback
  object and its own \<open>comet_ml.active_experiment\<close>; they share the tracking
  service and the study (Optuna's storage). A process runs one of its events on
  the shared state through \<open>on_proc\<close>. When each construction of the callback
  runs without interruption, the study keeps at most one study experiment,
  whatever the interleaving of whole events. The code reads the stored key
  (line 141) and writes a new one (line 151) with four remote calls between,
  without any lock; a second process that constructs its callback in that
  window makes a second study experiment.
\<close>

section \<open>Definitions\<close>

record proc =
  p_cb :: cb
  p_active :: "active_exp option"

record sys =
  sh_world :: world
  sh_study :: study
  procs :: "nat \<Rightarrow> proc"

text \<open>What process \<open>i\<close> sees, and the shared state after it ran.\<close>

definition view :: "sys \<Rightarrow> nat \<Rightarrow> st" where
  "view y i = \<lparr>world = sh_world y, study = sh_study y, cb = p_cb (procs y i), active = p_active (procs y i)\<rparr>"

definition publish :: "sys \<Rightarrow> nat \<Rightarrow> st \<Rightarrow> sys" where
  "publish y i s =
     y\<lparr>sh_world := world s, sh_study := study s, procs := (procs y)(i := \<lparr>p_cb = cb s, p_active = active s\<rparr>)\<rparr>"

definition on_proc :: "nat \<Rightarrow> (st, 'a) exc \<Rightarrow> (sys, 'a) exc" where
  "on_proc i m y = (case m (view y i) of (r, s') \<Rightarrow> (r, publish y i s'))"

text \<open>Interleavings of whole events of the processes.\<close>

inductive sys_reach :: "sys \<Rightarrow> sys \<Rightarrow> bool" for y0 :: sys where
  start: "sys_reach y0 y0"
| step: "sys_reach y0 y \<Longrightarrow> sys_reach y0 (snd (on_proc i (run_event ev) y))"

text \<open>
  \<open>__init__\<close> up to the read of the stored key (lines 75 to 141), and from the
  value read on (lines 143 to 153, then 89 to 101).
\<close>

definition init_upto_read :: "string option \<Rightarrow> string option \<Rightarrow> string list \<Rightarrow> (st, attr option) exc" where
  "init_upto_read ws proj names =
     then_exc (init_attributes ws proj names) (gets (\<lambda>s. user_attrs (study s) ''comet_study_experiment_key''))"

definition init_from_read :: "string list \<Rightarrow> attr option \<Rightarrow> (st, unit) exc" where
  "init_from_read names a =
     bind_exc (study_experiment_from_attr a)
       (\<lambda>k. then_exc (modify (\<lambda>s. s\<lparr>cb := (cb s)\<lparr>cb_study_experiment := k\<rparr>\<rparr>))
         (bind_exc (gets (\<lambda>s. directions (study s)))
           (\<lambda>ds. then_exc (log_directions k names ds) load_trial_experiments)))"

text \<open>Two fresh workers of a new study, and the race: worker 0 reads no key,
  worker 1 constructs its callback, worker 0 goes on with what it read.\<close>

definition ex_sys0 :: sys where
  "ex_sys0 = \<lparr>sh_world = ex_world, sh_study = ex_study, procs = (\<lambda>i. \<lparr>p_cb = cb ex_st0, p_active = None\<rparr>)\<rparr>"

definition ex_race :: sys where
  "ex_race =
     (case on_proc 0 (init_upto_read None (Some ''general'') []) ex_sys0 of
        (Inr a, y1) \<Rightarrow> snd (on_proc 0 (init_from_read [] a) (snd (on_proc 1 (cb_init None (Some ''general'') None) y1)))
      | (Inl e, y1) \<Rightarrow> y1)"

definition ex_sys_run :: sys where
  "ex_sys_run = snd (on_proc 1 (run_event (EInit None (Some ''general'') None))
                  (snd (on_proc 0 (run_event (EInit None (Some ''general'') None)) ex_sys0)))"

section \<open>The shared invariant over interleavings\<close>

lemma view_publish [simp]: "view (publish y i s) i = s"
  by (simp add: view_def publish_def)

lemma shared_inv_view: "shared_inv (view y i) \<longleftrightarrow> shared_inv (view y j)"
  by (simp add: shared_inv_def wf_st_def study_inv_def view_def)

lemma on_proc_shared:
  assumes "keeps shared_inv m" and "shared_inv (view y i)"
  shows "shared_inv (view (snd (on_proc i m y)) j)"
proof -
  from assms have "shared_inv (snd (m (view y i)))" by (rule keepsD)
  then have "shared_inv (view (snd (on_proc i m y)) i)" by (cases "m (view y i)") (simp add: on_proc_def)
  then show ?thesis by (simp add: shared_inv_view [of _ i j])
qed

lemma sys_reach_shared: "sys_reach y0 y \<Longrightarrow> shared_inv (view y0 0) \<Longrightarrow> shared_inv (view y 0)"
proof (induction rule: sys_reach.induct)
  case start
  then show ?case .
next
  case (step y i ev)
  then have "shared_inv (view y i)" using shared_inv_view by blast
  with keeps_shared_event show ?case by (rule on_proc_shared)
qed

text \<open>The read splits \<open>__init__\<close>: its two halves in sequence are the method.\<close>

lemma cb_init_split:
  "cb_init ws proj mnames =
     bind_exc (init_upto_read ws proj (case mnames of None \<Rightarrow> [] | Some ns \<Rightarrow> ns))
       (\<lambda>a. init_from_read (case mnames of None \<Rightarrow> [] | Some ns \<Rightarrow> ns) a)"
  by (simp add: cb_init_def init_upto_read_def init_from_read_def init_study_experiment_def then_exc_def
                bind_exc_assoc Let_def)

lemmas sys_evals = on_proc_def view_def publish_def init_upto_read_def init_from_read_def run_evals
  ex_sys0_def ex_defs new_experiment_def study_key_def set_user_attr_def

section \<open>One study experiment, unless a construction is interrupted\<close>

text \<open>
  C5. Across worker processes whose events interleave as wholes, on a
  fault-free service, the study keeps at most one study experiment: every
  \<open>APIExperiment\<close> record is the one whose key the study stores.
\<close>

theorem atomic_inits_single_study_experiment:
  assumes "sys_reach y0 y" and "shared_inv (view y0 0)"
  shows "api_keys (store (sh_world y)) \<subseteq> study_key (sh_study y) \<and>
         (\<forall>k1 \<in> api_keys (store (sh_world y)). \<forall>k2 \<in> api_keys (store (sh_world y)). k1 = k2)"
proof -
  from sys_reach_shared [OF assms] have "api_keys (store (sh_world y)) \<subseteq> study_key (sh_study y)"
    by (simp add: shared_inv_def study_inv_def view_def)
  moreover have "\<forall>k1 \<in> study_key (sh_study y). \<forall>k2 \<in> study_key (sh_study y). k1 = k2"
    by (simp add: study_key_def split: option.splits attr.splits)
  ultimately show ?thesis by blast
qed

theorem atomic_inits_single_study_experiment_witness:
  "sys_reach ex_sys0 ex_sys_run \<and> api_keys (store (sh_world ex_sys_run)) = {''exp0''} \<and>
   cb_study_experiment (p_cb (procs ex_sys_run 1)) = ''exp0''"
proof -
  have r: "sys_reach ex_sys0 ex_sys_run" unfolding ex_sys_run_def by (intro sys_reach.step sys_reach.start)
  have p: "shared_inv (view ex_sys0 0)"
    by (simp add: shared_inv_def view_def ex_sys0_def ex_defs wf_st_def wf_world_def study_inv_def)
  have k: "''exp0'' \<in> api_keys (store (sh_world ex_sys_run))" and sk: "study_key (sh_study ex_sys_run) = {''exp0''}"
    and c: "cb_study_experiment (p_cb (procs ex_sys_run 1)) = ''exp0''"
    by (simp_all add: ex_sys_run_def sys_evals)
  from atomic_inits_single_study_experiment [OF r p] r k sk c show ?thesis by blast
qed

text \<open>
  C18. The check-then-create of lines 141 to 151 is not atomic: when worker 1
  constructs its callback after worker 0 read no key and before worker 0
  stored its new one, there are two study experiments; the study stores
  worker 0's key, and worker 1 keeps logging the best trials to the other.
\<close>

theorem race_duplicates_study_experiment:
  "api_keys (store (sh_world ex_race)) = {''exp0'', ''exp1''} \<and> study_key (sh_study ex_race) = {''exp1''} \<and>
   cb_study_experiment (p_cb (procs ex_race 1)) = ''exp0'' \<and>
   cb_study_experiment (p_cb (procs ex_race 0)) = ''exp1'' \<and> \<not> shared_inv (view ex_race 0)"
proof -
  have a: "api_keys (store (sh_world ex_race)) = {''exp0'', ''exp1''}" and k: "study_key (sh_study ex_race) = {''exp1''}"
    and c1: "cb_study_experiment (p_cb (procs ex_race 1)) = ''exp0''"
    and c0: "cb_study_experiment (p_cb (procs ex_race 0)) = ''exp1''"
    by (simp_all add: ex_race_def sys_evals insert_commute)
  from a k have "\<not> shared_inv (view ex_race 0)" by (simp add: shared_inv_def study_inv_def view_def)
  with a k c1 c0 show ?thesis by blast
qed

end
