(* ===== verification/TrialMap.thy ===== *)
theory TrialMap
  imports Runs
begin

text \<open>
  The trial mapping \<open>self._trial_experiments\<close>: \<open>__init__\<close> loads it from the
  study's \<open>trial_experiments\<close> attribute, and replaces a missing or None value by
  a new empty dict (lines 98 to 100); \<open>_init_optuna_trial_experiment\<close> reads it
  with \<open>.get\<close> (line 162) and extends it (line 181). When that attribute holds a
  dict or nothing, a construction that returns leaves the mapping a dict, and
  every later \<open>__call__\<close> and decorated objective keeps it one, under any fault
  schedule, so \<open>.get\<close> and item assignment always apply to a dict.
\<close>

section \<open>Definitions\<close>

text \<open>The study attribute holds a dict, None, or nothing.\<close>

definition dict_or_none :: "attr option \<Rightarrow> bool" where
  "dict_or_none a = (case a of None \<Rightarrow> True | Some ANone \<Rightarrow> True | Some (ADict _) \<Rightarrow> True | Some _ \<Rightarrow> False)"

text \<open>The mapping of the callback object is a dict.\<close>

definition mapping_dict :: "st \<Rightarrow> bool" where
  "mapping_dict s \<longleftrightarrow> (case cb_trial_experiments (cb s) of ADict _ \<Rightarrow> True | _ \<Rightarrow> False)"

section \<open>The construction makes the mapping a dict\<close>

text \<open>A construction that returns normally ends with line 98 to 100 on the attribute it leaves.\<close>

lemma cb_init_mapping:
  assumes "cb_init ws p names s = (Inr (), s1)"
  shows "cb_trial_experiments (cb s1) =
           (case user_attrs (study s1) ''trial_experiments'' of
              None \<Rightarrow> ADict [] | Some ANone \<Rightarrow> ADict [] | Some a \<Rightarrow> a)"
  using assms
  by (auto simp: cb_init_def Let_def load_trial_experiments_def modify_def gets_def
      dest!: then_exc_InrD bind_exc_InrD)

lemma cb_init_keeps_attr:
  "user_attrs (study (snd (cb_init ws p names s))) ''trial_experiments'' = user_attrs (study s) ''trial_experiments''"
  by (rule keepsD [OF keeps_frame_cb_init, where P = "\<lambda>x. user_attrs (study x) ''trial_experiments'' =
        user_attrs (study s) ''trial_experiments''"]) (simp_all add: set_user_attr_def)

section \<open>Every later call keeps it a dict\<close>

lemma mapping_dict_world [simp]: "mapping_dict (s\<lparr>world := w\<rparr>) = mapping_dict s"
  by (simp add: mapping_dict_def)

lemma mapping_dict_active [simp]: "mapping_dict (s\<lparr>active := a\<rparr>) = mapping_dict s"
  by (simp add: mapping_dict_def)

lemma obs_frame_dict: "obs_frame mapping_dict"
  by (simp add: obs_frame_def)

lemma keeps_dict_init_trial: "keeps mapping_dict (init_trial_experiment t)"
proof -
  have c: "keeps mapping_dict (create_trial_experiment t)"
    unfolding create_trial_experiment_def activate_def
    by (rule keeps_reading) (intro keeps_local_intros;
        auto simp: mapping_dict_def dict_set_def split: attr.splits)
  show ?thesis
    unfolding init_trial_experiment_def start_trial_experiment_def activate_def
    by (rule keeps_reading) (intro keeps_local_intros keeps_frame_end_active obs_frame_dict c; simp)
qed

lemma keeps_dict_cb_call: "keeps mapping_dict (cb_call t)"
  unfolding cb_call_def
  by (intro keeps_local_intros keeps_dict_init_trial keeps_frame_end_active keeps_frame_log_objectives
        keeps_frame_log_best_trials obs_frame_dict; simp)

lemma keeps_dict_track: "keeps mapping_dict (track_in_comet (objective_logs ls) t)"
  unfolding track_in_comet_def objective_logs_def
  by (intro keeps_bind_exc keeps_dict_init_trial keeps_local_intros; simp)

text \<open>
  C11. Type invariant of the trial mapping: when the study's
  \<open>trial_experiments\<close> attribute is a dict, None or absent, a construction of
  the callback that returns normally leaves \<open>self._trial_experiments\<close> a dict,
  and every later \<open>__call__\<close> and decorated objective, from any state where it
  is a dict and under any fault schedule, leaves it a dict: \<open>.get\<close> and item
  assignment are always applied to a dict.
\<close>

theorem trial_mapping_stays_dict:
  assumes "dict_or_none (user_attrs (study s) ''trial_experiments'')" and "cb_init ws p names s = (Inr (), s1)"
  shows "mapping_dict s1 \<and>
         (\<forall>t s'. mapping_dict s' \<longrightarrow> mapping_dict (snd (cb_call t s'))) \<and>
         (\<forall>t ls s'. mapping_dict s' \<longrightarrow> mapping_dict (snd (track_in_comet (objective_logs ls) t s')))"
proof (intro conjI allI impI)
  from cb_init_keeps_attr [of ws p names s] assms(2)
  have "user_attrs (study s1) ''trial_experiments'' = user_attrs (study s) ''trial_experiments''" by simp
  with cb_init_mapping [OF assms(2)] assms(1) show "mapping_dict s1"
    by (auto simp: mapping_dict_def dict_or_none_def split: option.splits attr.splits)
next
  fix t s' assume "mapping_dict s'"
  then show "mapping_dict (snd (cb_call t s'))" by (rule keepsD [OF keeps_dict_cb_call])
next
  fix t ls s' assume "mapping_dict s'"
  then show "mapping_dict (snd (track_in_comet (objective_logs ls) t s'))" by (rule keepsD [OF keeps_dict_track])
qed

theorem trial_mapping_stays_dict_witness:
  "mapping_dict (snd (cb_init None (Some ''general'') None ex_st0)) \<and>
   mapping_dict (snd (cb_call ex_trial (snd (cb_init None (Some ''general'') None ex_st0))))"
proof -
  have a: "dict_or_none (user_attrs (study ex_st0) ''trial_experiments'')" by (simp add: dict_or_none_def ex_defs)
  obtain s1 where i: "cb_init None (Some ''general'') None ex_st0 = (Inr (), s1)"
    by (simp add: ex_defs run_evals new_experiment_def set_user_attr_def)
  from trial_mapping_stays_dict [OF a i] i show ?thesis by simp
qed

end
