(* ===== verification/Spec2Isabelle.thy ===== *)
theory Spec2Isabelle
  imports Optimize Imports Procs TrialMap
begin

text \<open>
  \<^bold>\<open>A verification library of \<open>src/optuna_integration/comet.py\<close>.\<close>

  \<^bold>\<open>The program.\<close> \<open>CometCallback\<close> links an Optuna study to the Comet
  tracking service. Its constructor \<open>__init__\<close> resolves one study experiment
  (an \<open>APIExperiment\<close>) through the key \<open>comet_study_experiment_key\<close> stored in
  the study's user attributes (\<open>_init_optuna_study_experiment\<close>), annotates
  the objective directions, and loads the trial mapping. Optuna calls
  \<open>__call__\<close> after each trial: it resolves the trial's experiment (a running
  \<open>Experiment\<close> session, \<open>_init_optuna_trial_experiment\<close>), logs parameters,
  trial number, the objective values and the best trials, and ends the
  session. \<open>track_in_comet\<close> wraps an objective so that it resolves the trial's
  experiment before the objective runs. The process-wide pointer
  \<open>comet_ml.active_experiment\<close> ties the two together.

  \<^bold>\<open>Theories.\<close>
  \<^item> \<open>Prelude\<close>: the values exchanged (keys, parameters, annotations, errors),
    a state-and-exception monad \<open>('s, 'a) exc\<close> (every \<open>raise\<close> of the code is an
    \<open>Inl\<close>), \<open>for_each\<close> for Python's \<open>for\<close>, the invariant-preservation
    combinator \<open>keeps\<close>, and Python's truthiness and \<open>dict.get\<close>.
  \<^item> \<open>PyText\<close>: \<open>str()\<close> of a non-negative int and \<open>json.dumps\<close> of an int list,
    with a parser showing that \<open>json.dumps\<close> is injective.
  \<^item> \<open>Optuna\<close>: the study and \<open>FrozenTrial\<close> as the callback reads them
    (\<open>study.direction\<close> raising on a multi-objective study, \<open>trial.value\<close>).
  \<^item> \<open>Comet\<close>: the service: records by key, fresh keys, the default workspace,
    the log of successful calls, and a \<^emph>\<open>fault schedule\<close>: the indices of the
    remote attempts that fail with a network error. \<open>comet\<close> is one attempt.
  \<^item> \<open>Callback\<close>: the class, one definition per method and per block of a
    method, with the code's names: \<open>init_attributes\<close>, \<open>init_study_experiment\<close>
    (with \<open>study_experiment_from_attr\<close>), \<open>log_directions\<close>,
    \<open>load_trial_experiments\<close> and their composition \<open>cb_init\<close> (\<open>__init__\<close>,
    lines 68-101); \<open>init_trial_experiment\<close>, \<open>start_trial_experiment\<close>,
    \<open>create_trial_experiment\<close>, \<open>activate\<close>, \<open>end_active\<close> (lines 155-184);
    \<open>log_objectives\<close>, \<open>log_metrics\<close>, \<open>log_best_trials\<close> and \<open>cb_call\<close>
    (\<open>__call__\<close>, lines 103-134); \<open>track_in_comet\<close> (lines 186-196). The state
    \<open>st\<close> is the service, the study, the callback's attributes and the active
    experiment; each statement is a function of it. Also: the service invariant
    \<open>svc_inv\<close> kept by every call, the frames of the statements.
  \<^item> \<open>Logging\<close>: the per-trial specification \<open>spec_trial_calls\<close> and the
    refinement of \<open>__call__\<close> against it; the metric loop against a loop over
    padded names; the error path of a failed multi-objective trial.
  \<^item> \<open>StudyExp\<close>: the construction: creation and reuse of the study experiment,
    the missing-workspace error.
  \<^item> \<open>Trials\<close>: resolution of trial experiments, reuse by the wrapper, the best
    trials annotation, and the trial mapping never written back to the study.
  \<^item> \<open>Runs\<close>: runs of one process as the inductive \<open>reach\<close> over events
    (construction, callback, decorated objective) in any order, continuing
    after exceptions as Optuna does; the invariants \<open>shared_inv\<close> and
    \<open>proc_inv\<close> by rule induction; the liveness of session closing; the
    counterexamples under faults.
  \<^item> \<open>Procs\<close>: several worker processes sharing the service and the study,
    each with its own callback and active experiment; interleaving of whole
    events, and the one statement-level interleaving that matters: a
    construction split at its read of the stored key (\<open>init_upto_read\<close>,
    \<open>init_from_read\<close>), which gives the race.
  \<^item> \<open>TrialMap\<close>: the type of \<open>self._trial_experiments\<close>: a dict after a
    construction that returns (lines 98-100 replace None by \<open>{}\<close>), kept a
    dict by every later call.
  \<^item> \<open>Optimize\<close>: the driver, Optuna's \<open>study.optimize(func, n_trials,
    callbacks=[comet_callback])\<close> in its sequential form: \<open>run_trial\<close> (the
    objective, a failure re-raised unless \<open>catch\<close> names it), \<open>optimize_step\<close>
    (the trial, then the callback) and the loop \<open>optimize_loop\<close>, a
    \<open>partial_function (option)\<close> since without \<open>n_trials\<close> only an exception
    ends it; the two usages of the class docstring (lines 41-44 and 56-65,
    \<open>docstring_usage\<close>, \<open>docstring_decorated\<close>) composed from \<open>create_study\<close>,
    \<open>cb_init\<close> and the loop; the invariant \<open>ready\<close> between two trials.
  \<^item> \<open>Imports\<close>: loading the module: the names lines 1-15 bind, with the
    import guard (\<open>module_imports\<close>, \<open>imports_check\<close>), and the class statement,
    which evaluates the annotations of its methods (\<open>eval_expr\<close>,
    \<open>class_annotations\<close>, \<open>load_module\<close>), as Python before 3.14 does.
  \<^item> \<open>Cost\<close>: round trips to the service, \<open>calls_le\<close>, composed along the
    statements; \<open>__call__\<close> makes at most \<open>9 + k\<close> for \<open>k\<close> objective values,
    and exactly that many when a trial replaces an open experiment.

  \<^bold>\<open>Results.\<close> The claims are the theorems preceded by a text naming them
  (C1, C2, ...). They include: \<open>__call__\<close> refines its specification; a
  trial's resolution ends the previous session first; on fault-free runs of
  one process at most one session runs and exactly the stored study
  experiment exists, also across processes whose events interleave as
  wholes; every session a callback opened is closed when it returns; the
  trial mapping stays a dict under every fault schedule; the round-trip
  bound and its exactness; the decorated usage of the docstring runs its
  hundred trials to a normal return with no session left running and the
  stored study experiment the only one. Counterexamples are proved as theorems on
  concrete runs: a fault after \<open>Experiment()\<close> leaks a running session, a fault
  in the construction or two concurrent constructions duplicate the study
  experiment, the trial mapping is never persisted, and a failed trial of a
  multi-objective study raises before ending its session; without the
  client library, importing the module raises \<open>NameError\<close> at line 139
  rather than the \<open>ImportError\<close> the guard recorded.

  \<^bold>\<open>Bounds and fuel.\<close> No fuel is used: every loop of the code runs over a
  finite list (directions, values, best trials) and is a structural recursion
  (\<open>for_each\<close>), so every definition of the callback is total. The one loop
  that may not end is Optuna's optimize loop without \<open>n_trials\<close>; it is a
  \<open>partial_function (option)\<close>; with \<open>n_trials\<close> it equals the sequence of its
  iterations (\<open>optimize_loop_for_each\<close>), so it returns, and the docstring's
  usage is proved to return normally by induction over the hundred trials
  with the invariant \<open>ready\<close>. Runs are finite
  sequences of events, of any length (the inductive \<open>reach\<close>). Faults are an
  arbitrary finite set of attempt indices, so "under any fault schedule"
  quantifies over all of them; fault-free results take the empty schedule.

  \<^bold>\<open>Not modelled.\<close> The code of the context manager \<open>try_import\<close> itself
  (outside \<open>src/\<close>; only its documented effect is modelled); the attributes
  the annotations look up in \<open>optuna\<close> and \<open>comet_ml\<close> (assumed present); the prose of the class docstring; the internals of \<open>comet_ml\<close> (wire protocol, buffering, retries,
  automatic logging of code and system metrics) beyond the effect of each
  call on the records; Optuna's sampling, pruning, storage backends and the
  computation of \<open>best_trials\<close> (a field of the study, which each finished
  trial sets from the trial source), timeouts and parallel \<open>n_jobs\<close> of
  \<open>study.optimize\<close>; interleaving of
  processes inside a statement other than at the read of the stored key.
  The numeric values are \<open>real\<close>; floating point formatting is not modelled.
\<close>

end
